theory Spec2Isabelle
  imports Complex_Main
begin

section \<open>Numbers, month keys and the price series\<close>

text \<open>
  The simulator works on JavaScript numbers. They are embedded as follows.
  \<^item> In the embedding of the simulator a number the source computes with is a
    \<^typ>\<open>real\<close>: arithmetic is exact, without rounding and without overflow. The properties
    of balances, withdrawals, rates and failures are proved there. The properties that
    speak of finiteness and of \<^verbatim>\<open>NaN\<close> are proved over a second embedding of the return
    series builder and of the sweep, over numbers that can overflow (section
    \<open>Overflow and NaN\<close>).
  \<^item> A number the source tests with \<^verbatim>\<open>Number.isFinite\<close> before using it, or that may be
    \<^verbatim>\<open>null\<close>, is a \<^typ>\<open>real option\<close>: \<open>Some x\<close> is the finite number \<open>x\<close> and \<open>None\<close> is
    any other value (\<^verbatim>\<open>NaN\<close>, an infinity, \<^verbatim>\<open>undefined\<close>, \<^verbatim>\<open>null\<close>).
  \<^item> A close is only ever read as \<^verbatim>\<open>Number(m.close)\<close>, and the field \<open>close\<close> holds that
    conversion: \<open>Some x\<close> when it is the finite number \<open>x\<close>, \<open>None\<close> when it is not finite
    (\<^verbatim>\<open>NaN\<close>, an infinity, and what converts to them, as \<^verbatim>\<open>undefined\<close> does). A \<^verbatim>\<open>null\<close>
    close converts to 0 and is \<open>Some 0\<close>.
  \<^item> Every division of the simulator by a variable is guarded in the source by a test
    that the divisor is positive, so \<open>/\<close> on reals agrees with the source wherever it is
    evaluated.
  \<^item> \<^verbatim>\<open>Number(s)\<close> on a string is a parameter \<open>num\<close> of the functions that read month
    keys: \<open>num s\<close> is \<open>Some x\<close> when the string converts to the finite number \<open>x\<close> and
    \<open>None\<close> otherwise. All theorems hold for every such conversion; \<open>decimal\<close> below is the
    conversion of digit strings, used on concrete inputs.
\<close>

record MonthlyPricePoint =
  month :: string
  close :: "real option"

definition clamp :: "real \<Rightarrow> real \<Rightarrow> real \<Rightarrow> real" where
  "clamp n lo hi = max lo (min hi n)"

text \<open>\<^verbatim>\<open>String(month).split("-")\<close>: the pieces between the dashes, at least one piece.\<close>

fun split_dash :: "string \<Rightarrow> string list" where
  "split_dash [] = [[]]"
| "split_dash (c # cs) =
     (if c = CHR ''-'' then [] # split_dash cs
      else (case split_dash cs of [] \<Rightarrow> [[c]] | p # ps \<Rightarrow> (c # p) # ps))"

text \<open>\<^verbatim>\<open>s.slice(a, b)\<close> for \<open>0 \<le> a \<le> b\<close>.\<close>

definition slice :: "nat \<Rightarrow> nat \<Rightarrow> string \<Rightarrow> string" where
  "slice a b s = take (b - a) (drop a s)"

text \<open>
  \<^verbatim>\<open>monthToIndex\<close>: the destructuring \<^verbatim>\<open>[yStr, mStr]\<close> takes the first two pieces; a missing
  second piece is \<^verbatim>\<open>undefined\<close>, whose conversion is \<^verbatim>\<open>NaN\<close>. The result \<open>None\<close> is \<^verbatim>\<open>null\<close>.
\<close>

definition monthToIndex :: "(string \<Rightarrow> real option) \<Rightarrow> string \<Rightarrow> real option" where
  "monthToIndex num m_str =
     (case split_dash m_str of
        [] \<Rightarrow> None
      | yStr # rest \<Rightarrow>
          (let y = num yStr;
               m = (case rest of [] \<Rightarrow> None | mStr # _ \<Rightarrow> num mStr)
           in case (y, m) of
                (Some yv, Some mv) \<Rightarrow>
                  if mv < 1 \<or> mv > 12 then None else Some (yv * 12 + (mv - 1))
              | _ \<Rightarrow> None))"

text \<open>\<^verbatim>\<open>Array.prototype.findIndex\<close>; \<open>None\<close> is the result \<open>-1\<close>.\<close>

fun findIndex :: "('a \<Rightarrow> bool) \<Rightarrow> 'a list \<Rightarrow> nat option" where
  "findIndex P [] = None"
| "findIndex P (x # xs) =
     (if P x then Some 0 else map_option Suc (findIndex P xs))"

text \<open>
  \<^verbatim>\<open>findMonthIndex\<close>: an entry with the very same key first, otherwise the first entry
  whose key denotes the same month number. \<open>None\<close> is the result \<open>-1\<close>.
\<close>

definition findMonthIndex ::
  "(string \<Rightarrow> real option) \<Rightarrow> MonthlyPricePoint list \<Rightarrow> string \<Rightarrow> nat option" where
  "findMonthIndex num monthly monthStr =
     (case findIndex (\<lambda>m. month m = monthStr) monthly of
        Some idx \<Rightarrow> Some idx
      | None \<Rightarrow>
          (case monthToIndex num monthStr of
             None \<Rightarrow> None
           | Some want \<Rightarrow> findIndex (\<lambda>m. monthToIndex num (month m) = Some want) monthly))"

text \<open>
  \<^verbatim>\<open>buildReturns\<close> (\<^verbatim>\<open>buildMonthlyReturns\<close> in the browser copy, with the same body), over
  exact reals: the array is filled with 0 and every index from 1 on is overwritten. This
  is the return series the embedding of the simulator computes with; \<open>buildReturns_ext\<close>
  below is the same function with overflow.
\<close>

definition return_of :: "real option \<Rightarrow> real option \<Rightarrow> real" where
  "return_of prev cur =
     (case (prev, cur) of
        (Some p, Some c) \<Rightarrow> if p > 0 then c / p - 1 else 0
      | _ \<Rightarrow> 0)"

definition buildReturns :: "MonthlyPricePoint list \<Rightarrow> real list" where
  "buildReturns monthly =
     (let closes = map close monthly;
          returns = replicate (length monthly) 0
      in fold (\<lambda>i returns. returns[i := return_of (closes ! (i - 1)) (closes ! i)])
           [1 ..< length monthly] returns)"

text \<open>
  \<^verbatim>\<open>monthlyInflationRateFromAnnualPct\<close>. \<^verbatim>\<open>Math.pow(1 + a, 1 / 12)\<close> is taken only for
  \<open>1 + a \<ge> 0.01\<close>, where it is the real power.
\<close>

definition monthlyInflationRateFromAnnualPct :: "real option \<Rightarrow> real" where
  "monthlyInflationRateFromAnnualPct annualPct =
     (let a = (case annualPct of Some p \<Rightarrow> p | None \<Rightarrow> 3) / 100
      in if a < - 0.99 then - 0.99 else (1 + a) powr (1 / 12) - 1)"

text \<open>\<^verbatim>\<open>median\<close>; \<open>None\<close> is \<^verbatim>\<open>null\<close>.\<close>

definition median :: "real list \<Rightarrow> real option" where
  "median values =
     (if values = [] then None
      else let sorted_values = sort values;
               mid = length sorted_values div 2
           in if length sorted_values mod 2 = 1 then Some (sorted_values ! mid)
              else Some ((sorted_values ! (mid - 1) + sorted_values ! mid) / 2))"

section \<open>The withdrawal policy evaluator\<close>

datatype error =
    StartMonthNotFound
  | NotEnoughData
  | GuardrailsStartRate
  | GuardrailsMinRate
  | GuardrailsMaxRate
  | GuardrailsMinMax
  | WithdrawRate
  | UnknownMode

record GuardrailsConfig =
  minRate :: real
  maxRate :: real
  step :: real
  minDollarFloor :: real

text \<open>A \<^verbatim>\<open>null\<close> rate in arithmetic is 0.\<close>

definition rate_num :: "real option \<Rightarrow> real" where
  "rate_num r = (case r of None \<Rightarrow> 0 | Some x \<Rightarrow> x)"

text \<open>
  \<^verbatim>\<open>computeWithdrawal\<close> of the simulation library. The mutable \<^verbatim>\<open>guardrailsState.currentRate\<close>
  is passed in and returned: the result is the withdrawal, the reported \<^verbatim>\<open>guardrailsRate\<close>
  and the rate the state holds after the call. \<^verbatim>\<open>ytdReturnAfterMarket\<close> is a real, so its
  finiteness test holds.
\<close>

definition computeWithdrawal ::
  "string \<Rightarrow> real \<Rightarrow> real \<Rightarrow> real \<Rightarrow> string \<Rightarrow> real option \<Rightarrow> GuardrailsConfig \<Rightarrow> real \<Rightarrow> bool \<Rightarrow>
   real \<Rightarrow> real \<Rightarrow> error + (real \<times> real option \<times> real option)" where
  "computeWithdrawal mode ratePerYear initialBalance balance frequency currentRate guardrailsConfig
     ytdReturnAfterMarket isWithdrawalMonth inflationBasePeriodWithdraw inflationFactor =
     (if \<not> isWithdrawalMonth then Inr (0, currentRate, currentRate)
      else if mode = ''percentOfInitial'' then
        (let annual = initialBalance * ratePerYear;
             w = (if frequency = ''monthly'' then annual / 12 else annual)
         in Inr (w, None, currentRate))
      else if mode = ''percentOfCurrent'' then
        (let w = inflationBasePeriodWithdraw * inflationFactor
         in Inr (w, None, currentRate))
      else if mode = ''guardrails'' then
        (let stp = step guardrailsConfig;
             lo = minRate guardrailsConfig;
             hi = maxRate guardrailsConfig;
             rate' =
               (if ytdReturnAfterMarket > 0.08 then Some (clamp (rate_num currentRate + stp) lo hi)
                else if ytdReturnAfterMarket < 0.03 then Some (clamp (rate_num currentRate - stp) lo hi)
                else currentRate);
             annual = balance * rate_num rate';
             w = (if frequency = ''monthly'' then annual / 12 else annual);
             w' = (if minDollarFloor guardrailsConfig > 0
                   then max w (minDollarFloor guardrailsConfig) else w)
         in Inr (w', rate', rate'))
      else Inl UnknownMode)"

text \<open>
  \<^verbatim>\<open>computeWithdrawal\<close> of the browser copy: it adjusts the guardrails rate in two
  independent tests, one after the other.
\<close>

definition computeWithdrawal_client ::
  "string \<Rightarrow> real \<Rightarrow> real \<Rightarrow> real \<Rightarrow> string \<Rightarrow> real option \<Rightarrow> GuardrailsConfig \<Rightarrow> real \<Rightarrow> bool \<Rightarrow>
   real \<Rightarrow> real \<Rightarrow> error + (real \<times> real option \<times> real option)" where
  "computeWithdrawal_client mode withdrawRateDecimal initialBalance balanceAfterMarket frequency
     currentRate guardrailsCfg ytdReturnAfterMarket isWithdrawalMonth inflationBasePeriodWithdraw
     inflationFactor =
     (if \<not> isWithdrawalMonth then Inr (0, currentRate, currentRate)
      else if mode = ''percentOfInitial'' then
        (let annual = initialBalance * withdrawRateDecimal
         in Inr (if frequency = ''monthly'' then annual / 12 else annual, None, currentRate))
      else if mode = ''percentOfCurrent'' then
        Inr (inflationBasePeriodWithdraw * inflationFactor, None, currentRate)
      else if mode = ''guardrails'' then
        (let rate1 =
               (if ytdReturnAfterMarket > 0.08
                then Some (clamp (rate_num currentRate + step guardrailsCfg)
                             (minRate guardrailsCfg) (maxRate guardrailsCfg))
                else currentRate);
             rate2 =
               (if ytdReturnAfterMarket < 0.03
                then Some (clamp (rate_num rate1 - step guardrailsCfg)
                             (minRate guardrailsCfg) (maxRate guardrailsCfg))
                else rate1);
             annual = balanceAfterMarket * rate_num rate2;
             w = (if frequency = ''monthly'' then annual / 12 else annual);
             w' = (if minDollarFloor guardrailsCfg > 0
                   then max w (minDollarFloor guardrailsCfg) else w)
         in Inr (w', rate2, rate2))
      else Inl UnknownMode)"

section \<open>The retirement path simulator\<close>

text \<open>
  The arguments of \<^verbatim>\<open>runRetirementMonthly\<close> and \<^verbatim>\<open>runRetirementSuccessByStartYear\<close> other
  than the price series and the start month. \<open>durationYears\<close> is a natural number (the
  request handlers floor it). The numbers the source reads without a default are reals,
  so their finiteness tests hold; the two with a default are optional.
\<close>

record RetirementArgs =
  initialBalance :: real
  durationYears :: nat
  withdrawMode :: string
  withdrawValue :: real
  withdrawFrequency :: string
  guardrailsMinPct :: real
  guardrailsMaxPct :: real
  guardrailsMinDollar :: "real option"
  percentOfCurrentAnnualInflationPct :: "real option"

record MonthlySnapshot =
  snap_month :: string
  snap_value :: real
  withdrawal :: real
  guardrailsRatePct :: "real option"
  snap_inflationFactor :: "real option"

text \<open>
  The variables of one run. The object \<^verbatim>\<open>runRetirementMonthly\<close> returns is made of
  \<open>success\<close>, \<open>totalWithdrawn\<close>, \<open>balance\<close> (as \<^verbatim>\<open>endingValue\<close>), \<open>maxDrawdown\<close>,
  \<open>highestBalance\<close>, \<open>lowestBalance\<close> and \<open>series\<close> of the final state.
\<close>

record RunState =
  balance :: real
  success :: bool
  totalWithdrawn :: real
  highestBalance :: real
  lowestBalance :: real
  peak :: real
  maxDrawdown :: real
  currentRate :: "real option"
  currentYear :: "real option"
  yearStartBalance :: real
  inflationFactor :: real
  series :: "MonthlySnapshot list"


text \<open>\<^verbatim>\<open>a !== b\<close> on numbers: \<^verbatim>\<open>NaN\<close> differs from everything, itself included.\<close>

definition js_neq :: "real option \<Rightarrow> real option \<Rightarrow> bool" where
  "js_neq a b = (case (a, b) of (Some x, Some y) \<Rightarrow> x \<noteq> y | _ \<Rightarrow> True)"

definition baseRateDecimal :: "RetirementArgs \<Rightarrow> real" where
  "baseRateDecimal a = withdrawValue a / 100"

definition monthlyInfl :: "RetirementArgs \<Rightarrow> real" where
  "monthlyInfl a =
     (let annualInflPct = (case percentOfCurrentAnnualInflationPct a of Some p \<Rightarrow> p | None \<Rightarrow> 3)
      in monthlyInflationRateFromAnnualPct (Some annualInflPct))"

definition inflationBasePeriodWithdraw :: "RetirementArgs \<Rightarrow> real" where
  "inflationBasePeriodWithdraw a =
     (if withdrawMode a = ''percentOfCurrent''
      then (if withdrawFrequency a = ''monthly''
            then (initialBalance a * baseRateDecimal a) / 12
            else initialBalance a * baseRateDecimal a)
      else 0)"

definition minDollarFloor_of :: "real option \<Rightarrow> real" where
  "minDollarFloor_of guardrailsMinDollar_v =
     (case guardrailsMinDollar_v of Some d \<Rightarrow> max 0 d | None \<Rightarrow> 0)"

text \<open>
  The guardrails block before the loop of \<^verbatim>\<open>runRetirementMonthly\<close>: the initial
  \<^verbatim>\<open>currentRate\<close> and the configuration, or the error thrown.
\<close>

definition guardrails_setup :: "RetirementArgs \<Rightarrow> error + (real option \<times> GuardrailsConfig)" where
  "guardrails_setup a =
     (if withdrawMode a = ''guardrails'' then
        (let startRate = withdrawValue a / 100;
             lo = guardrailsMinPct a / 100;
             hi = guardrailsMaxPct a / 100
         in if startRate \<le> 0 then Inl GuardrailsStartRate
            else if lo < 0 then Inl GuardrailsMinRate
            else if hi \<le> 0 then Inl GuardrailsMaxRate
            else if lo > hi then Inl GuardrailsMinMax
            else Inr (Some (clamp startRate lo hi),
                      \<lparr>minRate = lo, maxRate = hi, step = 0.0025,
                       minDollarFloor = minDollarFloor_of (guardrailsMinDollar a)\<rparr>))
      else Inr (None, \<lparr>minRate = 0, maxRate = 1, step = 0.0025, minDollarFloor = 0\<rparr>))"

text \<open>
  One iteration of the loop of \<^verbatim>\<open>runRetirementMonthly\<close>, for the month at index \<open>i\<close>, in
  two parts. \<open>settle_month\<close> is the part after the call of \<^verbatim>\<open>computeWithdrawal\<close>: it takes
  the month key, updated year variables, the balance after the market return and the
  evaluator's result.
\<close>

definition settle_month ::
  "RetirementArgs \<Rightarrow> string \<Rightarrow> real option \<Rightarrow> real \<Rightarrow> real \<Rightarrow> real \<times> real option \<times> real option \<Rightarrow>
   RunState \<Rightarrow> RunState" where
  "settle_month a monthStr currentYear1 yearStartBalance1 balance1 res st =
     (case res of (wd, guardrailsRate, rate') \<Rightarrow>
        (let w = min balance1 (max 0 wd);
             balance2 = balance1 - w;
             ruined = (balance2 \<le> 0);
             balance3 = (if ruined then 0 else balance2);
             peak1 = max (peak st) balance3;
             dd = (if peak1 > 0 then (peak1 - balance3) / peak1 else 0);
             entry =
               \<lparr>snap_month = monthStr, snap_value = balance3, withdrawal = w,
                guardrailsRatePct = map_option (\<lambda>r. r * 100) guardrailsRate,
                snap_inflationFactor =
                  (if withdrawMode a = ''percentOfCurrent''
                   then Some (inflationFactor st) else None)\<rparr>
         in \<lparr>balance = balance3,
             success = (if ruined then False else success st),
             totalWithdrawn = totalWithdrawn st + w,
             highestBalance = max (highestBalance st) balance3,
             lowestBalance = min (lowestBalance st) balance3,
             peak = peak1,
             maxDrawdown = max (maxDrawdown st) dd,
             currentRate = rate',
             currentYear = currentYear1,
             yearStartBalance = yearStartBalance1,
             inflationFactor =
               (if withdrawMode a = ''percentOfCurrent''
                then inflationFactor st * (1 + monthlyInfl a)
                else inflationFactor st),
             series = series st @ [entry]\<rparr>))"

definition run_month ::
  "(string \<Rightarrow> real option) \<Rightarrow> MonthlyPricePoint list \<Rightarrow> real list \<Rightarrow> RetirementArgs \<Rightarrow>
   GuardrailsConfig \<Rightarrow> nat \<Rightarrow> RunState \<Rightarrow> error + RunState" where
  "run_month num monthly returns a cfg i st =
     (let monthStr = month (monthly ! i);
          y = num (slice 0 4 monthStr);
          m = num (slice 5 7 monthStr);
          year_changed = js_neq y (currentYear st);
          currentYear1 = (if year_changed then y else currentYear st);
          yearStartBalance1 = (if year_changed then balance st else yearStartBalance st);
          balance1 = balance st * (1 + returns ! i);
          ytdReturnAfterMarket =
            (if yearStartBalance1 > 0 then balance1 / yearStartBalance1 - 1 else 0);
          isWithdrawalMonth = (if withdrawFrequency a = ''monthly'' then True else m = Some 1)
      in if baseRateDecimal a \<le> 0 then Inl WithdrawRate
         else
           (case computeWithdrawal (withdrawMode a) (baseRateDecimal a) (initialBalance a)
                   balance1 (withdrawFrequency a) (currentRate st) cfg ytdReturnAfterMarket
                   isWithdrawalMonth (inflationBasePeriodWithdraw a) (inflationFactor st) of
              Inl e \<Rightarrow> Inl e
            | Inr res \<Rightarrow>
                Inr (settle_month a monthStr currentYear1 yearStartBalance1 balance1 res st)))"

text \<open>The loop over the month indices, left when a month ends with \<open>success\<close> false.\<close>

fun run_months ::
  "(string \<Rightarrow> real option) \<Rightarrow> MonthlyPricePoint list \<Rightarrow> real list \<Rightarrow> RetirementArgs \<Rightarrow>
   GuardrailsConfig \<Rightarrow> nat list \<Rightarrow> RunState \<Rightarrow> error + RunState" where
  "run_months num monthly returns a cfg [] st = Inr st"
| "run_months num monthly returns a cfg (i # rest) st =
     (case run_month num monthly returns a cfg i st of
        Inl e \<Rightarrow> Inl e
      | Inr st' \<Rightarrow>
          if \<not> success st' then Inr st'
          else run_months num monthly returns a cfg rest st')"

definition initial_state ::
  "(string \<Rightarrow> real option) \<Rightarrow> MonthlyPricePoint list \<Rightarrow> RetirementArgs \<Rightarrow> nat \<Rightarrow> real option \<Rightarrow>
   RunState" where
  "initial_state num monthly a startIdx rate0 =
     \<lparr>balance = initialBalance a, success = True, totalWithdrawn = 0,
      highestBalance = initialBalance a, lowestBalance = initialBalance a,
      peak = initialBalance a, maxDrawdown = 0, currentRate = rate0,
      currentYear = num (slice 0 4 (month (monthly ! startIdx))),
      yearStartBalance = initialBalance a, inflationFactor = 1, series = []\<rparr>"

text \<open>
  \<^verbatim>\<open>runRetirementMonthly\<close> of the simulation library. The bound is the source's
  \<^verbatim>\<open>endIdxExclusive > monthly.length - 1\<close>.
\<close>

definition runRetirementMonthly ::
  "(string \<Rightarrow> real option) \<Rightarrow> MonthlyPricePoint list \<Rightarrow> RetirementArgs \<Rightarrow> string \<Rightarrow>
   error + RunState" where
  "runRetirementMonthly num monthly a startMonth =
     (case findMonthIndex num monthly startMonth of
        None \<Rightarrow> Inl StartMonthNotFound
      | Some startIdx \<Rightarrow>
          (let endIdxExclusive = startIdx + durationYears a * 12
           in if int endIdxExclusive > int (length monthly) - 1 then Inl NotEnoughData
              else
                (case guardrails_setup a of
                   Inl e \<Rightarrow> Inl e
                 | Inr (rate0, cfg) \<Rightarrow>
                     run_months num monthly (buildReturns monthly) a cfg
                       [startIdx ..< endIdxExclusive]
                       (initial_state num monthly a startIdx rate0))))"

section \<open>The historical success sweep\<close>

record YearOutcome =
  startYear :: "real option"
  passed :: bool
  startingBalance :: real
  yo_highestBalance :: real
  yo_lowestBalance :: real
  endingBalance :: real

text \<open>The variables of one run inside the sweep.\<close>

record SweepVars =
  sw_balance :: real
  sw_success :: bool
  highest :: real
  lowest :: real
  sw_currentRate :: "real option"
  sw_currentYear :: "real option"
  sw_yearStartBalance :: real
  sw_inflationFactor :: real

text \<open>The guardrails block of the sweep: no test, no error.\<close>

definition guardrails_setup_sweep :: "RetirementArgs \<Rightarrow> real option \<times> GuardrailsConfig" where
  "guardrails_setup_sweep a =
     (if withdrawMode a = ''guardrails'' then
        (let startRate = withdrawValue a / 100;
             lo = guardrailsMinPct a / 100;
             hi = guardrailsMaxPct a / 100
         in (Some (clamp startRate lo hi),
             \<lparr>minRate = lo, maxRate = hi, step = 0.0025,
              minDollarFloor = minDollarFloor_of (guardrailsMinDollar a)\<rparr>))
      else (None, \<lparr>minRate = 0, maxRate = 1, step = 0.0025, minDollarFloor = 0\<rparr>))"

text \<open>
  One iteration of the inner loop of \<^verbatim>\<open>runRetirementSuccessByStartYear\<close>, in two parts as
  for the single run. On ruin the loop is left at once: the extrema and the inflation
  factor are not updated.
\<close>

definition sweep_settle ::
  "RetirementArgs \<Rightarrow> real option \<Rightarrow> real \<Rightarrow> real \<Rightarrow> real \<times> real option \<times> real option \<Rightarrow>
   SweepVars \<Rightarrow> SweepVars" where
  "sweep_settle a currentYear1 yearStartBalance1 balance1 res v =
     (case res of (wd, guardrailsRate, rate') \<Rightarrow>
        (let w = min balance1 (max 0 wd);
             balance2 = balance1 - w
         in if balance2 \<le> 0
            then \<lparr>sw_balance = 0, sw_success = False, highest = highest v, lowest = lowest v,
                  sw_currentRate = rate', sw_currentYear = currentYear1,
                  sw_yearStartBalance = yearStartBalance1,
                  sw_inflationFactor = sw_inflationFactor v\<rparr>
            else \<lparr>sw_balance = balance2, sw_success = sw_success v,
                  highest = max (highest v) balance2, lowest = min (lowest v) balance2,
                  sw_currentRate = rate', sw_currentYear = currentYear1,
                  sw_yearStartBalance = yearStartBalance1,
                  sw_inflationFactor =
                    (if withdrawMode a = ''percentOfCurrent''
                     then sw_inflationFactor v * (1 + monthlyInfl a)
                     else sw_inflationFactor v)\<rparr>))"

definition sweep_month ::
  "(string \<Rightarrow> real option) \<Rightarrow> MonthlyPricePoint list \<Rightarrow> real list \<Rightarrow> RetirementArgs \<Rightarrow>
   GuardrailsConfig \<Rightarrow> nat \<Rightarrow> SweepVars \<Rightarrow> error + SweepVars" where
  "sweep_month num monthly returns a cfg t v =
     (let ms = month (monthly ! t);
          y = num (slice 0 4 ms);
          mon = num (slice 5 7 ms);
          year_changed = js_neq y (sw_currentYear v);
          currentYear1 = (if year_changed then y else sw_currentYear v);
          yearStartBalance1 = (if year_changed then sw_balance v else sw_yearStartBalance v);
          balance1 = sw_balance v * (1 + returns ! t);
          ytdReturnAfterMarket =
            (if yearStartBalance1 > 0 then balance1 / yearStartBalance1 - 1 else 0);
          isWithdrawalMonth = (if withdrawFrequency a = ''monthly'' then True else mon = Some 1)
      in case computeWithdrawal (withdrawMode a) (baseRateDecimal a) (initialBalance a)
                balance1 (withdrawFrequency a) (sw_currentRate v) cfg ytdReturnAfterMarket
                isWithdrawalMonth (inflationBasePeriodWithdraw a) (sw_inflationFactor v) of
           Inl e \<Rightarrow> Inl e
         | Inr res \<Rightarrow> Inr (sweep_settle a currentYear1 yearStartBalance1 balance1 res v))"

fun sweep_months ::
  "(string \<Rightarrow> real option) \<Rightarrow> MonthlyPricePoint list \<Rightarrow> real list \<Rightarrow> RetirementArgs \<Rightarrow>
   GuardrailsConfig \<Rightarrow> nat list \<Rightarrow> SweepVars \<Rightarrow> error + SweepVars" where
  "sweep_months num monthly returns a cfg [] v = Inr v"
| "sweep_months num monthly returns a cfg (t # rest) v =
     (case sweep_month num monthly returns a cfg t v of
        Inl e \<Rightarrow> Inl e
      | Inr v' \<Rightarrow>
          if \<not> sw_success v' then Inr v'
          else sweep_months num monthly returns a cfg rest v')"

definition sweep_initial ::
  "(string \<Rightarrow> real option) \<Rightarrow> RetirementArgs \<Rightarrow> string \<Rightarrow> real option \<Rightarrow> SweepVars" where
  "sweep_initial num a monthStr rate0 =
     \<lparr>sw_balance = initialBalance a, sw_success = True, highest = initialBalance a,
      lowest = initialBalance a, sw_currentRate = rate0,
      sw_currentYear = num (slice 0 4 monthStr), sw_yearStartBalance = initialBalance a,
      sw_inflationFactor = 1\<rparr>"

text \<open>
  What the outer loop accumulates. \<^verbatim>\<open>highestBalanceHit\<close> starts at \<open>-Infinity\<close> and
  \<^verbatim>\<open>lowestBalanceHit\<close> at \<open>Infinity\<close>: these are \<open>None\<close>, and the maximum or minimum with a
  number is that number.
\<close>

record SweepAcc =
  acc_results :: "YearOutcome list"
  acc_endingBalances :: "real list"
  acc_highestBalanceHit :: "real option"
  acc_lowestBalanceHit :: "real option"

definition max_hit :: "real option \<Rightarrow> real \<Rightarrow> real option" where
  "max_hit h x = (case h of None \<Rightarrow> Some x | Some y \<Rightarrow> Some (max y x))"

definition min_hit :: "real option \<Rightarrow> real \<Rightarrow> real option" where
  "min_hit h x = (case h of None \<Rightarrow> Some x | Some y \<Rightarrow> Some (min y x))"

definition record_run :: "(string \<Rightarrow> real option) \<Rightarrow> RetirementArgs \<Rightarrow> string \<Rightarrow> SweepVars \<Rightarrow>
    SweepAcc \<Rightarrow> SweepAcc" where
  "record_run num a monthStr v acc =
     \<lparr>acc_results = acc_results acc @
        [\<lparr>startYear = num (slice 0 4 monthStr), passed = sw_success v,
          startingBalance = initialBalance a, yo_highestBalance = highest v,
          yo_lowestBalance = lowest v, endingBalance = sw_balance v\<rparr>],
      acc_endingBalances = acc_endingBalances acc @ [sw_balance v],
      acc_highestBalanceHit = max_hit (acc_highestBalanceHit acc) (highest v),
      acc_lowestBalanceHit = min_hit (acc_lowestBalanceHit acc) (lowest v)\<rparr>"

text \<open>
  The outer loop over the indices of the price series: a month that is not a January is
  skipped, the first January without enough data ends the loop.
\<close>

fun sweep_starts ::
  "(string \<Rightarrow> real option) \<Rightarrow> MonthlyPricePoint list \<Rightarrow> real list \<Rightarrow> RetirementArgs \<Rightarrow>
   nat list \<Rightarrow> SweepAcc \<Rightarrow> error + SweepAcc" where
  "sweep_starts num monthly returns a [] acc = Inr acc"
| "sweep_starts num monthly returns a (i # rest) acc =
     (if num (slice 5 7 (month (monthly ! i))) \<noteq> Some 1
      then sweep_starts num monthly returns a rest acc
      else if int (i + durationYears a * 12) > int (length monthly) - 1 then Inr acc
      else
        (case sweep_months num monthly returns a (snd (guardrails_setup_sweep a))
                [i ..< i + durationYears a * 12]
                (sweep_initial num a (month (monthly ! i)) (fst (guardrails_setup_sweep a))) of
           Inl e \<Rightarrow> Inl e
         | Inr v \<Rightarrow>
             sweep_starts num monthly returns a rest
               (record_run num a (month (monthly ! i)) v acc)))"

record SweepSummary =
  totalStartYearsTested :: nat
  successes :: nat
  successRate :: real
  averageEndingBalance :: "real option"
  medianEndingBalance :: "real option"
  highestBalanceHit :: "real option"
  lowestBalanceHit :: "real option"

record SweepResult =
  summary :: SweepSummary
  results :: "YearOutcome list"

text \<open>The result object built after the loop.\<close>

definition sweep_result :: "SweepAcc \<Rightarrow> SweepResult" where
  "sweep_result acc =
     (let total = length (acc_results acc);
          n_successes = length (filter passed (acc_results acc))
      in \<lparr>summary =
            \<lparr>totalStartYearsTested = total,
             successes = n_successes,
             successRate = (if total \<noteq> 0 then real n_successes / real total else 0),
             averageEndingBalance =
               (if total \<noteq> 0
                then Some (foldl (+) 0 (acc_endingBalances acc) / real total) else None),
             medianEndingBalance =
               (if total \<noteq> 0 then median (acc_endingBalances acc) else None),
             highestBalanceHit = acc_highestBalanceHit acc,
             lowestBalanceHit = acc_lowestBalanceHit acc\<rparr>,
          results = acc_results acc\<rparr>)"

definition empty_acc :: SweepAcc where
  "empty_acc =
     \<lparr>acc_results = [], acc_endingBalances = [], acc_highestBalanceHit = None,
      acc_lowestBalanceHit = None\<rparr>"

definition runRetirementSuccessByStartYear ::
  "(string \<Rightarrow> real option) \<Rightarrow> MonthlyPricePoint list \<Rightarrow> RetirementArgs \<Rightarrow> error + SweepResult" where
  "runRetirementSuccessByStartYear num monthly a =
     (case sweep_starts num monthly (buildReturns monthly) a [0 ..< length monthly] empty_acc of
        Inl e \<Rightarrow> Inl e
      | Inr acc \<Rightarrow> Inr (sweep_result acc))"

section \<open>The browser copy of the simulator\<close>

text \<open>
  The browser script holds a second copy of the simulator. Its \<^verbatim>\<open>clamp\<close>, \<^verbatim>\<open>median\<close>,
  \<^verbatim>\<open>monthToIndex\<close>, \<^verbatim>\<open>findMonthIndex\<close>, \<^verbatim>\<open>buildMonthlyReturns\<close> and
  \<^verbatim>\<open>monthlyInflRateFromAnnualPct\<close> have the bodies of the library's functions and are not
  repeated; its argument \<^verbatim>\<open>withdrawPct\<close> is \<open>withdrawValue\<close> and \<^verbatim>\<open>annualInflationPct\<close> is
  \<open>percentOfCurrentAnnualInflationPct\<close>. The functions that differ have the suffix
  \<open>_client\<close>: the evaluator \<open>computeWithdrawal_client\<close> above, and the functions that
  follow, where the data bound is \<^verbatim>\<open>endIdxExclusive > monthly.length\<close> and the withdraw
  rate is tested once before the loops.
\<close>

definition guardrails_setup_client ::
  "RetirementArgs \<Rightarrow> error + (real option \<times> GuardrailsConfig)" where
  "guardrails_setup_client a =
     (if withdrawMode a = ''guardrails'' then
        (let start = withdrawValue a / 100;
             minR = guardrailsMinPct a / 100;
             maxR = guardrailsMaxPct a / 100
         in if minR > maxR then Inl GuardrailsMinMax
            else Inr (Some (clamp start minR maxR),
                      \<lparr>minRate = minR, maxRate = maxR, step = 0.0025,
                       minDollarFloor = minDollarFloor_of (guardrailsMinDollar a)\<rparr>))
      else Inr (None, \<lparr>minRate = 0, maxRate = 1, step = 0.0025, minDollarFloor = 0\<rparr>))"

text \<open>The part of the loop body after the evaluator's call is that of the library.\<close>

definition run_month_client ::
  "(string \<Rightarrow> real option) \<Rightarrow> MonthlyPricePoint list \<Rightarrow> real list \<Rightarrow> RetirementArgs \<Rightarrow>
   GuardrailsConfig \<Rightarrow> nat \<Rightarrow> RunState \<Rightarrow> error + RunState" where
  "run_month_client num monthly returns a cfg i st =
     (let monthStr = month (monthly ! i);
          y = num (slice 0 4 monthStr);
          m = num (slice 5 7 monthStr);
          year_changed = js_neq y (currentYear st);
          currentYear1 = (if year_changed then y else currentYear st);
          yearStartBalance1 = (if year_changed then balance st else yearStartBalance st);
          balance1 = balance st * (1 + returns ! i);
          ytdReturnAfterMarket =
            (if yearStartBalance1 > 0 then balance1 / yearStartBalance1 - 1 else 0);
          isWithdrawalMonth = (if withdrawFrequency a = ''monthly'' then True else m = Some 1)
      in case computeWithdrawal_client (withdrawMode a) (baseRateDecimal a) (initialBalance a)
                balance1 (withdrawFrequency a) (currentRate st) cfg ytdReturnAfterMarket
                isWithdrawalMonth (inflationBasePeriodWithdraw a) (inflationFactor st) of
           Inl e \<Rightarrow> Inl e
         | Inr res \<Rightarrow>
             Inr (settle_month a monthStr currentYear1 yearStartBalance1 balance1 res st))"

fun run_months_client ::
  "(string \<Rightarrow> real option) \<Rightarrow> MonthlyPricePoint list \<Rightarrow> real list \<Rightarrow> RetirementArgs \<Rightarrow>
   GuardrailsConfig \<Rightarrow> nat list \<Rightarrow> RunState \<Rightarrow> error + RunState" where
  "run_months_client num monthly returns a cfg [] st = Inr st"
| "run_months_client num monthly returns a cfg (i # rest) st =
     (case run_month_client num monthly returns a cfg i st of
        Inl e \<Rightarrow> Inl e
      | Inr st' \<Rightarrow>
          if \<not> success st' then Inr st'
          else run_months_client num monthly returns a cfg rest st')"

definition runRetirementMonthly_client ::
  "(string \<Rightarrow> real option) \<Rightarrow> MonthlyPricePoint list \<Rightarrow> RetirementArgs \<Rightarrow> string \<Rightarrow>
   error + RunState" where
  "runRetirementMonthly_client num monthly a startMonth =
     (case findMonthIndex num monthly startMonth of
        None \<Rightarrow> Inl StartMonthNotFound
      | Some startIdx \<Rightarrow>
          (let endIdxExclusive = startIdx + durationYears a * 12
           in if endIdxExclusive > length monthly then Inl NotEnoughData
              else if baseRateDecimal a \<le> 0 then Inl WithdrawRate
              else
                (case guardrails_setup_client a of
                   Inl e \<Rightarrow> Inl e
                 | Inr (rate0, cfg) \<Rightarrow>
                     run_months_client num monthly (buildReturns monthly) a cfg
                       [startIdx ..< endIdxExclusive]
                       (initial_state num monthly a startIdx rate0))))"

definition sweep_month_client ::
  "(string \<Rightarrow> real option) \<Rightarrow> MonthlyPricePoint list \<Rightarrow> real list \<Rightarrow> RetirementArgs \<Rightarrow>
   GuardrailsConfig \<Rightarrow> nat \<Rightarrow> SweepVars \<Rightarrow> error + SweepVars" where
  "sweep_month_client num monthly returns a cfg i v =
     (let monthStr = month (monthly ! i);
          y = num (slice 0 4 monthStr);
          mon = num (slice 5 7 monthStr);
          year_changed = js_neq y (sw_currentYear v);
          currentYear1 = (if year_changed then y else sw_currentYear v);
          yearStartBalance1 = (if year_changed then sw_balance v else sw_yearStartBalance v);
          balance1 = sw_balance v * (1 + returns ! i);
          ytdReturnAfterMarket =
            (if yearStartBalance1 > 0 then balance1 / yearStartBalance1 - 1 else 0);
          isWithdrawalMonth = (if withdrawFrequency a = ''monthly'' then True else mon = Some 1)
      in case computeWithdrawal_client (withdrawMode a) (baseRateDecimal a) (initialBalance a)
                balance1 (withdrawFrequency a) (sw_currentRate v) cfg ytdReturnAfterMarket
                isWithdrawalMonth (inflationBasePeriodWithdraw a) (sw_inflationFactor v) of
           Inl e \<Rightarrow> Inl e
         | Inr res \<Rightarrow> Inr (sweep_settle a currentYear1 yearStartBalance1 balance1 res v))"

fun sweep_months_client ::
  "(string \<Rightarrow> real option) \<Rightarrow> MonthlyPricePoint list \<Rightarrow> real list \<Rightarrow> RetirementArgs \<Rightarrow>
   GuardrailsConfig \<Rightarrow> nat list \<Rightarrow> SweepVars \<Rightarrow> error + SweepVars" where
  "sweep_months_client num monthly returns a cfg [] v = Inr v"
| "sweep_months_client num monthly returns a cfg (i # rest) v =
     (case sweep_month_client num monthly returns a cfg i v of
        Inl e \<Rightarrow> Inl e
      | Inr v' \<Rightarrow>
          if \<not> sw_success v' then Inr v'
          else sweep_months_client num monthly returns a cfg rest v')"

fun sweep_starts_client ::
  "(string \<Rightarrow> real option) \<Rightarrow> MonthlyPricePoint list \<Rightarrow> real list \<Rightarrow> RetirementArgs \<Rightarrow>
   nat list \<Rightarrow> SweepAcc \<Rightarrow> error + SweepAcc" where
  "sweep_starts_client num monthly returns a [] acc = Inr acc"
| "sweep_starts_client num monthly returns a (startIdx # rest) acc =
     (if num (slice 5 7 (month (monthly ! startIdx))) \<noteq> Some 1
      then sweep_starts_client num monthly returns a rest acc
      else if startIdx + durationYears a * 12 > length monthly then Inr acc
      else
        (case sweep_months_client num monthly returns a (snd (guardrails_setup_sweep a))
                [startIdx ..< startIdx + durationYears a * 12]
                (sweep_initial num a (month (monthly ! startIdx))
                   (fst (guardrails_setup_sweep a))) of
           Inl e \<Rightarrow> Inl e
         | Inr v \<Rightarrow>
             sweep_starts_client num monthly returns a rest
               (record_run num a (month (monthly ! startIdx)) v acc)))"

definition runRetirementSuccessByStartYear_client ::
  "(string \<Rightarrow> real option) \<Rightarrow> MonthlyPricePoint list \<Rightarrow> RetirementArgs \<Rightarrow> error + SweepResult" where
  "runRetirementSuccessByStartYear_client num monthly a =
     (if baseRateDecimal a \<le> 0 then Inl WithdrawRate
      else
        (case sweep_starts_client num monthly (buildReturns monthly) a [0 ..< length monthly]
                empty_acc of
           Inl e \<Rightarrow> Inl e
         | Inr acc \<Rightarrow> Inr (sweep_result acc)))"

section \<open>Overflow and \<^verbatim>\<open>NaN\<close>\<close>

text \<open>
  An exact real cannot overflow and is never \<^verbatim>\<open>NaN\<close>. The return series builder and the
  sweep are therefore embedded a second time, over numbers that can be infinite or
  \<^verbatim>\<open>NaN\<close>; the definitions carry the suffix \<open>_ext\<close>.
  \<^item> A \<open>number\<close> is a finite real, one of the two infinities, or \<^verbatim>\<open>NaN\<close>.
  \<^item> An operation on finite numbers whose exact result \<open>x\<close> has a magnitude below
    \<open>2^1024 - 2^970\<close> returns \<open>x\<close>: rounding to the nearest binary64 number is not
    modelled. From that magnitude on, which is where binary64 rounds to an infinity, it
    returns the infinity of the sign of \<open>x\<close>.
  \<^item> Infinities and \<^verbatim>\<open>NaN\<close> follow IEEE 754: \<open>\<infinity> - \<infinity>\<close>, \<open>0 * \<infinity>\<close>, \<open>\<infinity> / \<infinity>\<close> and \<open>0 / 0\<close> are
    \<^verbatim>\<open>NaN\<close>, an operation on \<^verbatim>\<open>NaN\<close> is \<^verbatim>\<open>NaN\<close>, every comparison with \<^verbatim>\<open>NaN\<close> is false.
  \<^item> The sign of a zero is not modelled: a division by zero takes the zero as \<open>+0\<close>. No
    division of the embedded functions is reached with a divisor that is zero: the
    divisors are the constants 12, 100 and 2, a close or a balance tested to be positive,
    and a count tested to be non-zero.
  \<^item> The arguments of a sweep and the closes stay finite reals, as before.
\<close>

datatype number = Finite real | PosInfinity | NegInfinity | NaN

text \<open>\<^verbatim>\<open>Number.MAX_VALUE\<close>, and the least magnitude that binary64 rounds to an infinity.\<close>

definition MAX_VALUE :: real where
  "MAX_VALUE = 2 ^ 1024 - 2 ^ 971"

definition overflow_threshold :: real where
  "overflow_threshold = 2 ^ 1024 - 2 ^ 970"

text \<open>The number an operation returns whose exact result is \<open>x\<close>.\<close>

definition js_result :: "real \<Rightarrow> number" where
  "js_result x =
     (if overflow_threshold \<le> x then PosInfinity
      else if x \<le> - overflow_threshold then NegInfinity
      else Finite x)"

definition infinity_of :: "bool \<Rightarrow> number" where
  "infinity_of positive = (if positive then PosInfinity else NegInfinity)"

text \<open>\<^verbatim>\<open>Number.isFinite\<close>, and the operators \<open>-a\<close>, \<open>a + b\<close>, \<open>a - b\<close>, \<open>a * b\<close>, \<open>a / b\<close>.\<close>

fun isFinite :: "number \<Rightarrow> bool" where
  "isFinite (Finite x) \<longleftrightarrow> True"
| "isFinite n \<longleftrightarrow> False"

fun num_neg :: "number \<Rightarrow> number" where
  "num_neg (Finite x) = Finite (- x)"
| "num_neg PosInfinity = NegInfinity"
| "num_neg NegInfinity = PosInfinity"
| "num_neg NaN = NaN"

fun num_add :: "number \<Rightarrow> number \<Rightarrow> number" where
  "num_add (Finite x) (Finite y) = js_result (x + y)"
| "num_add NaN b = NaN"
| "num_add a NaN = NaN"
| "num_add PosInfinity NegInfinity = NaN"
| "num_add NegInfinity PosInfinity = NaN"
| "num_add PosInfinity b = PosInfinity"
| "num_add a PosInfinity = PosInfinity"
| "num_add NegInfinity b = NegInfinity"
| "num_add a NegInfinity = NegInfinity"

definition num_sub :: "number \<Rightarrow> number \<Rightarrow> number" where
  "num_sub a b = num_add a (num_neg b)"

fun num_mul :: "number \<Rightarrow> number \<Rightarrow> number" where
  "num_mul (Finite x) (Finite y) = js_result (x * y)"
| "num_mul NaN b = NaN"
| "num_mul a NaN = NaN"
| "num_mul PosInfinity (Finite y) = (if y = 0 then NaN else infinity_of (0 < y))"
| "num_mul NegInfinity (Finite y) = (if y = 0 then NaN else infinity_of (y < 0))"
| "num_mul (Finite x) PosInfinity = (if x = 0 then NaN else infinity_of (0 < x))"
| "num_mul (Finite x) NegInfinity = (if x = 0 then NaN else infinity_of (x < 0))"
| "num_mul PosInfinity PosInfinity = PosInfinity"
| "num_mul PosInfinity NegInfinity = NegInfinity"
| "num_mul NegInfinity PosInfinity = NegInfinity"
| "num_mul NegInfinity NegInfinity = PosInfinity"

fun num_div :: "number \<Rightarrow> number \<Rightarrow> number" where
  "num_div (Finite x) (Finite y) =
     (if y = 0 then (if x = 0 then NaN else infinity_of (0 < x)) else js_result (x / y))"
| "num_div NaN b = NaN"
| "num_div a NaN = NaN"
| "num_div (Finite x) PosInfinity = Finite 0"
| "num_div (Finite x) NegInfinity = Finite 0"
| "num_div PosInfinity (Finite y) = infinity_of (0 \<le> y)"
| "num_div NegInfinity (Finite y) = infinity_of (y < 0)"
| "num_div PosInfinity PosInfinity = NaN"
| "num_div PosInfinity NegInfinity = NaN"
| "num_div NegInfinity PosInfinity = NaN"
| "num_div NegInfinity NegInfinity = NaN"

text \<open>
  The comparisons \<open>a < b\<close> and \<open>a <= b\<close> (\<open>a > b\<close> is \<open>b < a\<close>), \<^verbatim>\<open>Math.max\<close> and \<^verbatim>\<open>Math.min\<close>,
  which return \<^verbatim>\<open>NaN\<close> when an argument is \<^verbatim>\<open>NaN\<close>, and \<^verbatim>\<open>clamp\<close>.
\<close>

fun num_less :: "number \<Rightarrow> number \<Rightarrow> bool" where
  "num_less (Finite x) (Finite y) \<longleftrightarrow> x < y"
| "num_less NaN b \<longleftrightarrow> False"
| "num_less a NaN \<longleftrightarrow> False"
| "num_less a NegInfinity \<longleftrightarrow> False"
| "num_less NegInfinity b \<longleftrightarrow> True"
| "num_less PosInfinity b \<longleftrightarrow> False"
| "num_less a PosInfinity \<longleftrightarrow> True"

fun num_le :: "number \<Rightarrow> number \<Rightarrow> bool" where
  "num_le (Finite x) (Finite y) \<longleftrightarrow> x \<le> y"
| "num_le NaN b \<longleftrightarrow> False"
| "num_le a NaN \<longleftrightarrow> False"
| "num_le NegInfinity b \<longleftrightarrow> True"
| "num_le a PosInfinity \<longleftrightarrow> True"
| "num_le (Finite x) NegInfinity \<longleftrightarrow> False"
| "num_le PosInfinity b \<longleftrightarrow> False"

definition Math_max :: "number \<Rightarrow> number \<Rightarrow> number" where
  "Math_max a b = (if a = NaN \<or> b = NaN then NaN else if num_less a b then b else a)"

definition Math_min :: "number \<Rightarrow> number \<Rightarrow> number" where
  "Math_min a b = (if a = NaN \<or> b = NaN then NaN else if num_less b a then b else a)"

definition clamp_ext :: "number \<Rightarrow> number \<Rightarrow> number \<Rightarrow> number" where
  "clamp_ext n lo hi = Math_max lo (Math_min hi n)"

text \<open>
  \<^verbatim>\<open>buildReturns\<close> and \<^verbatim>\<open>buildMonthlyReturns\<close>, with the quotient and the difference computed
  in these numbers. The tests \<^verbatim>\<open>Number.isFinite(prev) && prev > 0 && Number.isFinite(cur)\<close>
  are made on the operands; the quotient is stored untested.
\<close>

definition return_ext :: "real option \<Rightarrow> real option \<Rightarrow> number" where
  "return_ext prev cur =
     (case (prev, cur) of
        (Some p, Some c) \<Rightarrow>
          if p > 0 then num_sub (num_div (Finite c) (Finite p)) (Finite 1) else Finite 0
      | _ \<Rightarrow> Finite 0)"

definition buildReturns_ext :: "MonthlyPricePoint list \<Rightarrow> number list" where
  "buildReturns_ext monthly =
     (let closes = map close monthly;
          returns = replicate (length monthly) (Finite 0)
      in fold (\<lambda>i returns. returns[i := return_ext (closes ! (i - 1)) (closes ! i)])
           [1 ..< length monthly] returns)"

text \<open>
  \<^verbatim>\<open>Math.pow(x, 1 / 12)\<close>: \<^verbatim>\<open>NaN\<close> for a negative base, the real power otherwise; and
  \<^verbatim>\<open>monthlyInflationRateFromAnnualPct\<close>.
\<close>

fun twelfth_root :: "number \<Rightarrow> number" where
  "twelfth_root (Finite x) = (if x < 0 then NaN else js_result (x powr (1 / 12)))"
| "twelfth_root PosInfinity = PosInfinity"
| "twelfth_root NegInfinity = PosInfinity"
| "twelfth_root NaN = NaN"

definition monthlyInflationRateFromAnnualPct_ext :: "real option \<Rightarrow> number" where
  "monthlyInflationRateFromAnnualPct_ext annualPct =
     (let a = num_div (Finite (case annualPct of Some p \<Rightarrow> p | None \<Rightarrow> 3)) (Finite 100)
      in if num_less a (Finite (- 0.99)) then Finite (- 0.99)
         else num_sub (twelfth_root (num_add (Finite 1) a)) (Finite 1))"

text \<open>
  \<^verbatim>\<open>median\<close>. \<^verbatim>\<open>[...values].sort((a, b) => a - b)\<close> is an insertion sort by the comparator:
  \<open>a\<close> goes before \<open>b\<close> when \<open>a - b < 0\<close>. When a value is \<^verbatim>\<open>NaN\<close> the comparator is not
  consistent and the order an engine returns is implementation-defined; no statement
  below depends on the order chosen here.
\<close>

fun insert_sorted :: "number \<Rightarrow> number list \<Rightarrow> number list" where
  "insert_sorted x [] = [x]"
| "insert_sorted x (y # ys) =
     (if num_less (num_sub x y) (Finite 0) then x # y # ys else y # insert_sorted x ys)"

definition sort_numbers :: "number list \<Rightarrow> number list" where
  "sort_numbers values = foldr insert_sorted values []"

definition median_ext :: "number list \<Rightarrow> number option" where
  "median_ext values =
     (if values = [] then None
      else let sorted_values = sort_numbers values;
               mid = length sorted_values div 2
           in if length sorted_values mod 2 = 1 then Some (sorted_values ! mid)
              else Some (num_div (num_add (sorted_values ! (mid - 1)) (sorted_values ! mid))
                           (Finite 2)))"

text \<open>
  \<^verbatim>\<open>computeWithdrawal\<close> of the library and of the browser copy. A parameter whose name is
  taken by a field or a definition above carries a prime.
\<close>

record GuardrailsConfig_ext =
  minRate_ext :: number
  maxRate_ext :: number
  step_ext :: number
  minDollarFloor_ext :: number

definition rate_num_ext :: "number option \<Rightarrow> number" where
  "rate_num_ext r = (case r of None \<Rightarrow> Finite 0 | Some x \<Rightarrow> x)"

definition computeWithdrawal_ext ::
  "string \<Rightarrow> number \<Rightarrow> number \<Rightarrow> number \<Rightarrow> string \<Rightarrow> number option \<Rightarrow> GuardrailsConfig_ext \<Rightarrow>
   number \<Rightarrow> bool \<Rightarrow> number \<Rightarrow> number \<Rightarrow> error + (number \<times> number option \<times> number option)" where
  "computeWithdrawal_ext mode ratePerYear initialBalance' balance' frequency currentRate'
     guardrailsConfig ytdReturnAfterMarket isWithdrawalMonth inflationBasePeriodWithdraw'
     inflationFactor' =
     (if \<not> isWithdrawalMonth then Inr (Finite 0, currentRate', currentRate')
      else if mode = ''percentOfInitial'' then
        (let annual = num_mul initialBalance' ratePerYear;
             w = (if frequency = ''monthly'' then num_div annual (Finite 12) else annual)
         in Inr (w, None, currentRate'))
      else if mode = ''percentOfCurrent'' then
        (let w = num_mul inflationBasePeriodWithdraw' inflationFactor'
         in Inr (w, None, currentRate'))
      else if mode = ''guardrails'' then
        (let stp = step_ext guardrailsConfig;
             lo = minRate_ext guardrailsConfig;
             hi = maxRate_ext guardrailsConfig;
             rate' =
               (if isFinite ytdReturnAfterMarket then
                  (if num_less (Finite 0.08) ytdReturnAfterMarket
                   then Some (clamp_ext (num_add (rate_num_ext currentRate') stp) lo hi)
                   else if num_less ytdReturnAfterMarket (Finite 0.03)
                   then Some (clamp_ext (num_sub (rate_num_ext currentRate') stp) lo hi)
                   else currentRate')
                else currentRate');
             annual = num_mul balance' (rate_num_ext rate');
             w = (if frequency = ''monthly'' then num_div annual (Finite 12) else annual);
             w' = (if num_less (Finite 0) (minDollarFloor_ext guardrailsConfig)
                   then Math_max w (minDollarFloor_ext guardrailsConfig) else w)
         in Inr (w', rate', rate'))
      else Inl UnknownMode)"

definition computeWithdrawal_client_ext ::
  "string \<Rightarrow> number \<Rightarrow> number \<Rightarrow> number \<Rightarrow> string \<Rightarrow> number option \<Rightarrow> GuardrailsConfig_ext \<Rightarrow>
   number \<Rightarrow> bool \<Rightarrow> number \<Rightarrow> number \<Rightarrow> error + (number \<times> number option \<times> number option)" where
  "computeWithdrawal_client_ext mode withdrawRateDecimal initialBalance' balanceAfterMarket
     frequency currentRate' guardrailsCfg ytdReturnAfterMarket isWithdrawalMonth
     inflationBasePeriodWithdraw' inflationFactor' =
     (if \<not> isWithdrawalMonth then Inr (Finite 0, currentRate', currentRate')
      else if mode = ''percentOfInitial'' then
        (let annual = num_mul initialBalance' withdrawRateDecimal
         in Inr (if frequency = ''monthly'' then num_div annual (Finite 12) else annual,
                 None, currentRate'))
      else if mode = ''percentOfCurrent'' then
        Inr (num_mul inflationBasePeriodWithdraw' inflationFactor', None, currentRate')
      else if mode = ''guardrails'' then
        (let rate1 =
               (if isFinite ytdReturnAfterMarket \<and> num_less (Finite 0.08) ytdReturnAfterMarket
                then Some (clamp_ext (num_add (rate_num_ext currentRate') (step_ext guardrailsCfg))
                             (minRate_ext guardrailsCfg) (maxRate_ext guardrailsCfg))
                else currentRate');
             rate2 =
               (if isFinite ytdReturnAfterMarket \<and> num_less ytdReturnAfterMarket (Finite 0.03)
                then Some (clamp_ext (num_sub (rate_num_ext rate1) (step_ext guardrailsCfg))
                             (minRate_ext guardrailsCfg) (maxRate_ext guardrailsCfg))
                else rate1);
             annual = num_mul balanceAfterMarket (rate_num_ext rate2);
             w = (if frequency = ''monthly'' then num_div annual (Finite 12) else annual);
             w' = (if num_less (Finite 0) (minDollarFloor_ext guardrailsCfg)
                   then Math_max w (minDollarFloor_ext guardrailsCfg) else w)
         in Inr (w', rate2, rate2))
      else Inl UnknownMode)"

text \<open>The sweep of the library.\<close>

record YearOutcome_ext =
  startYear_ext :: "real option"
  passed_ext :: bool
  startingBalance_ext :: number
  highestBalance_ext :: number
  lowestBalance_ext :: number
  endingBalance_ext :: number

record SweepVars_ext =
  balance_ext :: number
  success_ext :: bool
  highest_ext :: number
  lowest_ext :: number
  currentRate_ext :: "number option"
  currentYear_ext :: "real option"
  yearStartBalance_ext :: number
  inflationFactor_ext :: number

definition baseRateDecimal_ext :: "RetirementArgs \<Rightarrow> number" where
  "baseRateDecimal_ext a = num_div (Finite (withdrawValue a)) (Finite 100)"

definition monthlyInfl_ext :: "RetirementArgs \<Rightarrow> number" where
  "monthlyInfl_ext a =
     (let annualInflPct = (case percentOfCurrentAnnualInflationPct a of Some p \<Rightarrow> p | None \<Rightarrow> 3)
      in monthlyInflationRateFromAnnualPct_ext (Some annualInflPct))"

definition inflationBasePeriodWithdraw_ext :: "RetirementArgs \<Rightarrow> number" where
  "inflationBasePeriodWithdraw_ext a =
     (if withdrawMode a = ''percentOfCurrent''
      then (if withdrawFrequency a = ''monthly''
            then num_div (num_mul (Finite (initialBalance a)) (baseRateDecimal_ext a)) (Finite 12)
            else num_mul (Finite (initialBalance a)) (baseRateDecimal_ext a))
      else Finite 0)"

definition guardrails_setup_sweep_ext ::
  "RetirementArgs \<Rightarrow> number option \<times> GuardrailsConfig_ext" where
  "guardrails_setup_sweep_ext a =
     (if withdrawMode a = ''guardrails'' then
        (let startRate = num_div (Finite (withdrawValue a)) (Finite 100);
             lo = num_div (Finite (guardrailsMinPct a)) (Finite 100);
             hi = num_div (Finite (guardrailsMaxPct a)) (Finite 100)
         in (Some (clamp_ext startRate lo hi),
             \<lparr>minRate_ext = lo, maxRate_ext = hi, step_ext = Finite 0.0025,
              minDollarFloor_ext = Finite (minDollarFloor_of (guardrailsMinDollar a))\<rparr>))
      else (None,
            \<lparr>minRate_ext = Finite 0, maxRate_ext = Finite 1, step_ext = Finite 0.0025,
             minDollarFloor_ext = Finite 0\<rparr>))"

definition sweep_settle_ext ::
  "RetirementArgs \<Rightarrow> real option \<Rightarrow> number \<Rightarrow> number \<Rightarrow>
   number \<times> number option \<times> number option \<Rightarrow> SweepVars_ext \<Rightarrow> SweepVars_ext" where
  "sweep_settle_ext a currentYear1 yearStartBalance1 balance1 res v =
     (case res of (wd, guardrailsRate, rate') \<Rightarrow>
        (let w = Math_min balance1 (Math_max (Finite 0) wd);
             balance2 = num_sub balance1 w
         in if num_le balance2 (Finite 0)
            then \<lparr>balance_ext = Finite 0, success_ext = False, highest_ext = highest_ext v,
                  lowest_ext = lowest_ext v, currentRate_ext = rate',
                  currentYear_ext = currentYear1, yearStartBalance_ext = yearStartBalance1,
                  inflationFactor_ext = inflationFactor_ext v\<rparr>
            else \<lparr>balance_ext = balance2, success_ext = success_ext v,
                  highest_ext = Math_max (highest_ext v) balance2,
                  lowest_ext = Math_min (lowest_ext v) balance2, currentRate_ext = rate',
                  currentYear_ext = currentYear1, yearStartBalance_ext = yearStartBalance1,
                  inflationFactor_ext =
                    (if withdrawMode a = ''percentOfCurrent''
                     then num_mul (inflationFactor_ext v) (num_add (Finite 1) (monthlyInfl_ext a))
                     else inflationFactor_ext v)\<rparr>))"

definition sweep_month_ext ::
  "(string \<Rightarrow> real option) \<Rightarrow> MonthlyPricePoint list \<Rightarrow> number list \<Rightarrow> RetirementArgs \<Rightarrow>
   GuardrailsConfig_ext \<Rightarrow> nat \<Rightarrow> SweepVars_ext \<Rightarrow> error + SweepVars_ext" where
  "sweep_month_ext num monthly returns a cfg t v =
     (let ms = month (monthly ! t);
          y = num (slice 0 4 ms);
          mon = num (slice 5 7 ms);
          year_changed = js_neq y (currentYear_ext v);
          currentYear1 = (if year_changed then y else currentYear_ext v);
          yearStartBalance1 = (if year_changed then balance_ext v else yearStartBalance_ext v);
          balance1 = num_mul (balance_ext v) (num_add (Finite 1) (returns ! t));
          ytdReturnAfterMarket =
            (if num_less (Finite 0) yearStartBalance1
             then num_sub (num_div balance1 yearStartBalance1) (Finite 1) else Finite 0);
          isWithdrawalMonth = (if withdrawFrequency a = ''monthly'' then True else mon = Some 1)
      in case computeWithdrawal_ext (withdrawMode a) (baseRateDecimal_ext a)
                (Finite (initialBalance a)) balance1 (withdrawFrequency a) (currentRate_ext v) cfg
                ytdReturnAfterMarket isWithdrawalMonth (inflationBasePeriodWithdraw_ext a)
                (inflationFactor_ext v) of
           Inl e \<Rightarrow> Inl e
         | Inr res \<Rightarrow> Inr (sweep_settle_ext a currentYear1 yearStartBalance1 balance1 res v))"

fun sweep_months_ext ::
  "(string \<Rightarrow> real option) \<Rightarrow> MonthlyPricePoint list \<Rightarrow> number list \<Rightarrow> RetirementArgs \<Rightarrow>
   GuardrailsConfig_ext \<Rightarrow> nat list \<Rightarrow> SweepVars_ext \<Rightarrow> error + SweepVars_ext" where
  "sweep_months_ext num monthly returns a cfg [] v = Inr v"
| "sweep_months_ext num monthly returns a cfg (t # rest) v =
     (case sweep_month_ext num monthly returns a cfg t v of
        Inl e \<Rightarrow> Inl e
      | Inr v' \<Rightarrow>
          if \<not> success_ext v' then Inr v'
          else sweep_months_ext num monthly returns a cfg rest v')"

definition sweep_initial_ext ::
  "(string \<Rightarrow> real option) \<Rightarrow> RetirementArgs \<Rightarrow> string \<Rightarrow> number option \<Rightarrow> SweepVars_ext" where
  "sweep_initial_ext num a monthStr rate0 =
     \<lparr>balance_ext = Finite (initialBalance a), success_ext = True,
      highest_ext = Finite (initialBalance a), lowest_ext = Finite (initialBalance a),
      currentRate_ext = rate0, currentYear_ext = num (slice 0 4 monthStr),
      yearStartBalance_ext = Finite (initialBalance a), inflationFactor_ext = Finite 1\<rparr>"

text \<open>
  \<^verbatim>\<open>highestBalanceHit\<close> starts at \<open>-Infinity\<close> and \<^verbatim>\<open>lowestBalanceHit\<close> at \<open>Infinity\<close>; the
  result object reports either of them as \<^verbatim>\<open>null\<close> when it is not finite.
\<close>

record SweepAcc_ext =
  acc_results_ext :: "YearOutcome_ext list"
  acc_endingBalances_ext :: "number list"
  acc_highestBalanceHit_ext :: number
  acc_lowestBalanceHit_ext :: number

definition record_run_ext ::
  "(string \<Rightarrow> real option) \<Rightarrow> RetirementArgs \<Rightarrow> string \<Rightarrow> SweepVars_ext \<Rightarrow> SweepAcc_ext \<Rightarrow>
   SweepAcc_ext" where
  "record_run_ext num a monthStr v acc =
     \<lparr>acc_results_ext = acc_results_ext acc @
        [\<lparr>startYear_ext = num (slice 0 4 monthStr), passed_ext = success_ext v,
          startingBalance_ext = Finite (initialBalance a), highestBalance_ext = highest_ext v,
          lowestBalance_ext = lowest_ext v, endingBalance_ext = balance_ext v\<rparr>],
      acc_endingBalances_ext = acc_endingBalances_ext acc @ [balance_ext v],
      acc_highestBalanceHit_ext = Math_max (acc_highestBalanceHit_ext acc) (highest_ext v),
      acc_lowestBalanceHit_ext = Math_min (acc_lowestBalanceHit_ext acc) (lowest_ext v)\<rparr>"

fun sweep_starts_ext ::
  "(string \<Rightarrow> real option) \<Rightarrow> MonthlyPricePoint list \<Rightarrow> number list \<Rightarrow> RetirementArgs \<Rightarrow>
   nat list \<Rightarrow> SweepAcc_ext \<Rightarrow> error + SweepAcc_ext" where
  "sweep_starts_ext num monthly returns a [] acc = Inr acc"
| "sweep_starts_ext num monthly returns a (i # rest) acc =
     (if num (slice 5 7 (month (monthly ! i))) \<noteq> Some 1
      then sweep_starts_ext num monthly returns a rest acc
      else if int (i + durationYears a * 12) > int (length monthly) - 1 then Inr acc
      else
        (case sweep_months_ext num monthly returns a (snd (guardrails_setup_sweep_ext a))
                [i ..< i + durationYears a * 12]
                (sweep_initial_ext num a (month (monthly ! i))
                   (fst (guardrails_setup_sweep_ext a))) of
           Inl e \<Rightarrow> Inl e
         | Inr v \<Rightarrow>
             sweep_starts_ext num monthly returns a rest
               (record_run_ext num a (month (monthly ! i)) v acc)))"

record SweepSummary_ext =
  totalStartYearsTested_ext :: nat
  successes_ext :: nat
  successRate_ext :: number
  averageEndingBalance_ext :: "number option"
  medianEndingBalance_ext :: "number option"
  highestBalanceHit_ext :: "number option"
  lowestBalanceHit_ext :: "number option"

record SweepResult_ext =
  summary_ext :: SweepSummary_ext
  results_ext :: "YearOutcome_ext list"

definition sweep_result_ext :: "SweepAcc_ext \<Rightarrow> SweepResult_ext" where
  "sweep_result_ext acc =
     (let total = length (acc_results_ext acc);
          n_successes = length (filter passed_ext (acc_results_ext acc))
      in \<lparr>summary_ext =
            \<lparr>totalStartYearsTested_ext = total,
             successes_ext = n_successes,
             successRate_ext =
               (if total \<noteq> 0 then num_div (Finite (real n_successes)) (Finite (real total))
                else Finite 0),
             averageEndingBalance_ext =
               (if total \<noteq> 0
                then Some (num_div (foldl num_add (Finite 0) (acc_endingBalances_ext acc))
                             (Finite (real total)))
                else None),
             medianEndingBalance_ext =
               (if total \<noteq> 0 then median_ext (acc_endingBalances_ext acc) else None),
             highestBalanceHit_ext =
               (if isFinite (acc_highestBalanceHit_ext acc)
                then Some (acc_highestBalanceHit_ext acc) else None),
             lowestBalanceHit_ext =
               (if isFinite (acc_lowestBalanceHit_ext acc)
                then Some (acc_lowestBalanceHit_ext acc) else None)\<rparr>,
          results_ext = acc_results_ext acc\<rparr>)"

definition empty_acc_ext :: SweepAcc_ext where
  "empty_acc_ext =
     \<lparr>acc_results_ext = [], acc_endingBalances_ext = [],
      acc_highestBalanceHit_ext = NegInfinity, acc_lowestBalanceHit_ext = PosInfinity\<rparr>"

definition runRetirementSuccessByStartYear_ext ::
  "(string \<Rightarrow> real option) \<Rightarrow> MonthlyPricePoint list \<Rightarrow> RetirementArgs \<Rightarrow>
   error + SweepResult_ext" where
  "runRetirementSuccessByStartYear_ext num monthly a =
     (case sweep_starts_ext num monthly (buildReturns_ext monthly) a [0 ..< length monthly]
             empty_acc_ext of
        Inl e \<Rightarrow> Inl e
      | Inr acc \<Rightarrow> Inr (sweep_result_ext acc))"

text \<open>The sweep of the browser copy.\<close>

definition sweep_month_client_ext ::
  "(string \<Rightarrow> real option) \<Rightarrow> MonthlyPricePoint list \<Rightarrow> number list \<Rightarrow> RetirementArgs \<Rightarrow>
   GuardrailsConfig_ext \<Rightarrow> nat \<Rightarrow> SweepVars_ext \<Rightarrow> error + SweepVars_ext" where
  "sweep_month_client_ext num monthly returns a cfg i v =
     (let monthStr = month (monthly ! i);
          y = num (slice 0 4 monthStr);
          mon = num (slice 5 7 monthStr);
          year_changed = js_neq y (currentYear_ext v);
          currentYear1 = (if year_changed then y else currentYear_ext v);
          yearStartBalance1 = (if year_changed then balance_ext v else yearStartBalance_ext v);
          balance1 = num_mul (balance_ext v) (num_add (Finite 1) (returns ! i));
          ytdReturnAfterMarket =
            (if num_less (Finite 0) yearStartBalance1
             then num_sub (num_div balance1 yearStartBalance1) (Finite 1) else Finite 0);
          isWithdrawalMonth = (if withdrawFrequency a = ''monthly'' then True else mon = Some 1)
      in case computeWithdrawal_client_ext (withdrawMode a) (baseRateDecimal_ext a)
                (Finite (initialBalance a)) balance1 (withdrawFrequency a) (currentRate_ext v) cfg
                ytdReturnAfterMarket isWithdrawalMonth (inflationBasePeriodWithdraw_ext a)
                (inflationFactor_ext v) of
           Inl e \<Rightarrow> Inl e
         | Inr res \<Rightarrow> Inr (sweep_settle_ext a currentYear1 yearStartBalance1 balance1 res v))"

fun sweep_months_client_ext ::
  "(string \<Rightarrow> real option) \<Rightarrow> MonthlyPricePoint list \<Rightarrow> number list \<Rightarrow> RetirementArgs \<Rightarrow>
   GuardrailsConfig_ext \<Rightarrow> nat list \<Rightarrow> SweepVars_ext \<Rightarrow> error + SweepVars_ext" where
  "sweep_months_client_ext num monthly returns a cfg [] v = Inr v"
| "sweep_months_client_ext num monthly returns a cfg (i # rest) v =
     (case sweep_month_client_ext num monthly returns a cfg i v of
        Inl e \<Rightarrow> Inl e
      | Inr v' \<Rightarrow>
          if \<not> success_ext v' then Inr v'
          else sweep_months_client_ext num monthly returns a cfg rest v')"

fun sweep_starts_client_ext ::
  "(string \<Rightarrow> real option) \<Rightarrow> MonthlyPricePoint list \<Rightarrow> number list \<Rightarrow> RetirementArgs \<Rightarrow>
   nat list \<Rightarrow> SweepAcc_ext \<Rightarrow> error + SweepAcc_ext" where
  "sweep_starts_client_ext num monthly returns a [] acc = Inr acc"
| "sweep_starts_client_ext num monthly returns a (startIdx # rest) acc =
     (if num (slice 5 7 (month (monthly ! startIdx))) \<noteq> Some 1
      then sweep_starts_client_ext num monthly returns a rest acc
      else if startIdx + durationYears a * 12 > length monthly then Inr acc
      else
        (case sweep_months_client_ext num monthly returns a (snd (guardrails_setup_sweep_ext a))
                [startIdx ..< startIdx + durationYears a * 12]
                (sweep_initial_ext num a (month (monthly ! startIdx))
                   (fst (guardrails_setup_sweep_ext a))) of
           Inl e \<Rightarrow> Inl e
         | Inr v \<Rightarrow>
             sweep_starts_client_ext num monthly returns a rest
               (record_run_ext num a (month (monthly ! startIdx)) v acc)))"

definition runRetirementSuccessByStartYear_client_ext ::
  "(string \<Rightarrow> real option) \<Rightarrow> MonthlyPricePoint list \<Rightarrow> RetirementArgs \<Rightarrow>
   error + SweepResult_ext" where
  "runRetirementSuccessByStartYear_client_ext num monthly a =
     (if \<not> isFinite (baseRateDecimal_ext a) \<or> num_le (baseRateDecimal_ext a) (Finite 0)
      then Inl WithdrawRate
      else
        (case sweep_starts_client_ext num monthly (buildReturns_ext monthly) a
                [0 ..< length monthly] empty_acc_ext of
           Inl e \<Rightarrow> Inl e
         | Inr acc \<Rightarrow> Inr (sweep_result_ext acc)))"

section \<open>Observations on a series\<close>



text \<open>
  The guardrails rate after \<open>k\<close> simulated months, read off the series: the initial rate
  for \<open>k = 0\<close>, and one hundredth of the percentage recorded in entry \<open>k - 1\<close> otherwise.
\<close>

definition rate_after :: "RetirementArgs \<Rightarrow> MonthlySnapshot list \<Rightarrow> nat \<Rightarrow> real" where
  "rate_after a ser k =
     (if k = 0
      then clamp (withdrawValue a / 100) (guardrailsMinPct a / 100) (guardrailsMaxPct a / 100)
      else (case guardrailsRatePct (ser ! (k - 1)) of Some p \<Rightarrow> p / 100 | None \<Rightarrow> 0))"

text \<open>
  A policy configuration that the single run accepts: a positive rate, one of the three
  policy tags and, under guardrails, bounds with \<open>0 \<le> min \<le> max\<close> and \<open>0 < max\<close>.
\<close>

definition known_mode :: "string \<Rightarrow> bool" where
  "known_mode m \<longleftrightarrow> m = ''percentOfInitial'' \<or> m = ''percentOfCurrent'' \<or> m = ''guardrails''"

definition valid_config :: "RetirementArgs \<Rightarrow> bool" where
  "valid_config a \<longleftrightarrow>
     0 < withdrawValue a \<and> known_mode (withdrawMode a) \<and>
     (withdrawMode a = ''guardrails'' \<longrightarrow>
        0 \<le> guardrailsMinPct a \<and> 0 < guardrailsMaxPct a \<and>
        guardrailsMinPct a \<le> guardrailsMaxPct a)"

section \<open>Invariants of the loops\<close>



definition extrema_inv :: "RetirementArgs \<Rightarrow> RunState \<Rightarrow> bool" where
  "extrema_inv a s \<longleftrightarrow>
     highestBalance s = Max (insert (initialBalance a) (snap_value ` set (series s))) \<and>
     lowestBalance s = Min (insert (initialBalance a) (snap_value ` set (series s)))"


definition rates_inv ::
  "(string \<Rightarrow> real option) \<Rightarrow> MonthlyPricePoint list \<Rightarrow> RetirementArgs \<Rightarrow> nat list \<Rightarrow> RunState \<Rightarrow>
   bool" where
  "rates_inv num monthly a ps s \<longleftrightarrow>
     length (series s) = length ps \<and>
     currentRate s = Some (rate_after a (series s) (length ps)) \<and>
     guardrailsMinPct a / 100 \<le> rate_after a (series s) (length ps) \<and>
     rate_after a (series s) (length ps) \<le> guardrailsMaxPct a / 100 \<and>
     (\<forall>k<length ps.
        snap_month (series s ! k) = month (monthly ! (ps ! k)) \<and>
        guardrailsRatePct (series s ! k) = Some (rate_after a (series s) (Suc k) * 100) \<and>
        guardrailsMinPct a / 100 \<le> rate_after a (series s) k \<and>
        rate_after a (series s) k \<le> guardrailsMaxPct a / 100 \<and>
        \<bar>rate_after a (series s) (Suc k) - rate_after a (series s) k\<bar> \<le> 0.0025 \<and>
        (\<not> (withdrawFrequency a = ''monthly'' \<or>
            num (slice 5 7 (month (monthly ! (ps ! k)))) = Some 1) \<longrightarrow>
           rate_after a (series s) (Suc k) = rate_after a (series s) k))"

text \<open>What the outer loop of a sweep maintains, in the embedding with overflow.\<close>

definition acc_inv_ext :: "SweepAcc_ext \<Rightarrow> bool" where
  "acc_inv_ext acc \<longleftrightarrow>
     acc_endingBalances_ext acc = map endingBalance_ext (acc_results_ext acc) \<and>
     (acc_results_ext acc = [] \<longrightarrow>
        acc_highestBalanceHit_ext acc = NegInfinity \<and>
        acc_lowestBalanceHit_ext acc = PosInfinity)"

section \<open>Concrete inputs\<close>

text \<open>
  The conversion of a string of decimal digits to its number (the empty string converts
  to 0); the keys \<open>YYYY-MM\<close> of the loader have such pieces.
\<close>

definition digit_val :: "char \<Rightarrow> nat option" where
  "digit_val c =
     (let n = (of_char c :: nat) in if 48 \<le> n \<and> n \<le> 57 then Some (n - 48) else None)"

fun decimal_acc :: "nat \<Rightarrow> string \<Rightarrow> nat option" where
  "decimal_acc n [] = Some n"
| "decimal_acc n (c # cs) =
     (case digit_val c of None \<Rightarrow> None | Some d \<Rightarrow> decimal_acc (10 * n + d) cs)"

definition decimal :: "string \<Rightarrow> real option" where
  "decimal s = map_option real (decimal_acc 0 s)"

text \<open>Thirteen consecutive months, January 2000 to January 2001, at a constant close.\<close>

definition months13 :: "string list" where
  "months13 =
     [''2000-01'', ''2000-02'', ''2000-03'', ''2000-04'', ''2000-05'', ''2000-06'',
      ''2000-07'', ''2000-08'', ''2000-09'', ''2000-10'', ''2000-11'', ''2000-12'',
      ''2001-01'']"

definition flat13 :: "MonthlyPricePoint list" where
  "flat13 = map (\<lambda>s. \<lparr>month = s, close = Some 100\<rparr>) months13"

definition args0 :: RetirementArgs where
  "args0 =
     \<lparr>initialBalance = 1000, durationYears = 1, withdrawMode = ''percentOfInitial'',
      withdrawValue = 6, withdrawFrequency = ''monthly'', guardrailsMinPct = 3,
      guardrailsMaxPct = 6, guardrailsMinDollar = None,
      percentOfCurrentAnnualInflationPct = None\<rparr>"

text \<open>
  A plan that spends 720% of the initial balance a year, monthly: 600 a month out of 1000.
\<close>

definition ruin_args :: RetirementArgs where
  "ruin_args = args0\<lparr>withdrawValue := 720\<rparr>"

definition ruin_result :: RunState where
  "ruin_result =
     \<lparr>balance = 0, success = False, totalWithdrawn = 1000,
      highestBalance = 1000, lowestBalance = 0, peak = 1000,
      maxDrawdown = 1, currentRate = None, currentYear = Some 2000,
      yearStartBalance = 1000, inflationFactor = 1,
      series =
        [\<lparr>snap_month = ''2000-01'', snap_value = 400, withdrawal = 600,
          guardrailsRatePct = None, snap_inflationFactor = None\<rparr>,
         \<lparr>snap_month = ''2000-02'', snap_value = 0, withdrawal = 400,
          guardrailsRatePct = None, snap_inflationFactor = None\<rparr>]\<rparr>"

text \<open>The same plan under the inflation-adjusted policy, with no inflation.\<close>

definition poc_args :: RetirementArgs where
  "poc_args =
     args0\<lparr>withdrawValue := 720, withdrawMode := ''percentOfCurrent'',
           percentOfCurrentAnnualInflationPct := Some 0\<rparr>"




text \<open>
  Thirteen months whose close falls from 100 to 0 in February 2000 (the return of that
  month is \<open>-1\<close>), and thirteen months whose close is \<open>-50\<close> in February 2000 (a return
  of \<open>-3/2\<close>).
\<close>

definition crash13 :: "MonthlyPricePoint list" where
  "crash13 = flat13[1 := \<lparr>month = ''2000-02'', close = Some 0\<rparr>]"

definition neg13 :: "MonthlyPricePoint list" where
  "neg13 = flat13[1 := \<lparr>month = ''2000-02'', close = Some (- 50)\<rparr>]"


text \<open>
  A guardrails plan paid once a year: start at 5%, between 3% and 6%, no dollar floor.
\<close>

definition guard_args :: RetirementArgs where
  "guard_args =
     args0\<lparr>withdrawValue := 5, withdrawMode := ''guardrails'',
           withdrawFrequency := ''annual''\<rparr>"

definition guard_result :: RunState where
  "guard_result =
     \<lparr>balance = 0, success = False, totalWithdrawn = 95 / 2,
      highestBalance = 1000, lowestBalance = 0, peak = 1000,
      maxDrawdown = 1, currentRate = Some (19 / 400), currentYear = Some 2000,
      yearStartBalance = 1000, inflationFactor = 1,
      series =
        [\<lparr>snap_month = ''2000-01'', snap_value = 1905 / 2, withdrawal = 95 / 2,
          guardrailsRatePct = Some (19 / 4), snap_inflationFactor = None\<rparr>,
         \<lparr>snap_month = ''2000-02'', snap_value = 0, withdrawal = 0,
          guardrailsRatePct = Some (19 / 4), snap_inflationFactor = None\<rparr>]\<rparr>"

text \<open>Twelve months, January to December 2000.\<close>

definition flat12 :: "MonthlyPricePoint list" where
  "flat12 = take 12 flat13"

text \<open>What the sweep returns for the plan that is ruined in its second month.\<close>

definition ruin_sweep_result :: SweepResult where
  "ruin_sweep_result =
     \<lparr>summary =
        \<lparr>totalStartYearsTested = 1, successes = 0, successRate = 0,
         averageEndingBalance = Some 0, medianEndingBalance = Some 0,
         highestBalanceHit = Some 1000, lowestBalanceHit = Some 400\<rparr>,
      results =
        [\<lparr>startYear = Some 2000, passed = False, startingBalance = 1000,
          yo_highestBalance = 1000, yo_lowestBalance = 400, endingBalance = 0\<rparr>]\<rparr>"

text \<open>The first plan with a withdraw rate of 0.\<close>

definition zero_rate_args :: RetirementArgs where
  "zero_rate_args = args0\<lparr>withdrawValue := 0\<rparr>"

text \<open>The series of the closes 100 and 90: one month with a return of \<open>-10%\<close>.\<close>

definition two_points :: "MonthlyPricePoint list" where
  "two_points = [\<lparr>month = ''2000-01'', close = Some 100\<rparr>, \<lparr>month = ''2000-02'', close = Some 90\<rparr>]"

text \<open>
  Two closes whose quotient overflows: \<open>2^-600\<close> and \<open>2^600\<close>, both binary64 numbers.
\<close>

definition overflow_points :: "MonthlyPricePoint list" where
  "overflow_points =
     [\<lparr>month = ''2000-01'', close = Some (1 / 2 ^ 600)\<rparr>,
      \<lparr>month = ''2000-02'', close = Some (2 ^ 600)\<rparr>]"

text \<open>
  Five months with a close of 0 and a close that is not finite: three returns take the
  default 0.
\<close>

definition gap_points :: "MonthlyPricePoint list" where
  "gap_points =
     [\<lparr>month = ''2000-01'', close = Some 100\<rparr>, \<lparr>month = ''2000-02'', close = Some 0\<rparr>,
      \<lparr>month = ''2000-03'', close = Some 90\<rparr>, \<lparr>month = ''2000-04'', close = None\<rparr>,
      \<lparr>month = ''2000-05'', close = Some 80\<rparr>]"

text \<open>
  A guardrails plan paid monthly on the initial balance \<open>2^1023\<close>, on thirteen months whose
  close triples in February 2000; the guardrails configuration of that plan; the
  variables of its run from that February on; and what the sweep returns for it.
\<close>

definition huge_balance :: real where
  "huge_balance = 2 ^ 1023"

definition boom13 :: "MonthlyPricePoint list" where
  "boom13 = flat13[1 := \<lparr>month = ''2000-02'', close = Some 300\<rparr>]"

definition overflow_args :: RetirementArgs where
  "overflow_args =
     args0\<lparr>initialBalance := huge_balance, withdrawValue := 5, withdrawMode := ''guardrails''\<rparr>"

definition overflow_cfg :: GuardrailsConfig_ext where
  "overflow_cfg =
     \<lparr>minRate_ext = Finite (3 / 100), maxRate_ext = Finite (6 / 100), step_ext = Finite 0.0025,
      minDollarFloor_ext = Finite 0\<rparr>"

definition nan_vars :: SweepVars_ext where
  "nan_vars =
     \<lparr>balance_ext = NaN, success_ext = True, highest_ext = NaN, lowest_ext = NaN,
      currentRate_ext = Some (Finite (19 / 400)), currentYear_ext = Some 2000,
      yearStartBalance_ext = Finite huge_balance, inflationFactor_ext = Finite 1\<rparr>"

definition overflow_sweep_result :: SweepResult_ext where
  "overflow_sweep_result =
     \<lparr>summary_ext =
        \<lparr>totalStartYearsTested_ext = 1, successes_ext = 1, successRate_ext = Finite 1,
         averageEndingBalance_ext = Some NaN, medianEndingBalance_ext = Some NaN,
         highestBalanceHit_ext = None, lowestBalanceHit_ext = None\<rparr>,
      results_ext =
        [\<lparr>startYear_ext = Some 2000, passed_ext = True,
          startingBalance_ext = Finite huge_balance, highestBalance_ext = NaN,
          lowestBalance_ext = NaN, endingBalance_ext = NaN\<rparr>]\<rparr>"

text \<open>
  Twenty-five months, January 2000 to January 2002, whose close is 0 in February 2000 and
  100 in every other month; the first plan paid once a year (60 every January); the
  variables of its run from January 2001 and of its run from January 2000, ruined in that
  February; and what the sweep returns for it.
\<close>

definition months25 :: "string list" where
  "months25 =
     months13 @
     [''2001-02'', ''2001-03'', ''2001-04'', ''2001-05'', ''2001-06'', ''2001-07'',
      ''2001-08'', ''2001-09'', ''2001-10'', ''2001-11'', ''2001-12'', ''2002-01'']"

definition crash25 :: "MonthlyPricePoint list" where
  "crash25 =
     (map (\<lambda>s. \<lparr>month = s, close = Some 100\<rparr>) months25)
       [1 := \<lparr>month = ''2000-02'', close = Some 0\<rparr>]"

definition annual_args :: RetirementArgs where
  "annual_args = args0\<lparr>withdrawFrequency := ''annual''\<rparr>"

definition default_cfg_ext :: GuardrailsConfig_ext where
  "default_cfg_ext =
     \<lparr>minRate_ext = Finite 0, maxRate_ext = Finite 1, step_ext = Finite 0.0025,
      minDollarFloor_ext = Finite 0\<rparr>"

definition idle_vars :: SweepVars_ext where
  "idle_vars =
     \<lparr>balance_ext = Finite 940, success_ext = True, highest_ext = Finite 1000,
      lowest_ext = Finite 940, currentRate_ext = None, currentYear_ext = Some 2001,
      yearStartBalance_ext = Finite 1000, inflationFactor_ext = Finite 1\<rparr>"

definition ruined_vars :: SweepVars_ext where
  "ruined_vars =
     \<lparr>balance_ext = Finite 0, success_ext = False, highest_ext = Finite 1000,
      lowest_ext = Finite 940, currentRate_ext = None, currentYear_ext = Some 2000,
      yearStartBalance_ext = Finite 1000, inflationFactor_ext = Finite 1\<rparr>"

definition half_sweep_result :: SweepResult_ext where
  "half_sweep_result =
     \<lparr>summary_ext =
        \<lparr>totalStartYearsTested_ext = 2, successes_ext = 1, successRate_ext = Finite (1 / 2),
         averageEndingBalance_ext = Some (Finite 470),
         medianEndingBalance_ext = Some (Finite 470),
         highestBalanceHit_ext = Some (Finite 1000),
         lowestBalanceHit_ext = Some (Finite 940)\<rparr>,
      results_ext =
        [\<lparr>startYear_ext = Some 2000, passed_ext = False,
          startingBalance_ext = Finite 1000, highestBalance_ext = Finite 1000,
          lowestBalance_ext = Finite 940, endingBalance_ext = Finite 0\<rparr>,
         \<lparr>startYear_ext = Some 2001, passed_ext = True,
          startingBalance_ext = Finite 1000, highestBalance_ext = Finite 1000,
          lowestBalance_ext = Finite 940, endingBalance_ext = Finite 940\<rparr>]\<rparr>"

text \<open>What the sweep returns when no start year has enough data.\<close>

definition empty_sweep_result :: SweepResult_ext where
  "empty_sweep_result =
     \<lparr>summary_ext =
        \<lparr>totalStartYearsTested_ext = 0, successes_ext = 0, successRate_ext = Finite 0,
         averageEndingBalance_ext = None, medianEndingBalance_ext = None,
         highestBalanceHit_ext = None, lowestBalanceHit_ext = None\<rparr>,
      results_ext = []\<rparr>"

section \<open>Properties of the return series\<close>

lemma fold_update_length:
  "length (fold (\<lambda>i r. r[i := f i]) js r) = length r"
  by (induction js arbitrary: r) auto

lemma fold_update_nth:
  "j < length r \<Longrightarrow>
   fold (\<lambda>i r. r[i := f i]) js r ! j = (if j \<in> set js then f j else r ! j)"
  by (induction js arbitrary: r) (auto simp: nth_list_update)

lemma buildReturns_length: "length (buildReturns monthly) = length monthly"
  by (simp add: buildReturns_def Let_def fold_update_length)

lemma buildReturns_nth:
  "i < length monthly \<Longrightarrow>
   buildReturns monthly ! i =
     (if i = 0 then 0 else return_of (close (monthly ! (i - 1))) (close (monthly ! i)))"
  by (auto simp: buildReturns_def Let_def fold_update_nth)

lemma threshold_facts:
  "0 < MAX_VALUE" "MAX_VALUE + 1 < overflow_threshold" "1 < overflow_threshold"
  by (simp_all add: MAX_VALUE_def overflow_threshold_def)

lemma js_result_cases:
  obtains "js_result x = Finite x" "- overflow_threshold < x" "x < overflow_threshold"
  | "js_result x = PosInfinity" "overflow_threshold \<le> x"
  | "js_result x = NegInfinity" "x \<le> - overflow_threshold"
  unfolding js_result_def using threshold_facts(3)
  by (cases "overflow_threshold \<le> x"; cases "x \<le> - overflow_threshold") auto

lemma js_result_not_NaN [simp]: "js_result x \<noteq> NaN"
  by (rule js_result_cases [of x]) simp_all

lemma js_result_in_range: "\<bar>x\<bar> < overflow_threshold \<Longrightarrow> js_result x = Finite x"
  by (auto simp: js_result_def)

lemma js_result_small: "\<bar>x\<bar> \<le> 1000000 \<Longrightarrow> js_result x = Finite x"
  by (rule js_result_in_range) (simp add: overflow_threshold_def)

lemma infinity_of_not_NaN [simp]: "infinity_of p \<noteq> NaN"
  by (simp add: infinity_of_def)

lemma buildReturns_ext_length: "length (buildReturns_ext monthly) = length monthly"
  by (simp add: buildReturns_ext_def Let_def fold_update_length)

lemma buildReturns_ext_nth:
  "i < length monthly \<Longrightarrow>
   buildReturns_ext monthly ! i =
     (if i = 0 then Finite 0 else return_ext (close (monthly ! (i - 1))) (close (monthly ! i)))"
  by (auto simp: buildReturns_ext_def Let_def fold_update_nth)

lemma quotient_return:
  "0 < p \<Longrightarrow> num_sub (num_div (Finite c) (Finite p)) (Finite 1) \<noteq> NaN"
  "0 < p \<Longrightarrow> \<bar>c / p\<bar> \<le> MAX_VALUE \<Longrightarrow>
     num_sub (num_div (Finite c) (Finite p)) (Finite 1) = Finite (c / p - 1)"
  "0 < p \<Longrightarrow> overflow_threshold \<le> c / p \<Longrightarrow>
     num_sub (num_div (Finite c) (Finite p)) (Finite 1) = PosInfinity"
  "0 < p \<Longrightarrow> c / p \<le> - overflow_threshold \<Longrightarrow>
     num_sub (num_div (Finite c) (Finite p)) (Finite 1) = NegInfinity"
proof -
  assume "0 < p"
  then show "num_sub (num_div (Finite c) (Finite p)) (Finite 1) \<noteq> NaN"
    by (cases "num_div (Finite c) (Finite p)")
       (auto simp: num_sub_def infinity_of_def js_result_def split: if_splits)
next
  assume p: "0 < p" and q: "\<bar>c / p\<bar> \<le> MAX_VALUE"
  from q threshold_facts(2) have "\<bar>c / p\<bar> < overflow_threshold" "\<bar>c / p - 1\<bar> < overflow_threshold"
    by linarith+
  with p show "num_sub (num_div (Finite c) (Finite p)) (Finite 1) = Finite (c / p - 1)"
    by (simp add: num_sub_def js_result_in_range)
next
  assume "0 < p" "overflow_threshold \<le> c / p"
  then show "num_sub (num_div (Finite c) (Finite p)) (Finite 1) = PosInfinity"
    by (simp add: num_sub_def js_result_def)
next
  assume "0 < p" "c / p \<le> - overflow_threshold"
  then show "num_sub (num_div (Finite c) (Finite p)) (Finite 1) = NegInfinity"
    using threshold_facts(3) by (simp add: num_sub_def js_result_def)
qed

lemma return_ext_cases:
  "return_ext None cur = Finite 0" "return_ext prev None = Finite 0"
  "\<not> 0 < p \<Longrightarrow> return_ext (Some p) (Some c) = Finite 0"
  "0 < p \<Longrightarrow> return_ext (Some p) (Some c) = num_sub (num_div (Finite c) (Finite p)) (Finite 1)"
  by (simp_all add: return_ext_def split: option.splits)

text \<open>
  C9, as amended. For every price series of length at least 1, the return series has the
  length of the price series and its first element is 0. The element at a later index
  \<open>i\<close> is \<open>close[i] / close[i-1] - 1\<close>, computed in floating point, when the conversions
  \<^verbatim>\<open>Number(close[i-1])\<close> and \<^verbatim>\<open>Number(close[i])\<close> are finite and the first is positive, and 0
  otherwise. No element is \<^verbatim>\<open>NaN\<close>. An element is finite whenever the magnitude of the
  quotient is at most \<^verbatim>\<open>Number.MAX_VALUE\<close>, and is then \<open>close[i] / close[i-1] - 1\<close> (up to
  the rounding that is not modelled); it is \<open>Infinity\<close> or \<open>-Infinity\<close> when the quotient
  overflows.
\<close>

theorem buildReturns_ext_spec:
  "length (buildReturns_ext monthly) = length monthly \<and>
   (monthly \<noteq> [] \<longrightarrow> buildReturns_ext monthly ! 0 = Finite 0) \<and>
   (\<forall>i. 0 < i \<and> i < length monthly \<longrightarrow>
      buildReturns_ext monthly ! i \<noteq> NaN \<and>
      (case (close (monthly ! (i - 1)), close (monthly ! i)) of
         (Some prev, Some cur) \<Rightarrow>
           if prev > 0 then
             buildReturns_ext monthly ! i =
               num_sub (num_div (Finite cur) (Finite prev)) (Finite 1) \<and>
             (\<bar>cur / prev\<bar> \<le> MAX_VALUE \<longrightarrow>
                buildReturns_ext monthly ! i = Finite (cur / prev - 1)) \<and>
             (overflow_threshold \<le> cur / prev \<longrightarrow>
                buildReturns_ext monthly ! i = PosInfinity) \<and>
             (cur / prev \<le> - overflow_threshold \<longrightarrow>
                buildReturns_ext monthly ! i = NegInfinity)
           else buildReturns_ext monthly ! i = Finite 0
       | _ \<Rightarrow> buildReturns_ext monthly ! i = Finite 0))"
proof (intro conjI allI impI)
  show "length (buildReturns_ext monthly) = length monthly" by (rule buildReturns_ext_length)
next
  assume "monthly \<noteq> []"
  then show "buildReturns_ext monthly ! 0 = Finite 0" by (simp add: buildReturns_ext_nth)
next
  fix i assume i: "0 < i \<and> i < length monthly"
  then have nth: "buildReturns_ext monthly ! i =
      return_ext (close (monthly ! (i - 1))) (close (monthly ! i))"
    by (simp add: buildReturns_ext_nth)
  have "return_ext prev cur \<noteq> NaN \<and>
      (case (prev, cur) of
         (Some prev, Some cur) \<Rightarrow>
           if prev > 0 then
             return_ext (Some prev) (Some cur) =
               num_sub (num_div (Finite cur) (Finite prev)) (Finite 1) \<and>
             (\<bar>cur / prev\<bar> \<le> MAX_VALUE \<longrightarrow>
                return_ext (Some prev) (Some cur) = Finite (cur / prev - 1)) \<and>
             (overflow_threshold \<le> cur / prev \<longrightarrow>
                return_ext (Some prev) (Some cur) = PosInfinity) \<and>
             (cur / prev \<le> - overflow_threshold \<longrightarrow>
                return_ext (Some prev) (Some cur) = NegInfinity)
           else return_ext (Some prev) (Some cur) = Finite 0
       | _ \<Rightarrow> return_ext prev cur = Finite 0)" for prev cur
  proof (cases prev)
    case None
    then show ?thesis by (simp add: return_ext_cases)
  next
    case p: (Some p)
    show ?thesis
    proof (cases cur)
      case None
      with p show ?thesis by (simp add: return_ext_cases)
    next
      case c: (Some c)
      show ?thesis
      proof (cases "0 < p")
        case False
        then show ?thesis unfolding p c by (simp add: return_ext_cases(3))
      next
        case True
        note q = quotient_return [OF True, of c]
        show ?thesis
          unfolding p c prod.case option.case return_ext_cases(4) [OF True]
          using True q by (simp only: if_True) blast
      qed
    qed
  qed
  from this [of "close (monthly ! (i - 1))" "close (monthly ! i)"]
  show "buildReturns_ext monthly ! i \<noteq> NaN"
    and "case (close (monthly ! (i - 1)), close (monthly ! i)) of
         (Some prev, Some cur) \<Rightarrow>
           if prev > 0 then
             buildReturns_ext monthly ! i =
               num_sub (num_div (Finite cur) (Finite prev)) (Finite 1) \<and>
             (\<bar>cur / prev\<bar> \<le> MAX_VALUE \<longrightarrow>
                buildReturns_ext monthly ! i = Finite (cur / prev - 1)) \<and>
             (overflow_threshold \<le> cur / prev \<longrightarrow>
                buildReturns_ext monthly ! i = PosInfinity) \<and>
             (cur / prev \<le> - overflow_threshold \<longrightarrow>
                buildReturns_ext monthly ! i = NegInfinity)
           else buildReturns_ext monthly ! i = Finite 0
       | _ \<Rightarrow> buildReturns_ext monthly ! i = Finite 0"
    unfolding nth by (auto split: option.splits if_splits)
qed

lemma returns_two_points: "buildReturns_ext two_points = [Finite 0, Finite (- (1 / 10))]"
  by (simp add: two_points_def buildReturns_ext_def return_ext_def num_sub_def js_result_small)

lemma returns_gap_points:
  "buildReturns_ext gap_points = [Finite 0, Finite (- 1), Finite 0, Finite 0, Finite 0]"
  by (simp add: gap_points_def buildReturns_ext_def return_ext_def num_sub_def js_result_small
      upt_rec numeral_nat)

lemma overflow_quotient: "overflow_threshold \<le> 2 ^ 600 / (1 / 2 ^ 600)"
  by (simp add: overflow_threshold_def)

lemma returns_overflow_points: "buildReturns_ext overflow_points = [Finite 0, PosInfinity]"
  using overflow_quotient
  by (simp add: overflow_points_def buildReturns_ext_def return_ext_def num_sub_def
      js_result_def)

text \<open>
  The claim as stated fails where the quotient overflows: both closes are finite and
  positive, and the return is \<open>Infinity\<close>.
\<close>

theorem buildReturns_not_finite_counterexample:
  "map close overflow_points = [Some (1 / 2 ^ 600), Some (2 ^ 600)] \<and>
   buildReturns_ext overflow_points = [Finite 0, PosInfinity] \<and>
   \<not> isFinite (buildReturns_ext overflow_points ! 1)"
  using returns_overflow_points by (simp add: overflow_points_def)

theorem buildReturns_ext_spec_witness:
  "two_points \<noteq> [] \<and> (0::nat) < 1 \<and> 1 < length two_points \<and>
   map close two_points = [Some 100, Some 90] \<and>
   \<bar>90 / 100 :: real\<bar> \<le> MAX_VALUE \<and>
   buildReturns_ext two_points = [Finite 0, Finite (- (1 / 10))] \<and>
   map close gap_points = [Some 100, Some 0, Some 90, None, Some 80] \<and>
   buildReturns_ext gap_points = [Finite 0, Finite (- 1), Finite 0, Finite 0, Finite 0] \<and>
   map close overflow_points = [Some (1 / 2 ^ 600), Some (2 ^ 600)] \<and>
   overflow_threshold \<le> 2 ^ 600 / (1 / 2 ^ 600) \<and>
   buildReturns_ext overflow_points ! 1 = PosInfinity"
proof -
  have inputs: "two_points \<noteq> [] \<and> (0::nat) < 1 \<and> 1 < length two_points \<and>
      map close two_points = [Some 100, Some 90] \<and>
      map close gap_points = [Some 100, Some 0, Some 90, None, Some 80] \<and>
      map close overflow_points = [Some (1 / 2 ^ 600), Some (2 ^ 600)]"
    by (simp add: two_points_def gap_points_def overflow_points_def)
  have small: "\<bar>90 / 100 :: real\<bar> \<le> MAX_VALUE" by (simp add: MAX_VALUE_def)
  from buildReturns_ext_spec [of two_points] buildReturns_ext_spec [of gap_points]
    buildReturns_ext_spec [of overflow_points]
  show ?thesis
    using inputs small overflow_quotient
    by (simp only: returns_two_points returns_gap_points returns_overflow_points) simp
qed

text \<open>
  The exact return series, which the simulator computes with, is the return series with
  overflow wherever that one is finite.
\<close>

lemma buildReturns_ext_exact:
  assumes "i < length monthly" "buildReturns_ext monthly ! i = Finite r"
  shows "buildReturns monthly ! i = r"
proof (cases "i = 0")
  case True
  with assms show ?thesis by (simp add: buildReturns_ext_nth buildReturns_nth)
next
  case False
  have "return_ext prev cur = Finite r \<Longrightarrow> return_of prev cur = r" for prev cur
    by (auto simp: return_ext_def return_of_def num_sub_def js_result_def infinity_of_def
        split: option.splits if_splits)
  with assms False show ?thesis by (simp add: buildReturns_ext_nth buildReturns_nth)
qed

section \<open>One month of a run\<close>

lemma settle_month_simps:
  "balance (settle_month a ms cy ysb b1 (wd, gr, r') st) =
     (if b1 - min b1 (max 0 wd) \<le> 0 then 0 else b1 - min b1 (max 0 wd))"
  "success (settle_month a ms cy ysb b1 (wd, gr, r') st) =
     (if b1 - min b1 (max 0 wd) \<le> 0 then False else success st)"
  "totalWithdrawn (settle_month a ms cy ysb b1 (wd, gr, r') st) =
     totalWithdrawn st + min b1 (max 0 wd)"
  "highestBalance (settle_month a ms cy ysb b1 (wd, gr, r') st) =
     max (highestBalance st) (if b1 - min b1 (max 0 wd) \<le> 0 then 0 else b1 - min b1 (max 0 wd))"
  "lowestBalance (settle_month a ms cy ysb b1 (wd, gr, r') st) =
     min (lowestBalance st) (if b1 - min b1 (max 0 wd) \<le> 0 then 0 else b1 - min b1 (max 0 wd))"
  "currentRate (settle_month a ms cy ysb b1 (wd, gr, r') st) = r'"
  "inflationFactor (settle_month a ms cy ysb b1 (wd, gr, r') st) =
     (if withdrawMode a = ''percentOfCurrent''
      then inflationFactor st * (1 + monthlyInfl a) else inflationFactor st)"
  "series (settle_month a ms cy ysb b1 (wd, gr, r') st) =
     series st @
       [\<lparr>snap_month = ms,
         snap_value = (if b1 - min b1 (max 0 wd) \<le> 0 then 0 else b1 - min b1 (max 0 wd)),
         withdrawal = min b1 (max 0 wd),
         guardrailsRatePct = map_option (\<lambda>r. r * 100) gr,
         snap_inflationFactor =
           (if withdrawMode a = ''percentOfCurrent'' then Some (inflationFactor st) else None)\<rparr>]"
  unfolding settle_month_def Let_def prod.case
  by (simp_all only: RunState.select_convs)

lemma run_month_Inr:
  assumes "run_month num monthly returns a cfg i st = Inr st'"
  obtains ytd res cy ysb where
    "computeWithdrawal (withdrawMode a) (baseRateDecimal a) (initialBalance a)
        (balance st * (1 + returns ! i)) (withdrawFrequency a) (currentRate st) cfg ytd
        (withdrawFrequency a = ''monthly'' \<or> num (slice 5 7 (month (monthly ! i))) = Some 1)
        (inflationBasePeriodWithdraw a) (inflationFactor st) = Inr res"
    "0 < baseRateDecimal a"
    "st' = settle_month a (month (monthly ! i)) cy ysb (balance st * (1 + returns ! i)) res st"
proof (cases "baseRateDecimal a \<le> 0")
  case True
  then have "run_month num monthly returns a cfg i st = Inl WithdrawRate"
    unfolding run_month_def Let_def by (simp only: if_True)
  with assms show ?thesis by simp
next
  case False
  define y where "y = num (slice 0 4 (month (monthly ! i)))"
  define cy where "cy = (if js_neq y (currentYear st) then y else currentYear st)"
  define ysb where "ysb = (if js_neq y (currentYear st) then balance st else yearStartBalance st)"
  define b1 where "b1 = balance st * (1 + returns ! i)"
  define ytd where "ytd = (if ysb > 0 then b1 / ysb - 1 else 0)"
  define isW where
    "isW = (if withdrawFrequency a = ''monthly'' then True
            else num (slice 5 7 (month (monthly ! i))) = Some 1)"
  define cw where
    "cw = computeWithdrawal (withdrawMode a) (baseRateDecimal a) (initialBalance a) b1
            (withdrawFrequency a) (currentRate st) cfg ytd isW
            (inflationBasePeriodWithdraw a) (inflationFactor st)"
  have eq: "run_month num monthly returns a cfg i st =
      (case cw of Inl e \<Rightarrow> Inl e
       | Inr res \<Rightarrow> Inr (settle_month a (month (monthly ! i)) cy ysb b1 res st))"
    unfolding run_month_def Let_def cw_def isW_def ytd_def b1_def ysb_def cy_def y_def
    using False by (simp only: if_False)
  from assms eq obtain res where res: "cw = Inr res"
    and st': "st' = settle_month a (month (monthly ! i)) cy ysb b1 res st"
    by (cases cw) auto
  have isW': "isW = (withdrawFrequency a = ''monthly'' \<or>
                     num (slice 5 7 (month (monthly ! i))) = Some 1)"
    by (simp add: isW_def)
  show ?thesis
  proof (rule that)
    show "computeWithdrawal (withdrawMode a) (baseRateDecimal a) (initialBalance a)
        (balance st * (1 + returns ! i)) (withdrawFrequency a) (currentRate st) cfg ytd
        (withdrawFrequency a = ''monthly'' \<or> num (slice 5 7 (month (monthly ! i))) = Some 1)
        (inflationBasePeriodWithdraw a) (inflationFactor st) = Inr res"
      using res unfolding cw_def b1_def isW' by simp
    show "0 < baseRateDecimal a" using False by simp
    show "st' = settle_month a (month (monthly ! i)) cy ysb (balance st * (1 + returns ! i)) res st"
      using st' b1_def by blast
  qed
qed

text \<open>What one month does to the state, with the clamped withdrawal named.\<close>

lemma run_month_step:
  assumes "run_month num monthly returns a cfg i st = Inr st'"
  obtains ytd wd gr r' w e where
    "computeWithdrawal (withdrawMode a) (baseRateDecimal a) (initialBalance a)
        (balance st * (1 + returns ! i)) (withdrawFrequency a) (currentRate st) cfg ytd
        (withdrawFrequency a = ''monthly'' \<or> num (slice 5 7 (month (monthly ! i))) = Some 1)
        (inflationBasePeriodWithdraw a) (inflationFactor st) = Inr (wd, gr, r')"
    "0 < baseRateDecimal a"
    "w = min (balance st * (1 + returns ! i)) (max 0 wd)"
    "balance st' = (if balance st * (1 + returns ! i) - w \<le> 0 then 0
                    else balance st * (1 + returns ! i) - w)"
    "success st' = (if balance st * (1 + returns ! i) - w \<le> 0 then False else success st)"
    "totalWithdrawn st' = totalWithdrawn st + w"
    "highestBalance st' = max (highestBalance st) (balance st')"
    "lowestBalance st' = min (lowestBalance st) (balance st')"
    "currentRate st' = r'"
    "inflationFactor st' =
       (if withdrawMode a = ''percentOfCurrent''
        then inflationFactor st * (1 + monthlyInfl a) else inflationFactor st)"
    "series st' = series st @ [e]"
    "snap_month e = month (monthly ! i)"
    "snap_value e = balance st'"
    "withdrawal e = w"
    "guardrailsRatePct e = map_option (\<lambda>r. r * 100) gr"
    "snap_inflationFactor e =
       (if withdrawMode a = ''percentOfCurrent'' then Some (inflationFactor st) else None)"
proof -
  from assms obtain ytd res cy ysb where
    cw: "computeWithdrawal (withdrawMode a) (baseRateDecimal a) (initialBalance a)
        (balance st * (1 + returns ! i)) (withdrawFrequency a) (currentRate st) cfg ytd
        (withdrawFrequency a = ''monthly'' \<or> num (slice 5 7 (month (monthly ! i))) = Some 1)
        (inflationBasePeriodWithdraw a) (inflationFactor st) = Inr res"
    and rate: "0 < baseRateDecimal a"
    and st': "st' = settle_month a (month (monthly ! i)) cy ysb (balance st * (1 + returns ! i)) res st"
    by (rule run_month_Inr)
  obtain wd gr r' where res: "res = (wd, gr, r')" by (cases res) auto
  note s = settle_month_simps [of a "month (monthly ! i)" cy ysb "balance st * (1 + returns ! i)" wd gr r' st]
  show ?thesis
  proof (rule that [of ytd wd gr r' "min (balance st * (1 + returns ! i)) (max 0 wd)"
        "last (series st')"])
    show "series st' = series st @ [last (series st')]"
      unfolding st' res s(8) by (simp only: last_snoc)
  qed (use cw rate in \<open>simp_all only: st' res s last_snoc MonthlySnapshot.select_convs\<close>)
qed

section \<open>The browser copy computes what the library computes\<close>

lemma computeWithdrawal_client_eq:
  "computeWithdrawal_client mode r ib b f cr cfg ytd isW base fac =
   computeWithdrawal mode r ib b f cr cfg ytd isW base fac"
proof -
  consider "ytd > 0.08" | "ytd < 0.03" | "\<not> ytd > 0.08" "\<not> ytd < 0.03" by blast
  then show ?thesis
  proof cases
    case 1
    then have "\<not> ytd < 0.03" by simp
    with 1 show ?thesis
      unfolding computeWithdrawal_client_def computeWithdrawal_def Let_def
      by (simp only: if_True if_False)
  next
    case 2
    then have "\<not> ytd > 0.08" by simp
    with 2 show ?thesis
      unfolding computeWithdrawal_client_def computeWithdrawal_def Let_def
      by (simp only: if_True if_False)
  next
    case 3
    then show ?thesis
      unfolding computeWithdrawal_client_def computeWithdrawal_def Let_def
      by (simp only: if_True if_False)
  qed
qed

lemma run_month_client_eq:
  "0 < baseRateDecimal a \<Longrightarrow>
   run_month_client num monthly returns a cfg i st = run_month num monthly returns a cfg i st"
  unfolding run_month_client_def run_month_def Let_def computeWithdrawal_client_eq
  by (simp only: not_le [symmetric] if_False)

lemma run_months_client_eq:
  "0 < baseRateDecimal a \<Longrightarrow>
   run_months_client num monthly returns a cfg js st = run_months num monthly returns a cfg js st"
  by (induction js arbitrary: st) (simp_all add: run_month_client_eq split: sum.splits)

lemma sweep_month_client_eq:
  "sweep_month_client num monthly returns a cfg i v = sweep_month num monthly returns a cfg i v"
  unfolding sweep_month_client_def sweep_month_def Let_def computeWithdrawal_client_eq ..

lemma sweep_months_client_eq:
  "sweep_months_client num monthly returns a cfg js v = sweep_months num monthly returns a cfg js v"
  by (induction js arbitrary: v) (simp_all add: sweep_month_client_eq split: sum.splits)

section \<open>Evaluation on the concrete inputs\<close>

lemma decimal_evals:
  "decimal ''2000'' = Some 2000" "decimal ''2001'' = Some 2001"
  "decimal ''01'' = Some 1" "decimal ''02'' = Some 2"
  by (simp_all add: decimal_def digit_val_def)

lemma findMonthIndex_flat13: "findMonthIndex decimal flat13 ''2000-01'' = Some 0"
  by (simp add: findMonthIndex_def flat13_def months13_def)

lemma buildReturns_flat13: "buildReturns flat13 = replicate 13 0"
  by (simp add: buildReturns_def flat13_def months13_def return_of_def upt_rec numeral_nat)

lemma settle_month_eval:
  assumes "min b1 (max 0 wd) = w"
    and "(if b1 - w \<le> 0 then 0 else b1 - w) = b3"
    and "(if b1 - w \<le> 0 then False else success st) = ok'"
    and "totalWithdrawn st + w = tot'"
    and "max (highestBalance st) b3 = hi'"
    and "min (lowestBalance st) b3 = lo'"
    and "max (peak st) b3 = p1"
    and "max (maxDrawdown st) (if p1 > 0 then (p1 - b3) / p1 else 0) = dd'"
    and "(if withdrawMode a = ''percentOfCurrent''
          then inflationFactor st * (1 + monthlyInfl a) else inflationFactor st) = f'"
    and "series st @
          [\<lparr>snap_month = ms, snap_value = b3, withdrawal = w,
            guardrailsRatePct = map_option (\<lambda>r. r * 100) gr,
            snap_inflationFactor =
              (if withdrawMode a = ''percentOfCurrent''
               then Some (inflationFactor st) else None)\<rparr>] = ser'"
  shows "settle_month a ms cy ysb b1 (wd, gr, r') st =
     \<lparr>balance = b3, success = ok', totalWithdrawn = tot', highestBalance = hi',
      lowestBalance = lo', peak = p1, maxDrawdown = dd', currentRate = r',
      currentYear = cy, yearStartBalance = ysb, inflationFactor = f', series = ser'\<rparr>"
  unfolding settle_month_def Let_def prod.case
  unfolding assms ..

lemma run_month_eval:
  assumes "0 < baseRateDecimal a"
    and "month (monthly ! i) = ms"
    and "num (slice 0 4 ms) = y"
    and "num (slice 5 7 ms) = m"
    and "(if js_neq y (currentYear st) then y else currentYear st) = cy"
    and "(if js_neq y (currentYear st) then balance st else yearStartBalance st) = ysb"
    and "balance st * (1 + returns ! i) = b1"
    and "(if ysb > 0 then b1 / ysb - 1 else 0) = ytd"
    and "(if withdrawFrequency a = ''monthly'' then True else m = Some 1) = isW"
    and "computeWithdrawal (withdrawMode a) (baseRateDecimal a) (initialBalance a) b1
           (withdrawFrequency a) (currentRate st) cfg ytd isW
           (inflationBasePeriodWithdraw a) (inflationFactor st) = Inr res"
    and "settle_month a ms cy ysb b1 res st = st'"
  shows "run_month num monthly returns a cfg i st = Inr st'"
proof -
  from assms(1) have "\<not> baseRateDecimal a \<le> 0" by simp
  then show ?thesis
    unfolding run_month_def Let_def
    unfolding assms(2) assms(3) assms(4) assms(5) assms(6) assms(7) assms(8) assms(9) assms(10)
    by (simp only: if_False sum.case assms(11))
qed

lemmas run_month_steps =
  run_month_eval [OF _ _ _ _ _ _ _ _ _ _ settle_month_eval]

lemma sweep_settle_eval:
  assumes "min b1 (max 0 wd) = w"
    and "b1 - w = b2"
    and "(if b2 \<le> 0 then 0 else b2) = b3"
    and "(if b2 \<le> 0 then False else sw_success v) = ok'"
    and "(if b2 \<le> 0 then highest v else max (highest v) b2) = hi'"
    and "(if b2 \<le> 0 then lowest v else min (lowest v) b2) = lo'"
    and "(if b2 \<le> 0 then sw_inflationFactor v
          else if withdrawMode a = ''percentOfCurrent''
               then sw_inflationFactor v * (1 + monthlyInfl a)
               else sw_inflationFactor v) = f'"
  shows "sweep_settle a cy ysb b1 (wd, gr, r') v =
     \<lparr>sw_balance = b3, sw_success = ok', highest = hi', lowest = lo', sw_currentRate = r',
      sw_currentYear = cy, sw_yearStartBalance = ysb, sw_inflationFactor = f'\<rparr>"
  unfolding sweep_settle_def Let_def prod.case assms(1) assms(2)
  using assms(3-7) by (cases "b2 \<le> 0") simp_all

lemma sweep_month_eval:
  assumes "month (monthly ! i) = ms"
    and "num (slice 0 4 ms) = y"
    and "num (slice 5 7 ms) = m"
    and "(if js_neq y (sw_currentYear v) then y else sw_currentYear v) = cy"
    and "(if js_neq y (sw_currentYear v) then sw_balance v else sw_yearStartBalance v) = ysb"
    and "sw_balance v * (1 + returns ! i) = b1"
    and "(if ysb > 0 then b1 / ysb - 1 else 0) = ytd"
    and "(if withdrawFrequency a = ''monthly'' then True else m = Some 1) = isW"
    and "computeWithdrawal (withdrawMode a) (baseRateDecimal a) (initialBalance a) b1
           (withdrawFrequency a) (sw_currentRate v) cfg ytd isW
           (inflationBasePeriodWithdraw a) (sw_inflationFactor v) = Inr res"
    and "sweep_settle a cy ysb b1 res v = v'"
  shows "sweep_month num monthly returns a cfg i v = Inr v'"
  unfolding sweep_month_def Let_def
  unfolding assms(1) assms(2) assms(3) assms(4) assms(5) assms(6) assms(7) assms(8) assms(9)
  by (simp only: sum.case assms(10))

lemmas sweep_month_steps =
  sweep_month_eval [OF _ _ _ _ _ _ _ _ _ sweep_settle_eval]


lemma nth_months:
  "month (flat13 ! 0) = ''2000-01''" "month (flat13 ! Suc 0) = ''2000-02''"
  "month (crash13 ! 0) = ''2000-01''" "month (crash13 ! Suc 0) = ''2000-02''"
  "month (neg13 ! 0) = ''2000-01''" "month (neg13 ! Suc 0) = ''2000-02''"
  by (simp_all add: flat13_def months13_def crash13_def neg13_def)

lemma findMonthIndex_evals:
  "findMonthIndex decimal crash13 ''2000-01'' = Some 0"
  "findMonthIndex decimal neg13 ''2000-01'' = Some 0"
  "findMonthIndex decimal flat12 ''2000-01'' = Some 0"
  by (simp_all add: findMonthIndex_def flat13_def months13_def crash13_def neg13_def flat12_def)

lemma buildReturns_crash13:
  "buildReturns crash13 = [0, - 1, 0, 0, 0, 0, 0, 0, 0, 0, 0, 0, 0]"
  by (simp add: buildReturns_def crash13_def flat13_def months13_def return_of_def upt_rec
      numeral_nat)


lemma monthlyInfl_poc_args: "monthlyInfl poc_args = 0"
  by (simp add: monthlyInfl_def monthlyInflationRateFromAnnualPct_def poc_args_def args0_def)

lemmas month_eval_simps =
  args0_def baseRateDecimal_def nth_months slice_def decimal_evals js_neq_def
  initial_state_def sweep_initial_def computeWithdrawal_def inflationBasePeriodWithdraw_def
  rate_num_def clamp_def Let_def

lemma upt_two: "i + 2 \<le> j \<Longrightarrow> [i ..< j] = i # Suc i # [Suc (Suc i) ..< j]"
  by (simp add: upt_conv_Cons)

text \<open>A run that is ruined in its second month.\<close>

lemma run_two_months:
  assumes "findMonthIndex num monthly startMonth = Some startIdx"
    and "startIdx + durationYears a * 12 < length monthly"
    and "2 \<le> durationYears a * 12"
    and "guardrails_setup a = Inr (rate0, cfg)"
    and "buildReturns monthly = returns"
    and "run_month num monthly returns a cfg startIdx
           (initial_state num monthly a startIdx rate0) = Inr s1"
    and "success s1"
    and "run_month num monthly returns a cfg (Suc startIdx) s1 = Inr s2"
    and "\<not> success s2"
  shows "runRetirementMonthly num monthly a startMonth = Inr s2"
proof -
  have js: "[startIdx ..< startIdx + durationYears a * 12] =
      startIdx # Suc startIdx # [Suc (Suc startIdx) ..< startIdx + durationYears a * 12]"
    using assms(3) by (intro upt_two) simp
  have bound: "\<not> int (startIdx + durationYears a * 12) > int (length monthly) - 1"
    using assms(2) by simp
  have loop: "run_months num monthly returns a cfg
          [startIdx ..< startIdx + durationYears a * 12]
          (initial_state num monthly a startIdx rate0) = Inr s2"
    unfolding js using assms(6-9) by simp
  show ?thesis
    unfolding runRetirementMonthly_def Let_def assms(1) assms(4) assms(5)
    using bound loop by simp
qed

lemma sweep_two_months:
  assumes "i + 2 \<le> j"
    and "sweep_month num monthly returns a cfg i v0 = Inr v1"
    and "sw_success v1"
    and "sweep_month num monthly returns a cfg (Suc i) v1 = Inr v2"
    and "\<not> sw_success v2"
  shows "sweep_months num monthly returns a cfg [i ..< j] v0 = Inr v2"
  unfolding upt_two [OF assms(1)] using assms(2-5) by simp

lemma sweep_starts_skip:
  assumes "\<forall>i\<in>set js. num (slice 5 7 (month (monthly ! i))) \<noteq> Some 1"
  shows "sweep_starts num monthly returns a (js @ rest) acc =
         sweep_starts num monthly returns a rest acc"
  using assms by (induction js) simp_all

lemma sweep_starts_break:
  assumes "num (slice 5 7 (month (monthly ! i))) = Some 1"
    and "int (i + durationYears a * 12) > int (length monthly) - 1"
  shows "sweep_starts num monthly returns a (i # rest) acc = Inr acc"
  using assms by simp

lemma sweep_starts_run:
  assumes "num (slice 5 7 (month (monthly ! i))) = Some 1"
    and "\<not> int (i + durationYears a * 12) > int (length monthly) - 1"
    and "guardrails_setup_sweep a = (rate0, cfg)"
    and "sweep_months num monthly returns a cfg [i ..< i + durationYears a * 12]
           (sweep_initial num a (month (monthly ! i)) rate0) = Inr v"
  shows "sweep_starts num monthly returns a (i # rest) acc =
         sweep_starts num monthly returns a rest (record_run num a (month (monthly ! i)) v acc)"
  using assms by simp

lemma run_ruin_eval:
  "runRetirementMonthly decimal flat13 ruin_args ''2000-01'' = Inr ruin_result"
proof (rule run_two_months)
  show "findMonthIndex decimal flat13 ''2000-01'' = Some 0" by (rule findMonthIndex_flat13)
  show "0 + durationYears ruin_args * 12 < length flat13"
    by (simp add: ruin_args_def args0_def flat13_def months13_def)
  show "2 \<le> durationYears ruin_args * 12" by (simp add: ruin_args_def args0_def)
  show "guardrails_setup ruin_args =
      Inr (None, \<lparr>minRate = 0, maxRate = 1, step = 0.0025, minDollarFloor = 0\<rparr>)"
    by (simp add: guardrails_setup_def ruin_args_def args0_def)
  show "buildReturns flat13 = replicate 13 0" by (rule buildReturns_flat13)
  show "run_month decimal flat13 (replicate 13 0) ruin_args
          \<lparr>minRate = 0, maxRate = 1, step = 0.0025, minDollarFloor = 0\<rparr> 0
          (initial_state decimal flat13 ruin_args 0 None) =
        Inr \<lparr>balance = 400, success = True, totalWithdrawn = 600,
          highestBalance = 1000, lowestBalance = 400, peak = 1000,
          maxDrawdown = 3 / 5, currentRate = None, currentYear = Some 2000,
          yearStartBalance = 1000, inflationFactor = 1,
          series =
            [\<lparr>snap_month = ''2000-01'', snap_value = 400, withdrawal = 600,
              guardrailsRatePct = None, snap_inflationFactor = None\<rparr>]\<rparr>"
    by (rule run_month_steps) (simp add: ruin_args_def month_eval_simps)+
  show "run_month decimal flat13 (replicate 13 0) ruin_args
          \<lparr>minRate = 0, maxRate = 1, step = 0.0025, minDollarFloor = 0\<rparr> (Suc 0)
          \<lparr>balance = 400, success = True, totalWithdrawn = 600,
          highestBalance = 1000, lowestBalance = 400, peak = 1000,
          maxDrawdown = 3 / 5, currentRate = None, currentYear = Some 2000,
          yearStartBalance = 1000, inflationFactor = 1,
          series =
            [\<lparr>snap_month = ''2000-01'', snap_value = 400, withdrawal = 600,
              guardrailsRatePct = None, snap_inflationFactor = None\<rparr>]\<rparr> =
        Inr ruin_result"
    unfolding ruin_result_def
    by (rule run_month_steps) (simp add: ruin_args_def month_eval_simps)+
qed (simp_all add: ruin_result_def)












lemma run_guard_eval:
  "runRetirementMonthly decimal crash13 guard_args ''2000-01'' = Inr guard_result"
proof (rule run_two_months)
  show "findMonthIndex decimal crash13 ''2000-01'' = Some 0" by (rule findMonthIndex_evals)
  show "0 + durationYears guard_args * 12 < length crash13"
    by (simp add: guard_args_def args0_def crash13_def flat13_def months13_def)
  show "2 \<le> durationYears guard_args * 12" by (simp add: guard_args_def args0_def)
  show "guardrails_setup guard_args =
      Inr (Some (1 / 20),
           \<lparr>minRate = 3 / 100, maxRate = 6 / 100, step = 0.0025, minDollarFloor = 0\<rparr>)"
    by (simp add: guardrails_setup_def guard_args_def args0_def clamp_def minDollarFloor_of_def)
  show "buildReturns crash13 = [0, - 1, 0, 0, 0, 0, 0, 0, 0, 0, 0, 0, 0]"
    by (rule buildReturns_crash13)
  show "run_month decimal crash13 [0, - 1, 0, 0, 0, 0, 0, 0, 0, 0, 0, 0, 0] guard_args
          \<lparr>minRate = 3 / 100, maxRate = 6 / 100, step = 0.0025, minDollarFloor = 0\<rparr> 0
          (initial_state decimal crash13 guard_args 0 (Some (1 / 20))) =
        Inr \<lparr>balance = 1905 / 2, success = True, totalWithdrawn = 95 / 2,
          highestBalance = 1000, lowestBalance = 1905 / 2, peak = 1000,
          maxDrawdown = 19 / 400, currentRate = Some (19 / 400), currentYear = Some 2000,
          yearStartBalance = 1000, inflationFactor = 1,
          series =
            [\<lparr>snap_month = ''2000-01'', snap_value = 1905 / 2, withdrawal = 95 / 2,
              guardrailsRatePct = Some (19 / 4), snap_inflationFactor = None\<rparr>]\<rparr>"
    by (rule run_month_steps [where wd = "95 / 2" and gr = "Some (19 / 400)" and w = "95 / 2"])
       (simp add: guard_args_def month_eval_simps)+
  show "run_month decimal crash13 [0, - 1, 0, 0, 0, 0, 0, 0, 0, 0, 0, 0, 0] guard_args
          \<lparr>minRate = 3 / 100, maxRate = 6 / 100, step = 0.0025, minDollarFloor = 0\<rparr> (Suc 0)
          \<lparr>balance = 1905 / 2, success = True, totalWithdrawn = 95 / 2,
          highestBalance = 1000, lowestBalance = 1905 / 2, peak = 1000,
          maxDrawdown = 19 / 400, currentRate = Some (19 / 400), currentYear = Some 2000,
          yearStartBalance = 1000, inflationFactor = 1,
          series =
            [\<lparr>snap_month = ''2000-01'', snap_value = 1905 / 2, withdrawal = 95 / 2,
              guardrailsRatePct = Some (19 / 4), snap_inflationFactor = None\<rparr>]\<rparr> =
        Inr guard_result"
    unfolding guard_result_def
    by (rule run_month_steps [where wd = 0 and gr = "Some (19 / 400)" and w = 0 and isW = False])
       (simp add: guard_args_def month_eval_simps)+
qed (simp_all add: guard_result_def)

lemma run_flat12_eval:
  "runRetirementMonthly decimal flat12 args0 ''2000-01'' = Inl NotEnoughData"
  unfolding runRetirementMonthly_def findMonthIndex_evals
  by (simp add: args0_def flat12_def flat13_def months13_def)

lemma sweep_starts_client_skip:
  assumes "\<forall>i\<in>set js. num (slice 5 7 (month (monthly ! i))) \<noteq> Some 1"
  shows "sweep_starts_client num monthly returns a (js @ rest) acc =
         sweep_starts_client num monthly returns a rest acc"
  using assms by (induction js) simp_all

lemma sweep_starts_client_break:
  assumes "num (slice 5 7 (month (monthly ! i))) = Some 1"
    and "i + durationYears a * 12 > length monthly"
  shows "sweep_starts_client num monthly returns a (i # rest) acc = Inr acc"
  using assms by simp

lemma sweep_starts_client_run:
  assumes "num (slice 5 7 (month (monthly ! i))) = Some 1"
    and "\<not> i + durationYears a * 12 > length monthly"
    and "guardrails_setup_sweep a = (rate0, cfg)"
    and "sweep_months num monthly returns a cfg [i ..< i + durationYears a * 12]
           (sweep_initial num a (month (monthly ! i)) rate0) = Inr v"
  shows "sweep_starts_client num monthly returns a (i # rest) acc =
         sweep_starts_client num monthly returns a rest
           (record_run num a (month (monthly ! i)) v acc)"
  using assms by (simp add: sweep_months_client_eq)

lemma flat13_not_january:
  "\<forall>i\<in>set [1 ..< 12]. decimal (slice 5 7 (month (flat13 ! i))) \<noteq> Some 1"
  by (simp add: upt_rec numeral_nat flat13_def months13_def slice_def decimal_def digit_val_def)

lemma flat13_january:
  "decimal (slice 5 7 (month (flat13 ! 0))) = Some 1"
  "decimal (slice 5 7 (month (flat13 ! 12))) = Some 1"
  by (simp_all add: flat13_def months13_def slice_def decimal_def digit_val_def)

lemma flat13_indices: "[0 ..< length flat13] = 0 # ([1 ..< 12] @ [12])"
  by (simp add: flat13_def months13_def upt_rec numeral_nat)

lemma sweep_run_ruin_eval:
  "sweep_months decimal flat13 (replicate 13 0) ruin_args
     \<lparr>minRate = 0, maxRate = 1, step = 0.0025, minDollarFloor = 0\<rparr>
     [0 ..< 0 + durationYears ruin_args * 12]
     (sweep_initial decimal ruin_args (month (flat13 ! 0)) None) =
   Inr \<lparr>sw_balance = 0, sw_success = False, highest = 1000, lowest = 400,
        sw_currentRate = None, sw_currentYear = Some 2000, sw_yearStartBalance = 1000,
        sw_inflationFactor = 1\<rparr>"
proof (rule sweep_two_months)
  show "0 + 2 \<le> 0 + durationYears ruin_args * 12" by (simp add: ruin_args_def args0_def)
  show "sweep_month decimal flat13 (replicate 13 0) ruin_args
          \<lparr>minRate = 0, maxRate = 1, step = 0.0025, minDollarFloor = 0\<rparr> 0
          (sweep_initial decimal ruin_args (month (flat13 ! 0)) None) =
        Inr \<lparr>sw_balance = 400, sw_success = True, highest = 1000, lowest = 400,
          sw_currentRate = None, sw_currentYear = Some 2000, sw_yearStartBalance = 1000,
          sw_inflationFactor = 1\<rparr>"
    by (rule sweep_month_steps) (simp add: ruin_args_def month_eval_simps)+
  show "sweep_month decimal flat13 (replicate 13 0) ruin_args
          \<lparr>minRate = 0, maxRate = 1, step = 0.0025, minDollarFloor = 0\<rparr> (Suc 0)
          \<lparr>sw_balance = 400, sw_success = True, highest = 1000, lowest = 400,
          sw_currentRate = None, sw_currentYear = Some 2000, sw_yearStartBalance = 1000,
          sw_inflationFactor = 1\<rparr> =
        Inr \<lparr>sw_balance = 0, sw_success = False, highest = 1000, lowest = 400,
          sw_currentRate = None, sw_currentYear = Some 2000, sw_yearStartBalance = 1000,
          sw_inflationFactor = 1\<rparr>"
    by (rule sweep_month_steps) (simp add: ruin_args_def month_eval_simps)+
qed simp_all

lemma ruin_sweep_acc:
  "sweep_result
     (record_run decimal ruin_args (month (flat13 ! 0))
        \<lparr>sw_balance = 0, sw_success = False, highest = 1000, lowest = 400,
         sw_currentRate = None, sw_currentYear = Some 2000, sw_yearStartBalance = 1000,
         sw_inflationFactor = 1\<rparr> empty_acc) = ruin_sweep_result"
  by (simp add: sweep_result_def record_run_def empty_acc_def ruin_sweep_result_def
      max_hit_def min_hit_def median_def nth_months slice_def decimal_evals ruin_args_def
      args0_def)

lemma sweep_ruin_eval:
  "runRetirementSuccessByStartYear decimal flat13 ruin_args = Inr ruin_sweep_result"
proof -
  have gs: "guardrails_setup_sweep ruin_args =
      (None, \<lparr>minRate = 0, maxRate = 1, step = 0.0025, minDollarFloor = 0\<rparr>)"
    by (simp add: guardrails_setup_sweep_def ruin_args_def args0_def)
  have fits: "\<not> int (0 + durationYears ruin_args * 12) > int (length flat13) - 1"
    by (simp add: ruin_args_def args0_def flat13_def months13_def)
  have late: "int (12 + durationYears ruin_args * 12) > int (length flat13) - 1"
    by (simp add: ruin_args_def args0_def flat13_def months13_def)
  show ?thesis
    unfolding runRetirementSuccessByStartYear_def buildReturns_flat13 flat13_indices
      sweep_starts_run [OF flat13_january(1) fits gs sweep_run_ruin_eval]
      sweep_starts_skip [OF flat13_not_january]
      sweep_starts_break
        [where num = decimal and monthly = flat13 and i = 12 and a = ruin_args,
         OF flat13_january(2) late]
    by (simp only: sum.case ruin_sweep_acc)
qed

lemma sweep_client_ruin_eval:
  "runRetirementSuccessByStartYear_client decimal flat13 ruin_args = Inr ruin_sweep_result"
proof -
  have gs: "guardrails_setup_sweep ruin_args =
      (None, \<lparr>minRate = 0, maxRate = 1, step = 0.0025, minDollarFloor = 0\<rparr>)"
    by (simp add: guardrails_setup_sweep_def ruin_args_def args0_def)
  have rate: "\<not> baseRateDecimal ruin_args \<le> 0"
    by (simp add: baseRateDecimal_def ruin_args_def args0_def)
  have fits: "\<not> 0 + durationYears ruin_args * 12 > length flat13"
    by (simp add: ruin_args_def args0_def flat13_def months13_def)
  have late: "12 + durationYears ruin_args * 12 > length flat13"
    by (simp add: ruin_args_def args0_def flat13_def months13_def)
  show ?thesis
    unfolding runRetirementSuccessByStartYear_client_def buildReturns_flat13 flat13_indices
      sweep_starts_client_run [OF flat13_january(1) fits gs sweep_run_ruin_eval]
      sweep_starts_client_skip [OF flat13_not_january]
      sweep_starts_client_break
        [where num = decimal and monthly = flat13 and i = 12 and a = ruin_args,
         OF flat13_january(2) late]
    using rate by (simp only: if_False sum.case ruin_sweep_acc)
qed

section \<open>Balances of a run\<close>

lemma run_months_rule:
  assumes "run_months num monthly returns a cfg js st = Inr stF"
    and "success st"
    and "I ps st"
    and step: "\<And>i s s' qs. success s \<Longrightarrow> I qs s \<Longrightarrow>
              run_month num monthly returns a cfg i s = Inr s' \<Longrightarrow> I (qs @ [i]) s'"
  shows "\<exists>n\<le>length js. I (ps @ take n js) stF \<and> (success stF \<longrightarrow> n = length js)"
  using assms(1-3)
proof (induction js arbitrary: st ps)
  case Nil
  then show ?case by simp
next
  case (Cons i rest)
  from Cons.prems(1) obtain s1 where s1: "run_month num monthly returns a cfg i st = Inr s1"
    by (cases "run_month num monthly returns a cfg i st") auto
  have I1: "I (ps @ [i]) s1"
    using step [OF Cons.prems(2) Cons.prems(3) s1] .
  show ?case
  proof (cases "success s1")
    case False
    with Cons.prems(1) s1 have "stF = s1" by simp
    with I1 False show ?thesis by (intro exI [of _ 1]) simp
  next
    case True
    with Cons.prems(1) s1 have "run_months num monthly returns a cfg rest s1 = Inr stF" by simp
    from Cons.IH [OF this True I1]
    obtain n where "n \<le> length rest" "I ((ps @ [i]) @ take n rest) stF"
      "success stF \<longrightarrow> n = length rest" by blast
    then show ?thesis by (intro exI [of _ "Suc n"]) simp
  qed
qed


lemma initial_state_simps:
  "success (initial_state num monthly a startIdx rate0) = True"
  "series (initial_state num monthly a startIdx rate0) = []"
  "balance (initial_state num monthly a startIdx rate0) = initialBalance a"
  "totalWithdrawn (initial_state num monthly a startIdx rate0) = 0"
  "highestBalance (initial_state num monthly a startIdx rate0) = initialBalance a"
  "lowestBalance (initial_state num monthly a startIdx rate0) = initialBalance a"
  "currentRate (initial_state num monthly a startIdx rate0) = rate0"
  "inflationFactor (initial_state num monthly a startIdx rate0) = 1"
  by (simp_all add: initial_state_def)

lemma run_cases:
  assumes "runRetirementMonthly num monthly a startMonth = Inr st \<or>
           runRetirementMonthly_client num monthly a startMonth = Inr st"
  obtains startIdx rate0 cfg where
    "findMonthIndex num monthly startMonth = Some startIdx"
    "startIdx + durationYears a * 12 \<le> length monthly"
    "guardrails_setup a = Inr (rate0, cfg) \<or> guardrails_setup_client a = Inr (rate0, cfg)"
    "run_months num monthly (buildReturns monthly) a cfg
       [startIdx ..< startIdx + durationYears a * 12]
       (initial_state num monthly a startIdx rate0) = Inr st"
  using assms
proof
  assume "runRetirementMonthly num monthly a startMonth = Inr st"
  then show ?thesis
    unfolding runRetirementMonthly_def Let_def
    by (auto split: option.splits if_splits sum.splits intro!: that)
next
  assume "runRetirementMonthly_client num monthly a startMonth = Inr st"
  then show ?thesis
    unfolding runRetirementMonthly_client_def Let_def
    by (auto split: option.splits if_splits sum.splits simp: run_months_client_eq intro!: that)
qed

lemma guardrails_setup_cases:
  assumes "guardrails_setup a = Inr (rate0, cfg) \<or> guardrails_setup_client a = Inr (rate0, cfg)"
    and "withdrawMode a = ''guardrails''"
  shows "guardrailsMinPct a / 100 \<le> guardrailsMaxPct a / 100 \<and>
         rate0 = Some (clamp (withdrawValue a / 100) (guardrailsMinPct a / 100)
                         (guardrailsMaxPct a / 100)) \<and>
         minRate cfg = guardrailsMinPct a / 100 \<and> maxRate cfg = guardrailsMaxPct a / 100 \<and>
         step cfg = 0.0025"
  using assms unfolding guardrails_setup_def guardrails_setup_client_def Let_def
  by (auto split: if_splits)




section \<open>Withdrawals of a run\<close>


lemma run_months_from_initial:
  assumes run: "run_months num monthly returns a cfg js
                  (initial_state num monthly a startIdx rate0) = Inr st"
    and init: "I [] (initial_state num monthly a startIdx rate0)"
    and step: "\<And>i s s' qs. success s \<Longrightarrow> I qs s \<Longrightarrow>
              run_month num monthly returns a cfg i s = Inr s' \<Longrightarrow> I (qs @ [i]) s'"
  shows "\<exists>n\<le>length js. I (take n js) st \<and> (success st \<longrightarrow> n = length js)"
proof -
  have ok: "success (initial_state num monthly a startIdx rate0)"
    by (simp add: initial_state_simps)
  have "\<exists>n\<le>length js. I ([] @ take n js) st \<and> (success st \<longrightarrow> n = length js)"
  proof (rule run_months_rule [OF run ok])
    show "I [] (initial_state num monthly a startIdx rate0)" by (rule init)
  qed (rule step)
  then show ?thesis by simp
qed








section \<open>Extrema of a run\<close>

lemma extrema_inv_step:
  assumes "success s" and inv: "extrema_inv a s"
    and run: "run_month num monthly returns a cfg i s = Inr s'"
  shows "extrema_inv a s'"
proof -
  from run obtain e where
    hi: "highestBalance s' = max (highestBalance s) (balance s')"
    and lo: "lowestBalance s' = min (lowestBalance s) (balance s')"
    and ser: "series s' = series s @ [e]"
    and val: "snap_value e = balance s'"
    by (rule run_month_step)
  have fin: "finite (insert (initialBalance a) (snap_value ` set (series s)))" by simp
  have set_eq: "insert (initialBalance a) (snap_value ` set (series s @ [e])) =
      insert (balance s') (insert (initialBalance a) (snap_value ` set (series s)))"
    by (auto simp: val)
  show ?thesis
    unfolding extrema_inv_def ser set_eq
    using inv hi lo fin
    by (simp add: extrema_inv_def max.commute min.commute del: Max_insert Min_insert
        add: Max_insert [OF fin] Min_insert [OF fin])
qed

lemma run_extrema:
  assumes "runRetirementMonthly num monthly a startMonth = Inr st \<or>
           runRetirementMonthly_client num monthly a startMonth = Inr st"
  shows "highestBalance st = Max (insert (initialBalance a) (snap_value ` set (series st))) \<and>
         lowestBalance st = Min (insert (initialBalance a) (snap_value ` set (series st)))"
proof -
  from assms obtain startIdx rate0 cfg where
    run: "run_months num monthly (buildReturns monthly) a cfg
            [startIdx ..< startIdx + durationYears a * 12]
            (initial_state num monthly a startIdx rate0) = Inr st"
    by (rule run_cases)
  have init: "extrema_inv a (initial_state num monthly a startIdx rate0)"
    by (simp add: extrema_inv_def initial_state_simps)
  have "\<exists>n\<le>length [startIdx ..< startIdx + durationYears a * 12].
          extrema_inv a st \<and>
          (success st \<longrightarrow> n = length [startIdx ..< startIdx + durationYears a * 12])"
    by (rule run_months_from_initial [where I = "\<lambda>ps. extrema_inv a", OF run init])
       (rule extrema_inv_step)
  then show ?thesis by (auto simp: extrema_inv_def)
qed

section \<open>The inflation-adjusted policy\<close>








section \<open>The guardrails policy\<close>

lemma clamp_bounds: "lo \<le> hi \<Longrightarrow> lo \<le> clamp n lo hi \<and> clamp n lo hi \<le> hi"
  by (simp add: clamp_def)

lemma clamp_step:
  assumes "lo \<le> c" "c \<le> hi" "0 \<le> d"
  shows "\<bar>clamp (c + d) lo hi - c\<bar> \<le> d" "\<bar>clamp (c - d) lo hi - c\<bar> \<le> d"
  using assms by (auto simp: clamp_def)

lemma computeWithdrawal_not_withdrawal_month:
  "computeWithdrawal mode r ib b f cr cfg ytd False base fac = Inr (0, cr, cr)"
  "computeWithdrawal_client mode r ib b f cr cfg ytd False base fac = Inr (0, cr, cr)"
  by (simp_all add: computeWithdrawal_def computeWithdrawal_client_def)

lemma computeWithdrawal_guardrails_unfold:
  "computeWithdrawal ''guardrails'' r ib b f cr cfg ytd True base fac =
     (let stp = step cfg;
          lo = minRate cfg;
          hi = maxRate cfg;
          rate' =
            (if ytd > 0.08 then Some (clamp (rate_num cr + stp) lo hi)
             else if ytd < 0.03 then Some (clamp (rate_num cr - stp) lo hi)
             else cr);
          annual = b * rate_num rate';
          w = (if f = ''monthly'' then annual / 12 else annual);
          w' = (if minDollarFloor cfg > 0 then max w (minDollarFloor cfg) else w)
      in Inr (w', rate', rate'))"
proof -
  have ne: "''guardrails'' \<noteq> ''percentOfInitial''" "''guardrails'' \<noteq> ''percentOfCurrent''"
    by simp_all
  show ?thesis
    unfolding computeWithdrawal_def
    by (simp only: ne if_False if_True not_True_eq_False refl)
qed

lemma computeWithdrawal_guardrails_rate:
  assumes "computeWithdrawal ''guardrails'' r ib b f cr cfg ytd True base fac = Inr (wd, gr, r')"
  shows "gr = r'"
    and "r' = (if ytd > 0.08 then Some (clamp (rate_num cr + step cfg) (minRate cfg) (maxRate cfg))
               else if ytd < 0.03
                    then Some (clamp (rate_num cr - step cfg) (minRate cfg) (maxRate cfg))
               else cr)"
proof -
  define X where
    "X = (if ytd > 0.08 then Some (clamp (rate_num cr + step cfg) (minRate cfg) (maxRate cfg))
          else if ytd < 0.03
               then Some (clamp (rate_num cr - step cfg) (minRate cfg) (maxRate cfg))
          else cr)"
  have "\<exists>W. computeWithdrawal ''guardrails'' r ib b f cr cfg ytd True base fac = Inr (W, X, X)"
    unfolding computeWithdrawal_guardrails_unfold Let_def X_def by (rule exI) (rule refl)
  with assms have "gr = X" "r' = X" by auto
  then show "gr = r'"
    and "r' = (if ytd > 0.08 then Some (clamp (rate_num cr + step cfg) (minRate cfg) (maxRate cfg))
               else if ytd < 0.03
                    then Some (clamp (rate_num cr - step cfg) (minRate cfg) (maxRate cfg))
               else cr)"
    by (simp_all only: X_def)
qed

lemma computeWithdrawal_guardrails:
  assumes cw: "computeWithdrawal ''guardrails'' r ib b f (Some c) cfg ytd isW base fac =
               Inr (wd, gr, r')"
    and c: "minRate cfg \<le> c" "c \<le> maxRate cfg" and d: "0 \<le> step cfg"
  shows "\<exists>c'. r' = Some c' \<and> gr = Some c' \<and> minRate cfg \<le> c' \<and> c' \<le> maxRate cfg \<and>
              \<bar>c' - c\<bar> \<le> step cfg \<and> (\<not> isW \<longrightarrow> c' = c)"
proof (cases isW)
  case False
  with cw c d show ?thesis by (auto simp: computeWithdrawal_not_withdrawal_month)
next
  case True
  from c have lohi: "minRate cfg \<le> maxRate cfg" by simp
  from cw True have cw':
    "computeWithdrawal ''guardrails'' r ib b f (Some c) cfg ytd True base fac = Inr (wd, gr, r')"
    by (simp only: eqTrueI)
  note rate = computeWithdrawal_guardrails_rate [OF cw']
  consider "ytd > 0.08" | "\<not> ytd > 0.08" "ytd < 0.03" | "\<not> ytd > 0.08" "\<not> ytd < 0.03" by blast
  then show ?thesis
  proof cases
    case 1
    then have "r' = Some (clamp (c + step cfg) (minRate cfg) (maxRate cfg))"
      unfolding rate(2) by (simp only: if_True rate_num_def option.case)
    then show ?thesis
      using clamp_bounds [OF lohi] clamp_step(1) [OF c d] rate(1) True by simp
  next
    case 2
    then have "r' = Some (clamp (c - step cfg) (minRate cfg) (maxRate cfg))"
      unfolding rate(2) by (simp only: if_True if_False rate_num_def option.case)
    then show ?thesis
      using clamp_bounds [OF lohi] clamp_step(2) [OF c d] rate(1) True by simp
  next
    case 3
    then have "r' = Some c"
      unfolding rate(2) by (simp only: if_False)
    then show ?thesis using c d rate(1) True by simp
  qed
qed

lemma rate_after_snoc:
  "k \<le> length ser \<Longrightarrow> rate_after a (ser @ [e]) k = rate_after a ser k"
  by (cases k) (simp_all add: rate_after_def nth_append)

lemma rate_after_last:
  "guardrailsRatePct e = Some (c * 100) \<Longrightarrow> rate_after a (ser @ [e]) (Suc (length ser)) = c"
  by (simp add: rate_after_def)

lemma rates_inv_step:
  assumes mode: "withdrawMode a = ''guardrails''"
    and cfg: "minRate cfg = guardrailsMinPct a / 100" "maxRate cfg = guardrailsMaxPct a / 100"
      "step cfg = 0.0025"
    and ok: "success s" and inv: "rates_inv num monthly a qs s"
    and run: "run_month num monthly returns a cfg i s = Inr s'"
  shows "rates_inv num monthly a (qs @ [i]) s'"
proof -
  from run obtain ytd wd gr r' e where
    cw: "computeWithdrawal (withdrawMode a) (baseRateDecimal a) (initialBalance a)
        (balance s * (1 + returns ! i)) (withdrawFrequency a) (currentRate s) cfg ytd
        (withdrawFrequency a = ''monthly'' \<or> num (slice 5 7 (month (monthly ! i))) = Some 1)
        (inflationBasePeriodWithdraw a) (inflationFactor s) = Inr (wd, gr, r')"
    and cur: "currentRate s' = r'"
    and ser: "series s' = series s @ [e]"
    and mon: "snap_month e = month (monthly ! i)"
    and pct: "guardrailsRatePct e = map_option (\<lambda>r. r * 100) gr"
    by (rule run_month_step)
  define c where "c = rate_after a (series s) (length qs)"
  from inv have len: "length (series s) = length qs"
    and cr: "currentRate s = Some c"
    and cb: "guardrailsMinPct a / 100 \<le> c" "c \<le> guardrailsMaxPct a / 100"
    and old: "\<forall>k<length qs.
        snap_month (series s ! k) = month (monthly ! (qs ! k)) \<and>
        guardrailsRatePct (series s ! k) = Some (rate_after a (series s) (Suc k) * 100) \<and>
        guardrailsMinPct a / 100 \<le> rate_after a (series s) k \<and>
        rate_after a (series s) k \<le> guardrailsMaxPct a / 100 \<and>
        \<bar>rate_after a (series s) (Suc k) - rate_after a (series s) k\<bar> \<le> 0.0025 \<and>
        (\<not> (withdrawFrequency a = ''monthly'' \<or>
            num (slice 5 7 (month (monthly ! (qs ! k)))) = Some 1) \<longrightarrow>
           rate_after a (series s) (Suc k) = rate_after a (series s) k)"
    by (simp_all add: rates_inv_def c_def)
  from computeWithdrawal_guardrails [OF cw [unfolded mode cr]] cb cfg
  obtain c' where c': "r' = Some c'" "gr = Some c'"
    "guardrailsMinPct a / 100 \<le> c'" "c' \<le> guardrailsMaxPct a / 100"
    "\<bar>c' - c\<bar> \<le> 0.0025"
    "\<not> (withdrawFrequency a = ''monthly'' \<or> num (slice 5 7 (month (monthly ! i))) = Some 1)
       \<longrightarrow> c' = c"
    by auto
  have last: "rate_after a (series s @ [e]) (Suc (length qs)) = c'"
    using rate_after_last [of e c' a "series s"] pct c'(2) len by simp
  have prev: "rate_after a (series s @ [e]) (length qs) = c"
    using rate_after_snoc [of "length qs" "series s" a e] len by (simp add: c_def)
  have entries:
       "snap_month ((series s @ [e]) ! k) = month (monthly ! ((qs @ [i]) ! k)) \<and>
        guardrailsRatePct ((series s @ [e]) ! k) =
          Some (rate_after a (series s @ [e]) (Suc k) * 100) \<and>
        guardrailsMinPct a / 100 \<le> rate_after a (series s @ [e]) k \<and>
        rate_after a (series s @ [e]) k \<le> guardrailsMaxPct a / 100 \<and>
        \<bar>rate_after a (series s @ [e]) (Suc k) - rate_after a (series s @ [e]) k\<bar> \<le> 0.0025 \<and>
        (\<not> (withdrawFrequency a = ''monthly'' \<or>
            num (slice 5 7 (month (monthly ! ((qs @ [i]) ! k)))) = Some 1) \<longrightarrow>
           rate_after a (series s @ [e]) (Suc k) = rate_after a (series s @ [e]) k)"
    if "k < Suc (length qs)" for k
  proof (cases "k < length qs")
    case True
    then have "Suc k \<le> length (series s)" "k \<le> length (series s)" using len by simp_all
    with old True len show ?thesis
      by (simp add: nth_append rate_after_snoc)
  next
    case False
    with that have k: "k = length qs" by simp
    show ?thesis
      unfolding k last prev
      using c' cb len mon pct by (simp add: nth_append)
  qed
  show ?thesis
    unfolding rates_inv_def ser
    using entries len cur c' last by simp
qed


lemma run_rates_inv:
  assumes run: "runRetirementMonthly num monthly a startMonth = Inr st \<or>
           runRetirementMonthly_client num monthly a startMonth = Inr st"
    and mode: "withdrawMode a = ''guardrails''"
  shows "guardrailsMinPct a / 100 \<le> guardrailsMaxPct a / 100 \<and>
         (\<exists>ps. rates_inv num monthly a ps st)"
proof -
  from run obtain startIdx rate0 cfg where
    gs: "guardrails_setup a = Inr (rate0, cfg) \<or> guardrails_setup_client a = Inr (rate0, cfg)"
    and loop: "run_months num monthly (buildReturns monthly) a cfg
            [startIdx ..< startIdx + durationYears a * 12]
            (initial_state num monthly a startIdx rate0) = Inr st"
    by (rule run_cases)
  from guardrails_setup_cases [OF gs mode]
  have lohi: "guardrailsMinPct a / 100 \<le> guardrailsMaxPct a / 100"
    and rate0: "rate0 = Some (clamp (withdrawValue a / 100) (guardrailsMinPct a / 100)
                         (guardrailsMaxPct a / 100))"
    and cfg: "minRate cfg = guardrailsMinPct a / 100" "maxRate cfg = guardrailsMaxPct a / 100"
      "step cfg = 0.0025"
    by simp_all
  have init: "rates_inv num monthly a [] (initial_state num monthly a startIdx rate0)"
    using clamp_bounds [OF lohi]
    by (simp add: rates_inv_def initial_state_simps rate0 rate_after_def)
  have "\<exists>n\<le>length [startIdx ..< startIdx + durationYears a * 12].
          rates_inv num monthly a (take n [startIdx ..< startIdx + durationYears a * 12]) st \<and>
          (success st \<longrightarrow> n = length [startIdx ..< startIdx + durationYears a * 12])"
    by (rule run_months_from_initial [where I = "rates_inv num monthly a", OF loop init])
       (rule rates_inv_step [OF mode cfg])
  with lohi show ?thesis by blast
qed

text \<open>
  C4. In both copies, for a run under the guardrails policy that returns, the minimum rate
  is at most the maximum rate (the run has tested it), and the guardrails rate lies within
  \<open>[minRate, maxRate]\<close> after the initialisation and after every simulated month; the rate
  recorded in an entry is the rate after that month, the final \<open>currentRate\<close> is the rate
  after the last one, and the rate changes by at most one step of 0.0025 from one month
  to the next.
\<close>

theorem guardrails_rate_bounded:
  assumes "runRetirementMonthly num monthly a startMonth = Inr st \<or>
           runRetirementMonthly_client num monthly a startMonth = Inr st"
    and "withdrawMode a = ''guardrails''"
  shows "guardrailsMinPct a / 100 \<le> guardrailsMaxPct a / 100 \<and>
         currentRate st = Some (rate_after a (series st) (length (series st))) \<and>
         (\<forall>k\<le>length (series st).
            guardrailsMinPct a / 100 \<le> rate_after a (series st) k \<and>
            rate_after a (series st) k \<le> guardrailsMaxPct a / 100) \<and>
         (\<forall>k<length (series st).
            guardrailsRatePct (series st ! k) = Some (rate_after a (series st) (Suc k) * 100) \<and>
            \<bar>rate_after a (series st) (Suc k) - rate_after a (series st) k\<bar> \<le> 0.0025)"
proof -
  from run_rates_inv [OF assms] obtain ps where
    lohi: "guardrailsMinPct a / 100 \<le> guardrailsMaxPct a / 100"
    and inv: "rates_inv num monthly a ps st"
    by blast
  from inv have len: "length (series st) = length ps" by (simp add: rates_inv_def)
  have bounds: "guardrailsMinPct a / 100 \<le> rate_after a (series st) k \<and>
        rate_after a (series st) k \<le> guardrailsMaxPct a / 100" if "k \<le> length (series st)" for k
  proof (cases "k < length ps")
    case True
    with inv show ?thesis by (simp add: rates_inv_def)
  next
    case False
    with that len have "k = length ps" by simp
    with inv show ?thesis by (simp add: rates_inv_def)
  qed
  have entries: "\<forall>k<length (series st).
            guardrailsRatePct (series st ! k) = Some (rate_after a (series st) (Suc k) * 100) \<and>
            \<bar>rate_after a (series st) (Suc k) - rate_after a (series st) k\<bar> \<le> 0.0025"
    using inv len by (simp add: rates_inv_def)
  have cur: "currentRate st = Some (rate_after a (series st) (length (series st)))"
    using inv len by (simp add: rates_inv_def)
  from lohi cur bounds entries show ?thesis by blast
qed

theorem guardrails_rate_bounded_witness:
  "runRetirementMonthly decimal crash13 guard_args ''2000-01'' = Inr guard_result \<and>
   withdrawMode guard_args = ''guardrails'' \<and>
   length (series guard_result) = 2 \<and>
   rate_after guard_args (series guard_result) 0 = 1 / 20 \<and>
   rate_after guard_args (series guard_result) 1 = 19 / 400 \<and>
   rate_after guard_args (series guard_result) 2 = 19 / 400 \<and>
   guardrailsMinPct guard_args / 100 \<le> rate_after guard_args (series guard_result) 1 \<and>
   rate_after guard_args (series guard_result) 1 \<le> guardrailsMaxPct guard_args / 100 \<and>
   \<bar>rate_after guard_args (series guard_result) (Suc 0) -
     rate_after guard_args (series guard_result) 0\<bar> \<le> 0.0025 \<and>
   currentRate guard_result = Some (rate_after guard_args (series guard_result) 2)"
proof -
  have mode: "withdrawMode guard_args = ''guardrails''"
    by (simp add: guard_args_def args0_def)
  from guardrails_rate_bounded [OF disjI1 [OF run_guard_eval] mode]
  show ?thesis
    using run_guard_eval
    by (simp add: guard_result_def guard_args_def args0_def rate_after_def clamp_def)
qed

text \<open>
  C10. When \<open>isWithdrawalMonth\<close> is false, the evaluator of either copy returns the
  withdrawal 0, reports the current guardrails rate and leaves the state's rate as it
  is. So in a run under the guardrails policy whose frequency is not monthly, the rate
  after a month that is not a January is the rate before it.
\<close>

theorem non_withdrawal_month_keeps_rate:
  "computeWithdrawal mode r ib b f cr cfg ytd False base fac = Inr (0, cr, cr) \<and>
   computeWithdrawal_client mode r ib b f cr cfg ytd False base fac = Inr (0, cr, cr) \<and>
   ((runRetirementMonthly num monthly a startMonth = Inr st \<or>
     runRetirementMonthly_client num monthly a startMonth = Inr st) \<and>
    withdrawMode a = ''guardrails'' \<and> withdrawFrequency a \<noteq> ''monthly'' \<longrightarrow>
    (\<forall>k<length (series st).
       num (slice 5 7 (snap_month (series st ! k))) \<noteq> Some 1 \<longrightarrow>
       rate_after a (series st) (Suc k) = rate_after a (series st) k))"
proof (intro conjI impI)
  assume asm: "(runRetirementMonthly num monthly a startMonth = Inr st \<or>
     runRetirementMonthly_client num monthly a startMonth = Inr st) \<and>
    withdrawMode a = ''guardrails'' \<and> withdrawFrequency a \<noteq> ''monthly''"
  then have run: "runRetirementMonthly num monthly a startMonth = Inr st \<or>
     runRetirementMonthly_client num monthly a startMonth = Inr st"
    and mode: "withdrawMode a = ''guardrails''" and freq: "withdrawFrequency a \<noteq> ''monthly''"
    by simp_all
  from run_rates_inv [OF run mode] obtain ps where inv: "rates_inv num monthly a ps st"
    by blast
  then show "\<forall>k<length (series st).
       num (slice 5 7 (snap_month (series st ! k))) \<noteq> Some 1 \<longrightarrow>
       rate_after a (series st) (Suc k) = rate_after a (series st) k"
    using freq by (simp add: rates_inv_def)
qed (simp_all add: computeWithdrawal_not_withdrawal_month)

theorem non_withdrawal_month_keeps_rate_witness:
  "computeWithdrawal ''guardrails'' (1 / 20) 1000 0 ''annual'' (Some (19 / 400))
     \<lparr>minRate = 3 / 100, maxRate = 6 / 100, step = 0.0025, minDollarFloor = 0\<rparr> (- 1) False
     0 1 = Inr (0, Some (19 / 400), Some (19 / 400)) \<and>
   runRetirementMonthly decimal crash13 guard_args ''2000-01'' = Inr guard_result \<and>
   withdrawMode guard_args = ''guardrails'' \<and>
   withdrawFrequency guard_args \<noteq> ''monthly'' \<and>
   1 < length (series guard_result) \<and>
   decimal (slice 5 7 (snap_month (series guard_result ! 1))) \<noteq> Some 1 \<and>
   rate_after guard_args (series guard_result) (Suc 1) =
     rate_after guard_args (series guard_result) 1"
  using non_withdrawal_month_keeps_rate
    [of "''guardrails''" "1 / 20" 1000 0 "''annual''" "Some (19 / 400)"
      "\<lparr>minRate = 3 / 100, maxRate = 6 / 100, step = 0.0025, minDollarFloor = 0\<rparr>" "- 1" 0 1
      decimal crash13 guard_args "''2000-01''" guard_result]
    run_guard_eval
  by (simp add: guard_result_def guard_args_def args0_def rate_after_def slice_def
      decimal_evals)

section \<open>The summary of a sweep\<close>

lemma success_rate_exact:
  assumes "0 < t" "s \<le> t"
  shows "num_div (Finite (real s)) (Finite (real t)) = Finite (real s / real t)"
proof -
  from assms have "0 \<le> real s / real t" "real s / real t \<le> 1" by simp_all
  with threshold_facts(3) have "\<bar>real s / real t\<bar> < overflow_threshold" by simp
  with assms(1) show ?thesis by (simp add: js_result_in_range)
qed

lemma isFinite_iff: "isFinite n \<longleftrightarrow> (\<exists>x. n = Finite x)"
  by (cases n) simp_all

lemma sum_not_NaN:
  assumes "\<forall>x\<in>set xs. isFinite x" "s \<noteq> NaN"
  shows "foldl num_add s xs \<noteq> NaN"
  using assms
proof (induction xs arbitrary: s)
  case Nil
  then show ?case by simp
next
  case (Cons x xs)
  from Cons.prems(1) obtain r where x: "x = Finite r" by (auto simp: isFinite_iff)
  from Cons.prems(2) have "num_add s x \<noteq> NaN" by (cases s) (simp_all add: x)
  with Cons show ?case by simp
qed

lemma quotient_not_NaN:
  assumes "a \<noteq> NaN" "0 < t"
  shows "num_div a (Finite t) \<noteq> NaN"
  using assms by (cases a) simp_all

lemma insert_sorted_set: "set (insert_sorted x ys) = insert x (set ys)"
  by (induction ys) auto

lemma insert_sorted_length: "length (insert_sorted x ys) = Suc (length ys)"
  by (induction ys) auto

lemma sort_numbers_set: "set (sort_numbers xs) = set xs"
  by (induction xs) (simp_all add: sort_numbers_def insert_sorted_set)

lemma sort_numbers_length: "length (sort_numbers xs) = length xs"
  by (induction xs) (simp_all add: sort_numbers_def insert_sorted_length)

lemma median_ext_empty: "median_ext xs = None \<longleftrightarrow> xs = []"
  by (simp add: median_ext_def Let_def)

lemma median_ext_not_NaN:
  assumes "\<forall>x\<in>set xs. isFinite x"
  shows "median_ext xs \<noteq> Some NaN"
proof (cases "xs = []")
  case True
  then show ?thesis by (simp add: median_ext_def)
next
  case False
  define ys where "ys = sort_numbers xs"
  have len: "length ys = length xs" and fin: "\<forall>y\<in>set ys. isFinite y"
    using assms by (simp_all add: ys_def sort_numbers_length sort_numbers_set)
  from False len have pos: "0 < length ys" by simp
  then have mid: "length ys div 2 < length ys" by simp
  then have "isFinite (ys ! (length ys div 2))" using fin by simp
  then obtain b where b: "ys ! (length ys div 2) = Finite b" by (auto simp: isFinite_iff)
  have "length ys div 2 - Suc 0 < length ys" using mid by simp
  then have "isFinite (ys ! (length ys div 2 - Suc 0))" using fin by simp
  then obtain c where c: "ys ! (length ys div 2 - Suc 0) = Finite c"
    by (auto simp: isFinite_iff)
  have "num_div (num_add (Finite c) (Finite b)) (Finite 2) \<noteq> NaN"
    by (rule quotient_not_NaN) simp_all
  then show ?thesis
    using False by (simp add: median_ext_def Let_def ys_def [symmetric] b c)
qed

lemma acc_inv_ext_empty: "acc_inv_ext empty_acc_ext"
  by (simp add: acc_inv_ext_def empty_acc_ext_def)

lemma acc_inv_ext_record_run:
  "acc_inv_ext acc \<Longrightarrow> acc_inv_ext (record_run_ext num a ms v acc)"
  by (simp add: acc_inv_ext_def record_run_ext_def)

lemma sweep_starts_ext_inv:
  "sweep_starts_ext num monthly returns a js acc = Inr acc' \<Longrightarrow> acc_inv_ext acc \<Longrightarrow>
   acc_inv_ext acc'"
proof (induction js arbitrary: acc)
  case Nil
  then show ?case by simp
next
  case (Cons i rest)
  show ?case
  proof (cases "num (slice 5 7 (month (monthly ! i))) \<noteq> Some 1")
    case True
    with Cons show ?thesis by simp
  next
    case january: False
    show ?thesis
    proof (cases "int (i + durationYears a * 12) > int (length monthly) - 1")
      case True
      with january Cons.prems show ?thesis by simp
    next
      case False
      with january Cons.prems obtain v where
        "sweep_starts_ext num monthly returns a rest
           (record_run_ext num a (month (monthly ! i)) v acc) = Inr acc'"
        by (auto split: sum.splits)
      from Cons.IH [OF this acc_inv_ext_record_run [OF Cons.prems(2)]] show ?thesis .
    qed
  qed
qed

lemma sweep_starts_client_ext_inv:
  "sweep_starts_client_ext num monthly returns a js acc = Inr acc' \<Longrightarrow> acc_inv_ext acc \<Longrightarrow>
   acc_inv_ext acc'"
proof (induction js arbitrary: acc)
  case Nil
  then show ?case by simp
next
  case (Cons i rest)
  show ?case
  proof (cases "num (slice 5 7 (month (monthly ! i))) \<noteq> Some 1")
    case True
    with Cons show ?thesis by simp
  next
    case january: False
    show ?thesis
    proof (cases "i + durationYears a * 12 > length monthly")
      case True
      with january Cons.prems show ?thesis by simp
    next
      case False
      with january Cons.prems obtain v where
        "sweep_starts_client_ext num monthly returns a rest
           (record_run_ext num a (month (monthly ! i)) v acc) = Inr acc'"
        by (auto split: sum.splits)
      from Cons.IH [OF this acc_inv_ext_record_run [OF Cons.prems(2)]] show ?thesis .
    qed
  qed
qed

lemma sweep_ext_cases:
  assumes "runRetirementSuccessByStartYear_ext num monthly a = Inr r \<or>
           runRetirementSuccessByStartYear_client_ext num monthly a = Inr r"
  obtains acc where "r = sweep_result_ext acc" "acc_inv_ext acc"
  using assms
proof
  assume "runRetirementSuccessByStartYear_ext num monthly a = Inr r"
  then obtain acc where
    "sweep_starts_ext num monthly (buildReturns_ext monthly) a [0 ..< length monthly]
       empty_acc_ext = Inr acc"
    "r = sweep_result_ext acc"
    by (auto simp: runRetirementSuccessByStartYear_ext_def split: sum.splits)
  with that sweep_starts_ext_inv [OF _ acc_inv_ext_empty] show ?thesis by blast
next
  assume "runRetirementSuccessByStartYear_client_ext num monthly a = Inr r"
  then obtain acc where
    "sweep_starts_client_ext num monthly (buildReturns_ext monthly) a [0 ..< length monthly]
       empty_acc_ext = Inr acc"
    "r = sweep_result_ext acc"
    by (auto simp: runRetirementSuccessByStartYear_client_ext_def split: sum.splits if_splits)
  with that sweep_starts_client_ext_inv [OF _ acc_inv_ext_empty] show ?thesis by blast
qed

lemma sweep_result_ext_simps:
  "totalStartYearsTested_ext (summary_ext (sweep_result_ext acc)) = length (acc_results_ext acc)"
  "successes_ext (summary_ext (sweep_result_ext acc)) =
     length (filter passed_ext (acc_results_ext acc))"
  "successRate_ext (summary_ext (sweep_result_ext acc)) =
     (if acc_results_ext acc \<noteq> []
      then num_div (Finite (real (length (filter passed_ext (acc_results_ext acc)))))
             (Finite (real (length (acc_results_ext acc))))
      else Finite 0)"
  "averageEndingBalance_ext (summary_ext (sweep_result_ext acc)) =
     (if acc_results_ext acc \<noteq> []
      then Some (num_div (foldl num_add (Finite 0) (acc_endingBalances_ext acc))
                   (Finite (real (length (acc_results_ext acc)))))
      else None)"
  "medianEndingBalance_ext (summary_ext (sweep_result_ext acc)) =
     (if acc_results_ext acc \<noteq> [] then median_ext (acc_endingBalances_ext acc) else None)"
  "highestBalanceHit_ext (summary_ext (sweep_result_ext acc)) =
     (if isFinite (acc_highestBalanceHit_ext acc)
      then Some (acc_highestBalanceHit_ext acc) else None)"
  "lowestBalanceHit_ext (summary_ext (sweep_result_ext acc)) =
     (if isFinite (acc_lowestBalanceHit_ext acc)
      then Some (acc_lowestBalanceHit_ext acc) else None)"
  "results_ext (sweep_result_ext acc) = acc_results_ext acc"
  by (simp_all add: sweep_result_ext_def Let_def)

text \<open>One month of a sweep, evaluated.\<close>

lemma sweep_settle_ext_eval:
  assumes "Math_min b1 (Math_max (Finite 0) wd) = w"
    and "num_sub b1 w = b2"
    and "num_le b2 (Finite 0) = ruined"
    and "(if ruined then Finite 0 else b2) = b3"
    and "(if ruined then False else success_ext v) = ok'"
    and "(if ruined then highest_ext v else Math_max (highest_ext v) b2) = hi'"
    and "(if ruined then lowest_ext v else Math_min (lowest_ext v) b2) = lo'"
    and "(if ruined then inflationFactor_ext v
          else if withdrawMode a = ''percentOfCurrent''
               then num_mul (inflationFactor_ext v) (num_add (Finite 1) (monthlyInfl_ext a))
               else inflationFactor_ext v) = f'"
  shows "sweep_settle_ext a cy ysb b1 (wd, gr, r') v =
     \<lparr>balance_ext = b3, success_ext = ok', highest_ext = hi', lowest_ext = lo',
      currentRate_ext = r', currentYear_ext = cy, yearStartBalance_ext = ysb,
      inflationFactor_ext = f'\<rparr>"
  unfolding sweep_settle_ext_def Let_def prod.case assms(1) assms(2) assms(3)
  using assms(4-8) by (cases ruined) simp_all

lemma sweep_month_ext_eval:
  assumes "month (monthly ! i) = ms"
    and "num (slice 0 4 ms) = y"
    and "num (slice 5 7 ms) = m"
    and "(if js_neq y (currentYear_ext v) then y else currentYear_ext v) = cy"
    and "(if js_neq y (currentYear_ext v) then balance_ext v else yearStartBalance_ext v) = ysb"
    and "num_mul (balance_ext v) (num_add (Finite 1) (returns ! i)) = b1"
    and "(if num_less (Finite 0) ysb then num_sub (num_div b1 ysb) (Finite 1) else Finite 0) = ytd"
    and "(if withdrawFrequency a = ''monthly'' then True else m = Some 1) = isW"
    and "computeWithdrawal_ext (withdrawMode a) (baseRateDecimal_ext a) (Finite (initialBalance a))
           b1 (withdrawFrequency a) (currentRate_ext v) cfg ytd isW
           (inflationBasePeriodWithdraw_ext a) (inflationFactor_ext v) = Inr res"
    and "sweep_settle_ext a cy ysb b1 res v = v'"
  shows "sweep_month_ext num monthly returns a cfg i v = Inr v'"
  unfolding sweep_month_ext_def Let_def
  unfolding assms(1) assms(2) assms(3) assms(4) assms(5) assms(6) assms(7) assms(8) assms(9)
  by (simp only: sum.case assms(10))

lemmas sweep_month_ext_steps =
  sweep_month_ext_eval [OF _ _ _ _ _ _ _ _ _ sweep_settle_ext_eval]

lemma sweep_months_ext_fixed:
  assumes "\<forall>t\<in>set js. sweep_month_ext num monthly returns a cfg t v = Inr v"
  shows "sweep_months_ext num monthly returns a cfg js v = Inr v"
  using assms by (induction js) simp_all

lemma sweep_months_ext_two:
  assumes "sweep_month_ext num monthly returns a cfg i v0 = Inr v1"
    and "success_ext v1"
    and "sweep_month_ext num monthly returns a cfg (Suc i) v1 = Inr v2"
    and "sweep_months_ext num monthly returns a cfg js v2 = Inr v3"
    and "\<not> success_ext v2 \<Longrightarrow> v3 = v2"
  shows "sweep_months_ext num monthly returns a cfg (i # Suc i # js) v0 = Inr v3"
  using assms by simp

lemma sweep_months_ext_ruin:
  assumes "sweep_month_ext num monthly returns a cfg i v0 = Inr v1"
    and "success_ext v1"
    and "sweep_month_ext num monthly returns a cfg (Suc i) v1 = Inr v2"
    and "\<not> success_ext v2"
  shows "sweep_months_ext num monthly returns a cfg (i # Suc i # js) v0 = Inr v2"
  using assms by simp

lemma sweep_months_ext_idle:
  assumes "sweep_month_ext num monthly returns a cfg i v0 = Inr v1"
    and "success_ext v1"
    and "\<forall>t\<in>set js. sweep_month_ext num monthly returns a cfg t v1 = Inr v1"
  shows "sweep_months_ext num monthly returns a cfg (i # js) v0 = Inr v1"
  using assms by (simp add: sweep_months_ext_fixed)

lemma sweep_starts_ext_skip:
  assumes "\<forall>i\<in>set js. num (slice 5 7 (month (monthly ! i))) \<noteq> Some 1"
  shows "sweep_starts_ext num monthly returns a (js @ rest) acc =
         sweep_starts_ext num monthly returns a rest acc"
  using assms by (induction js) simp_all

lemma sweep_starts_ext_break:
  assumes "num (slice 5 7 (month (monthly ! i))) = Some 1"
    and "int (i + durationYears a * 12) > int (length monthly) - 1"
  shows "sweep_starts_ext num monthly returns a (i # rest) acc = Inr acc"
  using assms by simp

lemma sweep_starts_ext_run:
  assumes "num (slice 5 7 (month (monthly ! i))) = Some 1"
    and "\<not> int (i + durationYears a * 12) > int (length monthly) - 1"
    and "guardrails_setup_sweep_ext a = (rate0, cfg)"
    and "sweep_months_ext num monthly returns a cfg [i ..< i + durationYears a * 12]
           (sweep_initial_ext num a (month (monthly ! i)) rate0) = Inr v"
  shows "sweep_starts_ext num monthly returns a (i # rest) acc =
         sweep_starts_ext num monthly returns a rest
           (record_run_ext num a (month (monthly ! i)) v acc)"
  using assms by simp

lemmas ext_eval_simps =
  computeWithdrawal_ext_def sweep_initial_ext_def
  baseRateDecimal_ext_def inflationBasePeriodWithdraw_ext_def rate_num_ext_def clamp_ext_def
  Math_max_def Math_min_def num_sub_def infinity_of_def
  slice_def decimal_evals js_neq_def Let_def js_result_small

text \<open>
  The plan on \<open>2^1023\<close>: the balance overflows in February 2000, the withdrawal of that
  month is infinite, and the balance is \<^verbatim>\<open>NaN\<close> from then on.
\<close>

lemma huge_balance_facts:
  "0 < huge_balance" "huge_balance < overflow_threshold" "overflow_threshold \<le> 2 * huge_balance"
  by (simp_all add: huge_balance_def overflow_threshold_def)

lemma js_result_huge:
  "\<bar>x\<bar> \<le> huge_balance \<Longrightarrow> js_result x = Finite x"
  "2 * huge_balance \<le> x \<Longrightarrow> js_result x = PosInfinity"
  using huge_balance_facts by (auto simp: js_result_def)

lemma buildReturns_ext_boom13:
  "buildReturns_ext boom13 =
     [Finite 0, Finite 2, Finite (- (2 / 3)), Finite 0, Finite 0, Finite 0, Finite 0, Finite 0,
      Finite 0, Finite 0, Finite 0, Finite 0, Finite 0]"
  by (simp add: buildReturns_ext_def boom13_def flat13_def months13_def return_ext_def upt_rec
      numeral_nat num_sub_def js_result_small)

lemma overflow_args_fields:
  "initialBalance overflow_args = huge_balance" "durationYears overflow_args = 1"
  "withdrawMode overflow_args = ''guardrails''" "withdrawValue overflow_args = 5"
  "withdrawFrequency overflow_args = ''monthly''"
  by (simp_all add: overflow_args_def args0_def)

lemma gs_overflow:
  "guardrails_setup_sweep_ext overflow_args = (Some (Finite (1 / 20)), overflow_cfg)"
  by (simp add: guardrails_setup_sweep_ext_def overflow_args_def args0_def clamp_ext_def
      Math_max_def Math_min_def js_result_small minDollarFloor_of_def overflow_cfg_def)

lemma nth_boom: "month (boom13 ! 0) = ''2000-01''" "month (boom13 ! Suc 0) = ''2000-02''"
  by (simp_all add: boom13_def flat13_def months13_def)

lemma overflow_month0:
  "sweep_month_ext decimal boom13
     [Finite 0, Finite 2, Finite (- (2 / 3)), Finite 0, Finite 0, Finite 0, Finite 0, Finite 0,
      Finite 0, Finite 0, Finite 0, Finite 0, Finite 0]
     overflow_args overflow_cfg 0
     (sweep_initial_ext decimal overflow_args ''2000-01'' (Some (Finite (1 / 20)))) =
   Inr \<lparr>balance_ext = Finite (huge_balance * (4781 / 4800)), success_ext = True,
        highest_ext = Finite huge_balance, lowest_ext = Finite (huge_balance * (4781 / 4800)),
        currentRate_ext = Some (Finite (19 / 400)), currentYear_ext = Some 2000,
        yearStartBalance_ext = Finite huge_balance, inflationFactor_ext = Finite 1\<rparr>"
  by (rule sweep_month_ext_steps
        [where ?b1.0 = "Finite huge_balance" and ytd = "Finite 0"
           and wd = "Finite (huge_balance * (19 / 4800))"
           and w = "Finite (huge_balance * (19 / 4800))"
           and gr = "Some (Finite (19 / 400))" and ruined = False
           and ?b2.0 = "Finite (huge_balance * (4781 / 4800))"])
     (insert huge_balance_facts(1),
      simp add: ext_eval_simps nth_boom overflow_args_fields overflow_cfg_def js_result_huge)+

lemma overflow_month1:
  "sweep_month_ext decimal boom13
     [Finite 0, Finite 2, Finite (- (2 / 3)), Finite 0, Finite 0, Finite 0, Finite 0, Finite 0,
      Finite 0, Finite 0, Finite 0, Finite 0, Finite 0]
     overflow_args overflow_cfg (Suc 0)
     \<lparr>balance_ext = Finite (huge_balance * (4781 / 4800)), success_ext = True,
        highest_ext = Finite huge_balance, lowest_ext = Finite (huge_balance * (4781 / 4800)),
        currentRate_ext = Some (Finite (19 / 400)), currentYear_ext = Some 2000,
        yearStartBalance_ext = Finite huge_balance, inflationFactor_ext = Finite 1\<rparr> =
   Inr nan_vars"
  unfolding nan_vars_def
  by (rule sweep_month_ext_steps
        [where ?b1.0 = PosInfinity and ytd = PosInfinity and wd = PosInfinity
           and w = PosInfinity and gr = "Some (Finite (19 / 400))" and ruined = False
           and ?b2.0 = NaN])
     (insert huge_balance_facts(1),
      simp add: ext_eval_simps nth_boom overflow_args_fields overflow_cfg_def js_result_huge)+

lemma nan_month:
  assumes "num (slice 0 4 (month (monthly ! t))) = Some 2000"
  shows "sweep_month_ext num monthly returns overflow_args overflow_cfg t nan_vars = Inr nan_vars"
  unfolding nan_vars_def
  by (rule sweep_month_ext_steps
        [where ?b1.0 = NaN and ytd = NaN and wd = NaN and w = NaN
           and gr = "Some (Finite (19 / 400))" and ruined = False and ?b2.0 = NaN
           and y = "Some 2000" and cy = "Some 2000" and ysb = "Finite huge_balance"
           and isW = True and monthly = monthly and i = t and num = num
           and ms = "month (monthly ! t)", OF refl assms refl])
     (insert huge_balance_facts(1),
      simp add: ext_eval_simps overflow_args_fields overflow_cfg_def)+

lemma boom13_year:
  "\<forall>t\<in>set [2 ..< 12]. decimal (slice 0 4 (month (boom13 ! t))) = Some 2000"
  by (simp add: upt_rec numeral_nat boom13_def flat13_def months13_def slice_def decimal_evals)

lemma overflow_run:
  "sweep_months_ext decimal boom13
     [Finite 0, Finite 2, Finite (- (2 / 3)), Finite 0, Finite 0, Finite 0, Finite 0, Finite 0,
      Finite 0, Finite 0, Finite 0, Finite 0, Finite 0]
     overflow_args overflow_cfg [0 ..< 0 + durationYears overflow_args * 12]
     (sweep_initial_ext decimal overflow_args (month (boom13 ! 0)) (Some (Finite (1 / 20)))) =
   Inr nan_vars"
proof -
  have js: "[0 ..< 0 + durationYears overflow_args * 12] = 0 # Suc 0 # [2 ..< 12]"
    by (simp add: overflow_args_fields upt_rec numeral_nat)
  have rest: "sweep_months_ext decimal boom13 returns overflow_args overflow_cfg [2 ..< 12]
      nan_vars = Inr nan_vars" for returns
    by (rule sweep_months_ext_fixed) (use boom13_year in \<open>simp add: nan_month\<close>)
  show ?thesis
    unfolding js nth_boom
    by (rule sweep_months_ext_two [OF overflow_month0 _ overflow_month1 rest]) simp_all
qed

lemma boom13_not_january:
  "\<forall>i\<in>set [1 ..< 12]. decimal (slice 5 7 (month (boom13 ! i))) \<noteq> Some 1"
  by (simp add: upt_rec numeral_nat boom13_def flat13_def months13_def slice_def decimal_def
      digit_val_def)

lemma boom13_january:
  "decimal (slice 5 7 (month (boom13 ! 0))) = Some 1"
  "decimal (slice 5 7 (month (boom13 ! 12))) = Some 1"
  by (simp_all add: boom13_def flat13_def months13_def slice_def decimal_def digit_val_def)

lemma boom13_indices: "[0 ..< length boom13] = 0 # ([1 ..< 12] @ [12])"
  by (simp add: boom13_def flat13_def months13_def upt_rec numeral_nat)

lemma overflow_sweep_acc:
  "sweep_result_ext (record_run_ext decimal overflow_args (month (boom13 ! 0)) nan_vars
     empty_acc_ext) = overflow_sweep_result"
  by (simp add: sweep_result_ext_def record_run_ext_def empty_acc_ext_def
      overflow_sweep_result_def Math_max_def Math_min_def median_ext_def sort_numbers_def
      nth_boom slice_def decimal_evals overflow_args_fields nan_vars_def js_result_small)

lemma overflow_sweep_eval:
  "runRetirementSuccessByStartYear_ext decimal boom13 overflow_args = Inr overflow_sweep_result"
proof -
  have fits: "\<not> int (0 + durationYears overflow_args * 12) > int (length boom13) - 1"
    by (simp add: overflow_args_fields boom13_def flat13_def months13_def)
  have late: "int (12 + durationYears overflow_args * 12) > int (length boom13) - 1"
    by (simp add: overflow_args_fields boom13_def flat13_def months13_def)
  show ?thesis
    unfolding runRetirementSuccessByStartYear_ext_def buildReturns_ext_boom13 boom13_indices
      sweep_starts_ext_run [OF boom13_january(1) fits gs_overflow overflow_run]
      sweep_starts_ext_skip [OF boom13_not_january]
      sweep_starts_ext_break
        [where num = decimal and monthly = boom13 and i = 12 and a = overflow_args,
         OF boom13_january(2) late]
    by (simp only: sum.case overflow_sweep_acc)
qed

text \<open>The plan paid once a year: ruined from January 2000, passed from January 2001.\<close>

lemma buildReturns_ext_crash25:
  "buildReturns_ext crash25 = Finite 0 # Finite (- 1) # replicate 23 (Finite 0)"
  by (simp add: buildReturns_ext_def crash25_def months25_def months13_def return_ext_def upt_rec
      numeral_nat num_sub_def js_result_small)

lemma annual_args_fields:
  "initialBalance annual_args = 1000" "durationYears annual_args = 1"
  "withdrawMode annual_args = ''percentOfInitial''" "withdrawValue annual_args = 6"
  "withdrawFrequency annual_args = ''annual''"
  by (simp_all add: annual_args_def args0_def)

lemma gs_annual: "guardrails_setup_sweep_ext annual_args = (None, default_cfg_ext)"
  by (simp add: guardrails_setup_sweep_ext_def annual_args_fields default_cfg_ext_def)

lemma length_months25: "length months25 = 25"
  by (simp add: months25_def months13_def)

lemma month_crash25: "t < 25 \<Longrightarrow> month (crash25 ! t) = months25 ! t"
proof (cases "t = 1")
  case True
  then show ?thesis by (simp add: crash25_def months25_def months13_def)
next
  case False
  assume "t < 25"
  with False show ?thesis by (simp add: crash25_def length_months25)
qed

lemma nth_crash25:
  "month (crash25 ! 0) = ''2000-01''" "month (crash25 ! Suc 0) = ''2000-02''"
  "month (crash25 ! 12) = ''2001-01''"
  by (simp_all add: month_crash25 months25_def months13_def)

lemma crash25_idle_years:
  "\<forall>t\<in>set [13 ..< 24]. decimal (slice 0 4 (month (crash25 ! t))) = Some 2001"
  by (simp add: upt_rec numeral_nat month_crash25 months25_def months13_def slice_def
      decimal_evals)

lemma crash25_not_january:
  "\<forall>i\<in>set [1 ..< 12]. decimal (slice 5 7 (month (crash25 ! i))) \<noteq> Some 1"
  "\<forall>i\<in>set [13 ..< 24]. decimal (slice 5 7 (month (crash25 ! i))) \<noteq> Some 1"
  by (simp_all add: upt_rec numeral_nat month_crash25 months25_def months13_def slice_def
      decimal_def digit_val_def)

lemma crash25_january:
  "decimal (slice 5 7 (month (crash25 ! 0))) = Some 1"
  "decimal (slice 5 7 (month (crash25 ! 12))) = Some 1"
  "decimal (slice 5 7 (month (crash25 ! 24))) = Some 1"
  by (simp_all add: month_crash25 months25_def months13_def slice_def decimal_evals)

lemma crash25_indices:
  "[0 ..< length crash25] = 0 # ([1 ..< 12] @ 12 # ([13 ..< 24] @ [24]))"
  by (simp add: crash25_def months25_def months13_def upt_rec numeral_nat)

lemma crash25_month0:
  "sweep_month_ext decimal crash25 (Finite 0 # Finite (- 1) # replicate 23 (Finite 0))
     annual_args default_cfg_ext 0
     (sweep_initial_ext decimal annual_args ''2000-01'' None) =
   Inr \<lparr>balance_ext = Finite 940, success_ext = True, highest_ext = Finite 1000,
        lowest_ext = Finite 940, currentRate_ext = None, currentYear_ext = Some 2000,
        yearStartBalance_ext = Finite 1000, inflationFactor_ext = Finite 1\<rparr>"
  by (rule sweep_month_ext_steps
        [where ?b1.0 = "Finite 1000" and ytd = "Finite 0" and wd = "Finite 60"
           and w = "Finite 60" and gr = None and ruined = False and ?b2.0 = "Finite 940"])
     (simp add: ext_eval_simps nth_crash25 annual_args_fields default_cfg_ext_def)+

lemma crash25_month1:
  "sweep_month_ext decimal crash25 (Finite 0 # Finite (- 1) # replicate 23 (Finite 0))
     annual_args default_cfg_ext (Suc 0)
     \<lparr>balance_ext = Finite 940, success_ext = True, highest_ext = Finite 1000,
        lowest_ext = Finite 940, currentRate_ext = None, currentYear_ext = Some 2000,
        yearStartBalance_ext = Finite 1000, inflationFactor_ext = Finite 1\<rparr> =
   Inr ruined_vars"
  unfolding ruined_vars_def
  by (rule sweep_month_ext_steps
        [where ?b1.0 = "Finite 0" and ytd = "Finite (- 1)" and wd = "Finite 0"
           and w = "Finite 0" and gr = None and ruined = True and ?b2.0 = "Finite 0"
           and isW = False])
     (simp add: ext_eval_simps nth_crash25 annual_args_fields default_cfg_ext_def)+

lemma crash25_month12:
  "sweep_month_ext decimal crash25 (Finite 0 # Finite (- 1) # replicate 23 (Finite 0))
     annual_args default_cfg_ext 12
     (sweep_initial_ext decimal annual_args ''2001-01'' None) = Inr idle_vars"
  unfolding idle_vars_def
  by (rule sweep_month_ext_steps
        [where ?b1.0 = "Finite 1000" and ytd = "Finite 0" and wd = "Finite 60"
           and w = "Finite 60" and gr = None and ruined = False and ?b2.0 = "Finite 940"])
     (simp add: ext_eval_simps nth_crash25 annual_args_fields default_cfg_ext_def)+

lemma returns25_nth:
  "2 \<le> t \<Longrightarrow> t < 25 \<Longrightarrow> (Finite 0 # Finite (- 1) # replicate 23 (Finite 0)) ! t = Finite 0"
  by (cases t) (auto simp: nth_Cons split: nat.splits)

lemma idle_month:
  assumes "decimal (slice 0 4 (month (crash25 ! t))) = Some 2001"
    and "decimal (slice 5 7 (month (crash25 ! t))) \<noteq> Some 1"
    and "returns ! t = Finite 0"
  shows "sweep_month_ext decimal crash25 returns annual_args default_cfg_ext t idle_vars =
         Inr idle_vars"
  unfolding idle_vars_def
  by (rule sweep_month_ext_steps
        [where ?b1.0 = "Finite 940" and ytd = "Finite (- (3 / 50))" and wd = "Finite 0"
           and w = "Finite 0" and gr = None and ruined = False and ?b2.0 = "Finite 940"
           and y = "Some 2001" and cy = "Some 2001" and ysb = "Finite 1000"
           and isW = False and monthly = crash25 and i = t and num = decimal
           and ms = "month (crash25 ! t)", OF refl assms(1) refl])
     (insert assms(2,3),
      simp add: computeWithdrawal_ext_def Math_max_def Math_min_def num_sub_def js_neq_def
        annual_args_fields js_result_small)+

lemma crash25_run_2000:
  "sweep_months_ext decimal crash25 (Finite 0 # Finite (- 1) # replicate 23 (Finite 0))
     annual_args default_cfg_ext [0 ..< 0 + durationYears annual_args * 12]
     (sweep_initial_ext decimal annual_args (month (crash25 ! 0)) None) = Inr ruined_vars"
proof -
  have js: "[0 ..< 0 + durationYears annual_args * 12] = 0 # Suc 0 # [2 ..< 12]"
    by (simp add: annual_args_fields upt_rec numeral_nat)
  show ?thesis
    unfolding js nth_crash25
    by (rule sweep_months_ext_ruin [OF crash25_month0 _ crash25_month1])
       (simp_all add: ruined_vars_def)
qed

lemma crash25_run_2001:
  "sweep_months_ext decimal crash25 (Finite 0 # Finite (- 1) # replicate 23 (Finite 0))
     annual_args default_cfg_ext [12 ..< 12 + durationYears annual_args * 12]
     (sweep_initial_ext decimal annual_args (month (crash25 ! 12)) None) = Inr idle_vars"
proof -
  have js: "[12 ..< 12 + durationYears annual_args * 12] = 12 # [13 ..< 24]"
    by (simp add: annual_args_fields upt_rec numeral_nat)
  have idle: "\<forall>t\<in>set [13 ..< 24].
      sweep_month_ext decimal crash25 (Finite 0 # Finite (- 1) # replicate 23 (Finite 0))
        annual_args default_cfg_ext t idle_vars = Inr idle_vars"
  proof
    fix t assume t: "t \<in> set [13 ..< 24]"
    then have "13 \<le> t \<and> t < 24" by (simp only: set_upt atLeastLessThan_iff)
    then have "2 \<le> t" "t < 25" by simp_all
    then have "(Finite 0 # Finite (- 1) # replicate 23 (Finite 0)) ! t = Finite 0"
      by (rule returns25_nth)
    with t crash25_idle_years crash25_not_january(2) show
      "sweep_month_ext decimal crash25 (Finite 0 # Finite (- 1) # replicate 23 (Finite 0))
        annual_args default_cfg_ext t idle_vars = Inr idle_vars"
      by (intro idle_month) blast+
  qed
  show ?thesis
    unfolding js nth_crash25
    by (rule sweep_months_ext_idle [OF crash25_month12 _ idle]) (simp add: idle_vars_def)
qed

lemma half_sweep_acc:
  "sweep_result_ext
     (record_run_ext decimal annual_args (month (crash25 ! 12)) idle_vars
        (record_run_ext decimal annual_args (month (crash25 ! 0)) ruined_vars empty_acc_ext)) =
   half_sweep_result"
  by (simp add: sweep_result_ext_def record_run_ext_def empty_acc_ext_def
      half_sweep_result_def Math_max_def Math_min_def median_ext_def sort_numbers_def
      num_sub_def nth_crash25 slice_def decimal_evals annual_args_fields idle_vars_def
      ruined_vars_def js_result_small)

lemma half_sweep_eval:
  "runRetirementSuccessByStartYear_ext decimal crash25 annual_args = Inr half_sweep_result"
proof -
  have len: "length crash25 = 25" by (simp add: crash25_def length_months25)
  have fits: "\<not> int (0 + durationYears annual_args * 12) > int (length crash25) - 1"
    "\<not> int (12 + durationYears annual_args * 12) > int (length crash25) - 1"
    by (simp_all add: annual_args_fields len)
  have late: "int (24 + durationYears annual_args * 12) > int (length crash25) - 1"
    by (simp add: annual_args_fields len)
  show ?thesis
    unfolding runRetirementSuccessByStartYear_ext_def buildReturns_ext_crash25 crash25_indices
      sweep_starts_ext_run [OF crash25_january(1) fits(1) gs_annual crash25_run_2000]
      sweep_starts_ext_skip [OF crash25_not_january(1)]
      sweep_starts_ext_run [OF crash25_january(2) fits(2) gs_annual crash25_run_2001]
      sweep_starts_ext_skip [OF crash25_not_january(2)]
      sweep_starts_ext_break
        [where num = decimal and monthly = crash25 and i = 24 and a = annual_args,
         OF crash25_january(3) late]
    by (simp only: sum.case half_sweep_acc)
qed

text \<open>Twelve months of data: no start year has a full year after it.\<close>

lemma empty_sweep_eval:
  "runRetirementSuccessByStartYear_ext decimal flat12 args0 = Inr empty_sweep_result"
proof -
  have jan: "decimal (slice 5 7 (month (flat12 ! 0))) = Some 1"
    by (simp add: flat12_def flat13_def months13_def slice_def decimal_evals)
  have late: "int (0 + durationYears args0 * 12) > int (length flat12) - 1"
    by (simp add: args0_def flat12_def flat13_def months13_def)
  have js: "[0 ..< length flat12] = 0 # [1 ..< 12]"
    by (simp add: flat12_def flat13_def months13_def upt_rec numeral_nat)
  have res: "sweep_result_ext empty_acc_ext = empty_sweep_result"
    by (simp add: sweep_result_ext_def empty_acc_ext_def empty_sweep_result_def)
  show ?thesis
    unfolding runRetirementSuccessByStartYear_ext_def js
      sweep_starts_ext_break
        [where num = decimal and monthly = flat12 and i = 0 and a = args0, OF jan late]
    by (simp only: sum.case res)
qed

text \<open>
  C8, as amended. In both copies, the summary of a sweep that returns counts the results
  and the passed results. When the count is positive the success rate is the quotient of
  the two counts, and the average and the median ending balance are not \<^verbatim>\<open>null\<close>; when the
  count is 0 the success rate is 0 and the four balance aggregates are \<^verbatim>\<open>null\<close>. The success
  rate, the highest and the lowest balance hit are never \<^verbatim>\<open>NaN\<close>. The average and the
  median ending balance are not \<^verbatim>\<open>NaN\<close> when the ending balance of every run is finite.
\<close>

theorem sweep_summary_ext:
  assumes "runRetirementSuccessByStartYear_ext num monthly a = Inr r \<or>
           runRetirementSuccessByStartYear_client_ext num monthly a = Inr r"
  shows "totalStartYearsTested_ext (summary_ext r) = length (results_ext r) \<and>
         successes_ext (summary_ext r) = length (filter passed_ext (results_ext r)) \<and>
         (0 < totalStartYearsTested_ext (summary_ext r) \<longrightarrow>
            successRate_ext (summary_ext r) =
              Finite (real (successes_ext (summary_ext r)) /
                      real (totalStartYearsTested_ext (summary_ext r))) \<and>
            averageEndingBalance_ext (summary_ext r) \<noteq> None \<and>
            medianEndingBalance_ext (summary_ext r) \<noteq> None) \<and>
         (totalStartYearsTested_ext (summary_ext r) = 0 \<longrightarrow>
            successRate_ext (summary_ext r) = Finite 0 \<and>
            averageEndingBalance_ext (summary_ext r) = None \<and>
            medianEndingBalance_ext (summary_ext r) = None \<and>
            highestBalanceHit_ext (summary_ext r) = None \<and>
            lowestBalanceHit_ext (summary_ext r) = None) \<and>
         successRate_ext (summary_ext r) \<noteq> NaN \<and>
         highestBalanceHit_ext (summary_ext r) \<noteq> Some NaN \<and>
         lowestBalanceHit_ext (summary_ext r) \<noteq> Some NaN \<and>
         ((\<forall>x\<in>set (results_ext r). isFinite (endingBalance_ext x)) \<longrightarrow>
            averageEndingBalance_ext (summary_ext r) \<noteq> Some NaN \<and>
            medianEndingBalance_ext (summary_ext r) \<noteq> Some NaN)"
proof -
  from assms obtain acc where r: "r = sweep_result_ext acc" and inv: "acc_inv_ext acc"
    by (rule sweep_ext_cases)
  define rs where "rs = acc_results_ext acc"
  define n where "n = length rs"
  define k where "k = length (filter passed_ext rs)"
  have kn: "k \<le> n" by (simp add: k_def n_def)
  from inv have bal: "acc_endingBalances_ext acc = map endingBalance_ext rs"
    and start: "rs = [] \<Longrightarrow> acc_highestBalanceHit_ext acc = NegInfinity \<and>
                 acc_lowestBalanceHit_ext acc = PosInfinity"
    by (simp_all add: acc_inv_ext_def rs_def)
  have rate: "successRate_ext (summary_ext r) =
      (if 0 < n then Finite (real k / real n) else Finite 0)"
    using success_rate_exact [OF _ kn]
    by (simp add: r sweep_result_ext_simps rs_def [symmetric] n_def [symmetric] k_def [symmetric])
       (simp add: n_def)
  have avg: "averageEndingBalance_ext (summary_ext r) \<noteq> Some NaN"
    if "\<forall>x\<in>set rs. isFinite (endingBalance_ext x)"
  proof (cases "rs = []")
    case True
    then show ?thesis by (simp add: r sweep_result_ext_simps rs_def [symmetric])
  next
    case False
    from that have "foldl num_add (Finite 0) (map endingBalance_ext rs) \<noteq> NaN"
      by (intro sum_not_NaN) simp_all
    then have "num_div (foldl num_add (Finite 0) (map endingBalance_ext rs)) (Finite (real n))
        \<noteq> NaN"
      using False by (intro quotient_not_NaN) (simp_all add: n_def)
    then show ?thesis
      using False by (simp add: r sweep_result_ext_simps rs_def [symmetric] bal n_def)
  qed
  have med: "medianEndingBalance_ext (summary_ext r) \<noteq> Some NaN"
    if "\<forall>x\<in>set rs. isFinite (endingBalance_ext x)"
    using median_ext_not_NaN [of "map endingBalance_ext rs"] that
    by (simp add: r sweep_result_ext_simps rs_def [symmetric] bal)
  have hits: "highestBalanceHit_ext (summary_ext r) \<noteq> Some NaN"
    "lowestBalanceHit_ext (summary_ext r) \<noteq> Some NaN"
    by (auto simp: r sweep_result_ext_simps)
  have empty: "highestBalanceHit_ext (summary_ext r) = None \<and>
      lowestBalanceHit_ext (summary_ext r) = None" if "rs = []"
    using start [OF that] by (simp add: r sweep_result_ext_simps)
  have counts: "totalStartYearsTested_ext (summary_ext r) = n"
    "successes_ext (summary_ext r) = k" "results_ext r = rs"
    by (simp_all add: r sweep_result_ext_simps rs_def n_def k_def)
  have some: "averageEndingBalance_ext (summary_ext r) \<noteq> None \<and>
      medianEndingBalance_ext (summary_ext r) \<noteq> None" if "0 < n"
    using that by (simp add: r sweep_result_ext_simps rs_def [symmetric] bal n_def
        median_ext_empty)
  have none: "averageEndingBalance_ext (summary_ext r) = None \<and>
      medianEndingBalance_ext (summary_ext r) = None" if "n = 0"
    using that by (simp add: r sweep_result_ext_simps rs_def [symmetric] n_def)
  show ?thesis
    unfolding counts
    using rate avg med hits empty some none
    by (simp add: n_def k_def)
qed

theorem sweep_summary_ext_witness:
  "runRetirementSuccessByStartYear_ext decimal crash25 annual_args = Inr half_sweep_result \<and>
   map endingBalance_ext (results_ext half_sweep_result) = [Finite 0, Finite 940] \<and>
   map passed_ext (results_ext half_sweep_result) = [False, True] \<and>
   totalStartYearsTested_ext (summary_ext half_sweep_result) = 2 \<and>
   successes_ext (summary_ext half_sweep_result) = 1 \<and>
   successRate_ext (summary_ext half_sweep_result) = Finite (1 / 2) \<and>
   averageEndingBalance_ext (summary_ext half_sweep_result) = Some (Finite 470) \<and>
   medianEndingBalance_ext (summary_ext half_sweep_result) = Some (Finite 470) \<and>
   runRetirementSuccessByStartYear_ext decimal flat12 args0 = Inr empty_sweep_result \<and>
   totalStartYearsTested_ext (summary_ext empty_sweep_result) = 0 \<and>
   successRate_ext (summary_ext empty_sweep_result) = Finite 0 \<and>
   averageEndingBalance_ext (summary_ext empty_sweep_result) = None \<and>
   medianEndingBalance_ext (summary_ext empty_sweep_result) = None \<and>
   highestBalanceHit_ext (summary_ext empty_sweep_result) = None \<and>
   lowestBalanceHit_ext (summary_ext empty_sweep_result) = None"
proof -
  have fin: "\<forall>x\<in>set (results_ext half_sweep_result). isFinite (endingBalance_ext x)"
    by (simp add: half_sweep_result_def)
  from sweep_summary_ext [OF disjI1 [OF half_sweep_eval]] fin
    sweep_summary_ext [OF disjI1 [OF empty_sweep_eval]]
  show ?thesis
    using half_sweep_eval empty_sweep_eval
    by (simp add: half_sweep_result_def empty_sweep_result_def)
qed

text \<open>
  The claim as stated fails where a balance overflows: under the guardrails policy the
  withdrawal follows the balance to infinity, the balance that is left is \<^verbatim>\<open>NaN\<close>, and so
  are the average and the median ending balance of the summary.
\<close>

theorem sweep_summary_NaN_counterexample:
  "initialBalance overflow_args = 2 ^ 1023 \<and>
   runRetirementSuccessByStartYear_ext decimal boom13 overflow_args = Inr overflow_sweep_result \<and>
   totalStartYearsTested_ext (summary_ext overflow_sweep_result) = 1 \<and>
   averageEndingBalance_ext (summary_ext overflow_sweep_result) = Some NaN \<and>
   medianEndingBalance_ext (summary_ext overflow_sweep_result) = Some NaN"
  using overflow_sweep_eval
  by (simp add: overflow_sweep_result_def overflow_args_fields huge_balance_def)

text \<open>
  C5. The single run records the balance 0 of the month of ruin in its extrema, as
  \<open>run_extrema\<close> shows for every run. The sweep leaves its inner loop before it updates
  the extrema: for the plan ruined in its second month the single run has the lowest
  balance 0, and both copies of the sweep report the lowest balance 400 next to the
  ending balance 0.
\<close>

theorem sweep_extrema_skip_ruin_month:
  "runRetirementMonthly decimal flat13 ruin_args ''2000-01'' = Inr ruin_result \<and>
   map snap_value (series ruin_result) = [400, 0] \<and>
   lowestBalance ruin_result = 0 \<and>
   runRetirementSuccessByStartYear decimal flat13 ruin_args = Inr ruin_sweep_result \<and>
   runRetirementSuccessByStartYear_client decimal flat13 ruin_args = Inr ruin_sweep_result \<and>
   map endingBalance (results ruin_sweep_result) = [0] \<and>
   map yo_lowestBalance (results ruin_sweep_result) = [400] \<and>
   lowestBalanceHit (summary ruin_sweep_result) = Some 400"
  using run_ruin_eval sweep_ruin_eval sweep_client_ruin_eval
  by (simp add: ruin_result_def ruin_sweep_result_def)

section \<open>Failures of a run\<close>

lemma computeWithdrawal_known_mode:
  assumes "known_mode mode"
  shows "\<exists>res. computeWithdrawal mode r ib b f cr cfg ytd isW base fac = Inr res"
  using assms unfolding known_mode_def computeWithdrawal_def Let_def
  by (cases isW) auto

lemma computeWithdrawal_unknown_mode:
  assumes "\<not> known_mode mode"
  shows "computeWithdrawal mode r ib b f cr cfg ytd True base fac = Inl UnknownMode"
  using assms unfolding known_mode_def computeWithdrawal_def by simp

lemma run_month_total:
  assumes "0 < baseRateDecimal a" and "known_mode (withdrawMode a)"
  shows "\<exists>s'. run_month num monthly returns a cfg i s = Inr s'"
proof -
  from assms(1) have rate: "\<not> baseRateDecimal a \<le> 0" by simp
  show ?thesis
    unfolding run_month_def Let_def
    using computeWithdrawal_known_mode [OF assms(2)] rate
    by (simp only: if_False split: sum.split) (metis sum.distinct(1) sum.inject(2))
qed


lemma run_month_rate_error:
  assumes "baseRateDecimal a \<le> 0"
  shows "run_month num monthly returns a cfg i s = Inl WithdrawRate"
  unfolding run_month_def Let_def using assms by (simp only: if_True)

lemma run_month_unknown_mode:
  assumes "\<not> known_mode (withdrawMode a)" and "withdrawFrequency a = ''monthly''"
  shows "isl (run_month num monthly returns a cfg i s)"
proof (cases "baseRateDecimal a \<le> 0")
  case True
  then show ?thesis by (simp add: run_month_rate_error)
next
  case False
  have "(if withdrawFrequency a = ''monthly'' then True else X) = True" for X
    using assms(2) by simp
  then show ?thesis
    unfolding run_month_def Let_def
    using False computeWithdrawal_unknown_mode [OF assms(1)]
    by (simp only: if_False sum.case sum.disc)
qed

lemma run_months_total:
  assumes "0 < baseRateDecimal a" and "known_mode (withdrawMode a)"
  shows "\<exists>s'. run_months num monthly returns a cfg js s = Inr s'"
proof (induction js arbitrary: s)
  case Nil
  show ?case by simp
next
  case (Cons i rest)
  from run_month_total [OF assms] obtain s1 where
    "run_month num monthly returns a cfg i s = Inr s1" by blast
  with Cons.IH [of s1] show ?case by simp
qed

lemma run_months_first_error:
  assumes "isl (run_month num monthly returns a cfg i s)"
  shows "isl (run_months num monthly returns a cfg (i # rest) s)"
  using assms by (cases "run_month num monthly returns a cfg i s") simp_all

lemma valid_config_setup:
  assumes "valid_config a"
  shows "\<exists>rate0 cfg. guardrails_setup a = Inr (rate0, cfg)"
    and "\<exists>rate0 cfg. guardrails_setup_client a = Inr (rate0, cfg)"
    and "0 < baseRateDecimal a" and "known_mode (withdrawMode a)"
  using assms
  by (auto simp: valid_config_def guardrails_setup_def guardrails_setup_client_def
      baseRateDecimal_def Let_def)

text \<open>
  When the library's run fails, for a valid policy configuration: the bound leaves the
  last month of the series out.
\<close>

lemma runRetirementMonthly_fails_iff:
  assumes "valid_config a"
  shows "isl (runRetirementMonthly num monthly a startMonth) \<longleftrightarrow>
         (case findMonthIndex num monthly startMonth of
            None \<Rightarrow> True
          | Some startIdx \<Rightarrow> startIdx + durationYears a * 12 \<ge> length monthly)"
proof (cases "findMonthIndex num monthly startMonth")
  case None
  then show ?thesis by (simp add: runRetirementMonthly_def)
next
  case (Some startIdx)
  from valid_config_setup [OF assms] obtain rate0 cfg where
    gs: "guardrails_setup a = Inr (rate0, cfg)"
    and ok: "0 < baseRateDecimal a" "known_mode (withdrawMode a)"
    by blast
  from run_months_total [OF ok] obtain s' where
    "run_months num monthly (buildReturns monthly) a cfg
       [startIdx ..< startIdx + durationYears a * 12]
       (initial_state num monthly a startIdx rate0) = Inr s'"
    by blast
  then show ?thesis
    by (auto simp: runRetirementMonthly_def Some gs Let_def)
qed

text \<open>When the browser copy fails, for a valid policy configuration.\<close>

lemma runRetirementMonthly_client_fails_iff:
  assumes "valid_config a"
  shows "isl (runRetirementMonthly_client num monthly a startMonth) \<longleftrightarrow>
         (case findMonthIndex num monthly startMonth of
            None \<Rightarrow> True
          | Some startIdx \<Rightarrow> startIdx + durationYears a * 12 > length monthly)"
proof (cases "findMonthIndex num monthly startMonth")
  case None
  then show ?thesis by (simp add: runRetirementMonthly_client_def)
next
  case (Some startIdx)
  from valid_config_setup [OF assms] obtain rate0 cfg where
    gs: "guardrails_setup_client a = Inr (rate0, cfg)"
    and ok: "0 < baseRateDecimal a" "known_mode (withdrawMode a)"
    by blast
  from run_months_total [OF ok] obtain s' where
    "run_months num monthly (buildReturns monthly) a cfg
       [startIdx ..< startIdx + durationYears a * 12]
       (initial_state num monthly a startIdx rate0) = Inr s'"
    by blast
  then show ?thesis
    using ok(1)
    by (auto simp: runRetirementMonthly_client_def Some gs Let_def run_months_client_eq)
qed

lemma valid_config_args0: "valid_config args0"
  by (simp add: valid_config_def known_mode_def args0_def)

text \<open>
  C2. Both copies test the start month and the data bound before the loop, and the browser
  copy fails, for a valid configuration, exactly when the start month is absent or
  \<open>startIdx + durationYears * 12\<close> exceeds the length of the series
  (\<open>runRetirementMonthly_client_fails_iff\<close>). The library's bound is off by one
  (\<open>runRetirementMonthly_fails_iff\<close>): on twelve months of data and a duration of one year
  from the first month, \<open>0 + 12\<close> does not exceed the length 12, the browser copy
  returns a result and the library fails for lack of data.
\<close>

theorem not_enough_data_off_by_one:
  "findMonthIndex decimal flat12 ''2000-01'' = Some 0 \<and>
   0 + durationYears args0 * 12 = length flat12 \<and>
   withdrawMode args0 = ''percentOfInitial'' \<and> 0 < withdrawValue args0 \<and>
   runRetirementMonthly decimal flat12 args0 ''2000-01'' = Inl NotEnoughData \<and>
   \<not> isl (runRetirementMonthly_client decimal flat12 args0 ''2000-01'')"
proof -
  have fits: "0 + durationYears args0 * 12 = length flat12"
    by (simp add: args0_def flat12_def flat13_def months13_def)
  have "isl (runRetirementMonthly_client decimal flat12 args0 ''2000-01'') \<longleftrightarrow>
        0 + durationYears args0 * 12 > length flat12"
    using runRetirementMonthly_client_fails_iff [OF valid_config_args0, of decimal flat12 "''2000-01''"]
    by (simp only: findMonthIndex_evals option.case)
  then have "\<not> isl (runRetirementMonthly_client decimal flat12 args0 ''2000-01'')"
    by (simp only: fits less_irrefl simp_thms)
  moreover have "withdrawMode args0 = ''percentOfInitial''" "0 < withdrawValue args0"
    by (simp_all add: args0_def)
  ultimately show ?thesis
    using fits run_flat12_eval findMonthIndex_evals(3) by (intro conjI)
qed

section \<open>Configuration errors\<close>

lemma sweep_month_total:
  assumes "known_mode (withdrawMode a)"
  shows "\<exists>v'. sweep_month num monthly returns a cfg i v = Inr v'"
  unfolding sweep_month_def Let_def
  using computeWithdrawal_known_mode [OF assms]
  by (simp only: split: sum.split) (metis sum.distinct(1) sum.inject(2))

lemma sweep_months_total:
  assumes "known_mode (withdrawMode a)"
  shows "\<exists>v'. sweep_months num monthly returns a cfg js v = Inr v'"
proof (induction js arbitrary: v)
  case Nil
  show ?case by simp
next
  case (Cons i rest)
  from sweep_month_total [OF assms] obtain v1 where
    "sweep_month num monthly returns a cfg i v = Inr v1" by blast
  with Cons.IH [of v1] show ?case by simp
qed

lemma sweep_starts_total:
  assumes "known_mode (withdrawMode a)"
  shows "\<exists>acc'. sweep_starts num monthly returns a js acc = Inr acc'"
proof (induction js arbitrary: acc)
  case Nil
  show ?case by simp
next
  case (Cons i rest)
  from sweep_months_total [OF assms] obtain v where
    "sweep_months num monthly returns a (snd (guardrails_setup_sweep a))
       [i ..< i + durationYears a * 12]
       (sweep_initial num a (month (monthly ! i)) (fst (guardrails_setup_sweep a))) = Inr v"
    by blast
  with Cons.IH show ?case by simp
qed

text \<open>The library's sweep returns a result for every configuration with a known policy tag.\<close>

lemma sweep_total:
  assumes "known_mode (withdrawMode a)"
  shows "\<not> isl (runRetirementSuccessByStartYear num monthly a)"
proof -
  from sweep_starts_total [OF assms] obtain acc where
    "sweep_starts num monthly (buildReturns monthly) a [0 ..< length monthly] empty_acc = Inr acc"
    by blast
  then show ?thesis by (simp add: runRetirementSuccessByStartYear_def)
qed

lemma sweep_month_unknown_mode:
  assumes "\<not> known_mode (withdrawMode a)"
    and "withdrawFrequency a = ''monthly'' \<or> num (slice 5 7 (month (monthly ! i))) = Some 1"
  shows "isl (sweep_month num monthly returns a cfg i v)"
proof -
  have "(if withdrawFrequency a = ''monthly'' then True
         else num (slice 5 7 (month (monthly ! i))) = Some 1) = True"
    using assms(2) by auto
  then show ?thesis
    unfolding sweep_month_def Let_def
    using computeWithdrawal_unknown_mode [OF assms(1)]
    by (simp only: sum.case sum.disc)
qed

lemma sweep_months_first_error:
  assumes "isl (sweep_month num monthly returns a cfg i v)"
  shows "isl (sweep_months num monthly returns a cfg (i # rest) v)"
  using assms by (cases "sweep_month num monthly returns a cfg i v") simp_all

lemma sweep_starts_unknown_mode:
  assumes "\<not> known_mode (withdrawMode a)" and "0 < durationYears a"
    and "sweep_starts num monthly returns a js acc = Inr acc'"
  shows "acc' = acc"
  using assms(3)
proof (induction js)
  case Nil
  then show ?case by simp
next
  case (Cons i rest)
  show ?case
  proof (cases "num (slice 5 7 (month (monthly ! i))) = Some 1")
    case False
    with Cons show ?thesis by simp
  next
    case True
    show ?thesis
    proof (cases "int (i + durationYears a * 12) > int (length monthly) - 1")
      case True
      with \<open>num (slice 5 7 (month (monthly ! i))) = Some 1\<close> Cons.prems show ?thesis by simp
    next
      case False
      have js: "[i ..< i + durationYears a * 12] = i # [Suc i ..< i + durationYears a * 12]"
        using assms(2) by (simp add: upt_conv_Cons)
      have "isl (sweep_months num monthly returns a (snd (guardrails_setup_sweep a))
               [i ..< i + durationYears a * 12]
               (sweep_initial num a (month (monthly ! i)) (fst (guardrails_setup_sweep a))))"
        unfolding js
        by (rule sweep_months_first_error)
           (rule sweep_month_unknown_mode
              [where num = num and monthly = monthly and i = i, OF assms(1) disjI2 [OF True]])
      with True False Cons.prems show ?thesis
        by (auto split: sum.splits)
    qed
  qed
qed

lemma sweep_starts_client_unknown_mode:
  assumes "\<not> known_mode (withdrawMode a)" and "0 < durationYears a"
    and "sweep_starts_client num monthly returns a js acc = Inr acc'"
  shows "acc' = acc"
  using assms(3)
proof (induction js)
  case Nil
  then show ?case by simp
next
  case (Cons i rest)
  show ?case
  proof (cases "num (slice 5 7 (month (monthly ! i))) = Some 1")
    case False
    with Cons show ?thesis by simp
  next
    case True
    show ?thesis
    proof (cases "i + durationYears a * 12 > length monthly")
      case True
      with \<open>num (slice 5 7 (month (monthly ! i))) = Some 1\<close> Cons.prems show ?thesis by simp
    next
      case False
      have js: "[i ..< i + durationYears a * 12] = i # [Suc i ..< i + durationYears a * 12]"
        using assms(2) by (simp add: upt_conv_Cons)
      have "isl (sweep_months num monthly returns a (snd (guardrails_setup_sweep a))
               [i ..< i + durationYears a * 12]
               (sweep_initial num a (month (monthly ! i)) (fst (guardrails_setup_sweep a))))"
        unfolding js
        by (rule sweep_months_first_error)
           (rule sweep_month_unknown_mode
              [where num = num and monthly = monthly and i = i, OF assms(1) disjI2 [OF True]])
      with True False Cons.prems show ?thesis
        by (auto split: sum.splits simp: sweep_months_client_eq)
    qed
  qed
qed

lemma guardrails_setup_bad_bounds:
  assumes "withdrawMode a = ''guardrails''" and "guardrailsMinPct a > guardrailsMaxPct a"
  shows "isl (guardrails_setup a)" and "guardrails_setup_client a = Inl GuardrailsMinMax"
  using assms by (simp_all add: guardrails_setup_def guardrails_setup_client_def Let_def)

text \<open>
  C6, as amended. A configuration error makes the functions that test it fail, and a
  failure returns no result. A non-positive withdraw rate makes the library's run fail
  when the duration is at least one year (the test sits in the loop), the browser's run
  fail, and the browser's sweep fail before any run. Guardrails bounds with
  \<open>min > max\<close> make both copies of the run fail before the loop. An unrecognised policy
  tag is found by the evaluator in the first withdrawal month: both copies of the run
  fail when the frequency is monthly and the duration is at least one year, and a sweep
  of at least one year returns a result only when no start year was run. An unspecified
  inflation assumption is 3, a blank dollar floor is 0.
\<close>

theorem configuration_errors_fail:
  "(withdrawValue a \<le> 0 \<and> 0 < durationYears a \<longrightarrow>
      isl (runRetirementMonthly num monthly a startMonth)) \<and>
   (withdrawValue a \<le> 0 \<longrightarrow>
      isl (runRetirementMonthly_client num monthly a startMonth) \<and>
      runRetirementSuccessByStartYear_client num monthly a = Inl WithdrawRate) \<and>
   (withdrawMode a = ''guardrails'' \<and> guardrailsMinPct a > guardrailsMaxPct a \<longrightarrow>
      isl (runRetirementMonthly num monthly a startMonth) \<and>
      isl (runRetirementMonthly_client num monthly a startMonth)) \<and>
   (\<not> known_mode (withdrawMode a) \<and> withdrawFrequency a = ''monthly'' \<and>
    0 < durationYears a \<longrightarrow>
      isl (runRetirementMonthly num monthly a startMonth) \<and>
      isl (runRetirementMonthly_client num monthly a startMonth)) \<and>
   (\<not> known_mode (withdrawMode a) \<and> 0 < durationYears a \<and>
    (runRetirementSuccessByStartYear num monthly a = Inr r \<or>
     runRetirementSuccessByStartYear_client num monthly a = Inr r) \<longrightarrow>
      results r = []) \<and>
   monthlyInfl (a\<lparr>percentOfCurrentAnnualInflationPct := None\<rparr>) =
     monthlyInfl (a\<lparr>percentOfCurrentAnnualInflationPct := Some 3\<rparr>) \<and>
   minDollarFloor_of None = 0"
proof (intro conjI impI)
  have first: "[i ..< i + durationYears a * 12] = i # [Suc i ..< i + durationYears a * 12]"
    if "0 < durationYears a" for i
    using that by (simp add: upt_conv_Cons)
  {
    assume "withdrawValue a \<le> 0 \<and> 0 < durationYears a"
    then have rate: "baseRateDecimal a \<le> 0" and dur: "0 < durationYears a"
      by (simp_all add: baseRateDecimal_def)
    have "isl (run_months num monthly returns a cfg [i ..< i + durationYears a * 12] s)"
      for returns cfg i s
      unfolding first [OF dur]
      by (rule run_months_first_error) (simp add: run_month_rate_error [OF rate])
    then show "isl (runRetirementMonthly num monthly a startMonth)"
      by (simp add: runRetirementMonthly_def Let_def split: option.splits sum.splits)
  }
  {
    assume "withdrawValue a \<le> 0"
    then have rate: "baseRateDecimal a \<le> 0" by (simp add: baseRateDecimal_def)
    then show "isl (runRetirementMonthly_client num monthly a startMonth)"
      by (simp add: runRetirementMonthly_client_def Let_def split: option.splits)
    from rate show "runRetirementSuccessByStartYear_client num monthly a = Inl WithdrawRate"
      by (simp add: runRetirementSuccessByStartYear_client_def)
  }
  {
    assume "withdrawMode a = ''guardrails'' \<and> guardrailsMinPct a > guardrailsMaxPct a"
    then have bad: "isl (guardrails_setup a)" "guardrails_setup_client a = Inl GuardrailsMinMax"
      using guardrails_setup_bad_bounds [of a] by simp_all
    from bad(1) show "isl (runRetirementMonthly num monthly a startMonth)"
      by (cases "guardrails_setup a")
         (simp_all add: runRetirementMonthly_def Let_def split: option.splits)
    from bad(2) show "isl (runRetirementMonthly_client num monthly a startMonth)"
      by (simp add: runRetirementMonthly_client_def Let_def split: option.splits)
  }
  {
    assume "\<not> known_mode (withdrawMode a) \<and> withdrawFrequency a = ''monthly'' \<and>
      0 < durationYears a"
    then have mode: "\<not> known_mode (withdrawMode a)" and freq: "withdrawFrequency a = ''monthly''"
      and dur: "0 < durationYears a"
      by simp_all
    have loop: "isl (run_months num monthly returns a cfg [i ..< i + durationYears a * 12] s)"
      for returns cfg i s
      unfolding first [OF dur]
      by (rule run_months_first_error) (rule run_month_unknown_mode [OF mode freq])
    then show "isl (runRetirementMonthly num monthly a startMonth)"
      by (simp add: runRetirementMonthly_def Let_def split: option.splits sum.splits)
    show "isl (runRetirementMonthly_client num monthly a startMonth)"
    proof (cases "baseRateDecimal a \<le> 0")
      case True
      then show ?thesis
        by (simp add: runRetirementMonthly_client_def Let_def split: option.splits)
    next
      case False
      then have "0 < baseRateDecimal a" by simp
      from loop show ?thesis
        by (simp add: runRetirementMonthly_client_def Let_def
            run_months_client_eq [OF \<open>0 < baseRateDecimal a\<close>]
            split: option.splits sum.splits)
    qed
  }
  {
    assume asm: "\<not> known_mode (withdrawMode a) \<and> 0 < durationYears a \<and>
      (runRetirementSuccessByStartYear num monthly a = Inr r \<or>
       runRetirementSuccessByStartYear_client num monthly a = Inr r)"
    then have mode: "\<not> known_mode (withdrawMode a)" and dur: "0 < durationYears a" by simp_all
    from asm have "runRetirementSuccessByStartYear num monthly a = Inr r \<or>
       runRetirementSuccessByStartYear_client num monthly a = Inr r" by simp
    then show "results r = []"
    proof
      assume "runRetirementSuccessByStartYear num monthly a = Inr r"
      then obtain acc where
        "sweep_starts num monthly (buildReturns monthly) a [0 ..< length monthly] empty_acc =
           Inr acc" and r: "r = sweep_result acc"
        by (auto simp: runRetirementSuccessByStartYear_def split: sum.splits)
      from sweep_starts_unknown_mode [OF mode dur this(1)] r show ?thesis
        by (simp add: sweep_result_def empty_acc_def Let_def)
    next
      assume "runRetirementSuccessByStartYear_client num monthly a = Inr r"
      then obtain acc where
        "sweep_starts_client num monthly (buildReturns monthly) a [0 ..< length monthly]
           empty_acc = Inr acc" and r: "r = sweep_result acc"
        by (auto simp: runRetirementSuccessByStartYear_client_def split: sum.splits if_splits)
      from sweep_starts_client_unknown_mode [OF mode dur this(1)] r show ?thesis
        by (simp add: sweep_result_def empty_acc_def Let_def)
    qed
  }
  show "monthlyInfl (a\<lparr>percentOfCurrentAnnualInflationPct := None\<rparr>) =
     monthlyInfl (a\<lparr>percentOfCurrentAnnualInflationPct := Some 3\<rparr>)"
    by (simp add: monthlyInfl_def)
  show "minDollarFloor_of None = 0" by (simp add: minDollarFloor_of_def)
qed

theorem configuration_errors_fail_witness:
  "withdrawValue zero_rate_args \<le> 0 \<and> 0 < durationYears zero_rate_args \<and>
   isl (runRetirementMonthly decimal flat13 zero_rate_args ''2000-01'') \<and>
   isl (runRetirementMonthly_client decimal flat13 zero_rate_args ''2000-01'') \<and>
   runRetirementSuccessByStartYear_client decimal flat13 zero_rate_args = Inl WithdrawRate"
  using configuration_errors_fail [of zero_rate_args decimal flat13 "''2000-01''"]
  by (simp add: zero_rate_args_def args0_def)

text \<open>
  The claim as stated fails for the library's sweep, which makes no test of the rate: with
  the withdraw rate 0 it returns a result.
\<close>

theorem sweep_accepts_zero_rate_counterexample:
  "withdrawValue zero_rate_args \<le> 0 \<and>
   \<not> isl (runRetirementSuccessByStartYear decimal flat13 zero_rate_args)"
  using sweep_total [of zero_rate_args decimal flat13]
  by (simp add: zero_rate_args_def args0_def known_mode_def)

end
